theory Spec2Isabelle
  imports Main "HOL-Library.Word"
begin

section \<open>The changefeed state manager (package owner, feedStateManager)\<close>

text \<open>
  A shallow embedding of the feed state manager: the manager struct is a record that
  every method takes and returns, a panic (a nil dereference or \<open>log.Panic\<close>) is the left
  summand of the result, and the patch closures handed to the reactor state are HOL
  functions kept in the list of pending patches, in the order of the calls.
\<close>

subsection \<open>Data of package model\<close>

text \<open>
  The declarations of package \<open>model\<close> are taken from their use in the manager and from
  the data model of the specification: the feed states and the admin job types are closed
  enumerations, and only the fields that the manager reads or writes are kept.
\<close>

datatype FeedState =
  StateNormal | StateError | StateWarning | StateStopped | StateFailed | StateFinished
  | StateRemoved

datatype AdminJobType = AdminNone | AdminStop | AdminResume | AdminRemove | AdminFinish

record ChangeFeedID =
  Namespace :: string
  ID :: string

record RunningError =
  Addr :: string
  Code :: string
  Message :: string

record ChangeFeedInfo =
  State :: FeedState
  AdminJobType :: AdminJobType
  Error :: "RunningError option"
  Warning :: "RunningError option"
  Epoch :: "64 word"
  StartTs :: "64 word"

record ChangeFeedStatus =
  ResolvedTs :: "64 word"
  CheckpointTs :: "64 word"
  MinTableBarrierTs :: "64 word"
  StatusAdminJobType :: AdminJobType

record TaskPosition =
  PosError :: "RunningError option"
  PosWarning :: "RunningError option"

record AdminJob =
  CfID :: ChangeFeedID
  Type :: AdminJobType
  OverwriteCheckpointTs :: "64 word"

subsection \<open>Panics, time and the collaborators\<close>

datatype panic = NilDereference | LogPanic

text \<open>
  A \<open>time.Time\<close> is either built by \<open>time.Unix\<close> (wall clock only) or read by
  \<open>time.Now\<close> (it then carries a monotonic reading, so that it never equals a value of
  \<open>time.Unix\<close> under \<open>==\<close>). Clock readings and durations are nanoseconds, as
  unbounded integers: the saturation of a duration at 292 years is left out.
\<close>

datatype Time = Unix int int | Now int

fun time_Since :: "int \<Rightarrow> Time \<Rightarrow> int" where
  "time_Since now (Now t) = now - t"
| "time_Since now (Unix sec nsec) = now - (sec * 1000000000 + nsec)"

text \<open>
  The two readings of the clock that one call of the error handler makes: \<open>time.Now()\<close>
  when it records the time of the error, and the later one inside \<open>time.Since\<close>.
\<close>

record Clock =
  timeNow :: int
  timeSinceNow :: int

text \<open>
  The exponential backoff object of the third-party library is a parameter: a state of
  any type \<open>'b\<close> with the three members that the manager uses. The randomisation and the
  elapsed time that the library consults belong to that state.
\<close>

record 'b ExponentialBackOff =
  Reset :: "'b \<Rightarrow> 'b"
  NextBackOff :: "'b \<Rightarrow> int \<times> 'b"
  Stop :: "'b \<Rightarrow> int"

text \<open>The classification of errors (package \<open>cerrors\<close> and \<open>model.RunningError\<close>).\<close>

record ErrorClassifier =
  IsChangefeedFastFailErrorCode :: "string \<Rightarrow> bool"
  IsChangefeedUnRetryableError :: "RunningError \<Rightarrow> bool"

text \<open>
  What \<open>GenerateChangefeedEpoch\<close> meets when it runs: the answer of the time oracle to
  \<open>GetTS\<close> (\<open>None\<close> for an error) and the local wall clock in nanoseconds.
\<close>

record PDClient =
  GetTS :: "(64 word \<times> 64 word) option"
  UnixNano :: "64 word"

text \<open>
  Modelled from the spec: \<open>oracle.ComposeTS\<close>, which is not part of the sources; the
  specification gives the composition of the physical and the logical part.
\<close>

definition ComposeTS :: "64 word \<Rightarrow> 64 word \<Rightarrow> 64 word" where
  "ComposeTS physical logical =
     or (push_bit 18 physical) (and logical (push_bit 18 1 - 1))"

definition GenerateChangefeedEpoch :: "PDClient \<Rightarrow> 64 word" where
  "GenerateChangefeedEpoch pdClient =
     (case GetTS pdClient of
        None \<Rightarrow> UnixNano pdClient
      | Some (phyTs, logical) \<Rightarrow> ComposeTS phyTs logical)"

subsection \<open>The reactor state and its patches\<close>

text \<open>
  A patch closure receives the latest value (\<open>None\<close> for nil) and returns the new value,
  whether it changed, and an error; it may panic. The closure for the info also receives
  the oracle client that it would call for a fresh epoch.
\<close>

type_synonym 'a PatchResult = "panic + ('a option \<times> bool \<times> string option)"

datatype DataPatch =
  InfoPatch "PDClient \<Rightarrow> ChangeFeedInfo option \<Rightarrow> ChangeFeedInfo PatchResult"
  | StatusPatch "ChangeFeedStatus option \<Rightarrow> ChangeFeedStatus PatchResult"
  | TaskPositionPatch string "TaskPosition option \<Rightarrow> TaskPosition PatchResult"

text \<open>
  Modelled from the spec: \<open>orchestrator.ChangefeedReactorState\<close>, which is not part of
  the sources. It holds the identifier, the latest info, status and task positions, and
  the patch closures enqueued on it; \<open>PatchInfo\<close>, \<open>PatchStatus\<close> and
  \<open>PatchTaskPosition\<close> enqueue a closure and change nothing else. The task positions are
  the map from capture to position (none of them nil), listed in the order in which a
  \<open>range\<close> visits it.
\<close>

record ChangefeedReactorState =
  StateID :: ChangeFeedID
  Info :: "ChangeFeedInfo option"
  Status :: "ChangeFeedStatus option"
  TaskPositions :: "(string \<times> TaskPosition) list"
  pendingPatches :: "DataPatch list"

definition PatchInfo ::
  "(PDClient \<Rightarrow> ChangeFeedInfo option \<Rightarrow> ChangeFeedInfo PatchResult) \<Rightarrow>
   ChangefeedReactorState \<Rightarrow> ChangefeedReactorState" where
  "PatchInfo fn s = s\<lparr>pendingPatches := pendingPatches s @ [InfoPatch fn]\<rparr>"

definition PatchStatus ::
  "(ChangeFeedStatus option \<Rightarrow> ChangeFeedStatus PatchResult) \<Rightarrow>
   ChangefeedReactorState \<Rightarrow> ChangefeedReactorState" where
  "PatchStatus fn s = s\<lparr>pendingPatches := pendingPatches s @ [StatusPatch fn]\<rparr>"

definition PatchTaskPosition ::
  "string \<Rightarrow> (TaskPosition option \<Rightarrow> TaskPosition PatchResult) \<Rightarrow>
   ChangefeedReactorState \<Rightarrow> ChangefeedReactorState" where
  "PatchTaskPosition captureID fn s =
     s\<lparr>pendingPatches := pendingPatches s @ [TaskPositionPatch captureID fn]\<rparr>"

subsection \<open>The manager\<close>

definition defaultStateWindowSize :: nat where
  "defaultStateWindowSize = 512"

text \<open>
  \<open>state\<close> is \<open>None\<close> until the first tick binds it. \<open>stateHistory\<close> is the array of
  \<open>defaultStateWindowSize\<close> samples. The field \<open>upstream\<close> only reaches the oracle client,
  which the info closures receive when they are applied.
\<close>

record 'b feedStateManager =
  state :: "ChangefeedReactorState option"
  shouldBeRunning :: bool
  shouldBeRemoved :: bool
  adminJobQueue :: "AdminJob list"
  stateHistory :: "FeedState list"
  lastErrorTime :: Time
  backoffInterval :: int
  errBackoff :: 'b

definition resetErrBackoff ::
  "'b ExponentialBackOff \<Rightarrow> 'b feedStateManager \<Rightarrow> 'b feedStateManager" where
  "resetErrBackoff bo m =
     (let (interval, b) = NextBackOff bo (Reset bo (errBackoff m))
      in m\<lparr>errBackoff := b, backoffInterval := interval\<rparr>)"

definition isChangefeedStable :: "'b feedStateManager \<Rightarrow> bool" where
  "isChangefeedStable m = list_all (\<lambda>val. val = StateNormal) (stateHistory m)"

definition shiftStateWindow :: "FeedState \<Rightarrow> 'b feedStateManager \<Rightarrow> 'b feedStateManager" where
  "shiftStateWindow st m =
     m\<lparr>stateHistory :=
         (foldl (\<lambda>h i. h[i := h ! (i + 1)]) (stateHistory m) [0..<defaultStateWindowSize - 1])
           [defaultStateWindowSize - 1 := st]\<rparr>"

definition ShouldRunning :: "'b feedStateManager \<Rightarrow> bool" where
  "ShouldRunning m = shouldBeRunning m"

definition ShouldRemoved :: "'b feedStateManager \<Rightarrow> bool" where
  "ShouldRemoved m = shouldBeRemoved m"

definition popAdminJob :: "'b feedStateManager \<Rightarrow> AdminJob option \<times> 'b feedStateManager" where
  "popAdminJob m =
     (case adminJobQueue m of
        [] \<Rightarrow> (None, m)
      | job # rest \<Rightarrow> (Some job, m\<lparr>adminJobQueue := rest\<rparr>))"

definition pushAdminJob :: "AdminJob \<Rightarrow> 'b feedStateManager \<Rightarrow> 'b feedStateManager" where
  "pushAdminJob job m = m\<lparr>adminJobQueue := adminJobQueue m @ [job]\<rparr>"

definition MarkFinished :: "'b feedStateManager \<Rightarrow> 'b feedStateManager" where
  "MarkFinished m =
     (case state m of
        None \<Rightarrow> m
      | Some s \<Rightarrow>
          pushAdminJob \<lparr>CfID = StateID s, Type = AdminFinish, OverwriteCheckpointTs = 0\<rparr> m)"

text \<open>
  The arguments of the panic message read \<open>m.state.ID\<close> and \<open>m.state.Info.State\<close> before
  \<open>log.Panic\<close> runs.
\<close>

definition PushAdminJob :: "AdminJob \<Rightarrow> 'b feedStateManager \<Rightarrow> panic + 'b feedStateManager" where
  "PushAdminJob job m =
     (if Type job = AdminStop \<or> Type job = AdminResume \<or> Type job = AdminRemove
      then Inr (pushAdminJob job m)
      else (case state m of
              None \<Rightarrow> Inl NilDereference
            | Some s \<Rightarrow> (case Info s of None \<Rightarrow> Inl NilDereference | Some info \<Rightarrow> Inl LogPanic)))"

subsection \<open>Sequencing with panics\<close>

definition andThen :: "panic + 'a \<Rightarrow> ('a \<Rightarrow> panic + 'c) \<Rightarrow> panic + 'c" where
  "andThen r f = (case r of Inl p \<Rightarrow> Inl p | Inr x \<Rightarrow> f x)"

text \<open>A call of a method of \<open>m.state\<close>: it dereferences the pointer.\<close>

definition onState ::
  "(ChangefeedReactorState \<Rightarrow> ChangefeedReactorState) \<Rightarrow> 'b feedStateManager \<Rightarrow>
   panic + 'b feedStateManager" where
  "onState f m =
     (case state m of
        None \<Rightarrow> Inl NilDereference
      | Some s \<Rightarrow> Inr (m\<lparr>state := Some (f s)\<rparr>))"

subsection \<open>patchState\<close>

definition patchState_switch :: "FeedState \<Rightarrow> (AdminJobType \<times> bool) option" where
  "patchState_switch feedState =
     (case feedState of
        StateNormal \<Rightarrow> Some (AdminNone, False)
      | StateFinished \<Rightarrow> Some (AdminFinish, True)
      | StateError \<Rightarrow> Some (AdminStop, True)
      | StateStopped \<Rightarrow> Some (AdminStop, True)
      | StateFailed \<Rightarrow> Some (AdminStop, True)
      | StateRemoved \<Rightarrow> Some (AdminRemove, True)
      | StateWarning \<Rightarrow> None)"

definition patchState_status ::
  "AdminJobType \<Rightarrow> ChangeFeedStatus option \<Rightarrow> ChangeFeedStatus PatchResult" where
  "patchState_status adminJobType status =
     (case status of
        None \<Rightarrow> Inr (None, False, None)
      | Some st \<Rightarrow>
          if StatusAdminJobType st \<noteq> adminJobType
          then Inr (Some (st\<lparr>StatusAdminJobType := adminJobType\<rparr>), True, None)
          else Inr (Some st, False, None))"

definition patchState_info ::
  "FeedState \<Rightarrow> AdminJobType \<Rightarrow> bool \<Rightarrow> PDClient \<Rightarrow> ChangeFeedInfo option \<Rightarrow>
   ChangeFeedInfo PatchResult" where
  "patchState_info feedState adminJobType updateEpoch pdClient info =
     (case info of
        None \<Rightarrow> Inr (None, False, None)
      | Some i \<Rightarrow>
          (let (i1, changed1) =
                 (if State i \<noteq> feedState then (i\<lparr>State := feedState\<rparr>, True) else (i, False));
               (i2, changed2) =
                 (if AdminJobType i1 \<noteq> adminJobType
                  then ((if updateEpoch
                         then i1\<lparr>AdminJobType := adminJobType,
                                 Epoch := GenerateChangefeedEpoch pdClient\<rparr>
                         else i1\<lparr>AdminJobType := adminJobType\<rparr>), True)
                  else (i1, changed1))
           in Inr (Some i2, changed2, None)))"

definition patchState :: "FeedState \<Rightarrow> 'b feedStateManager \<Rightarrow> panic + 'b feedStateManager" where
  "patchState feedState m =
     (case patchState_switch feedState of
        None \<Rightarrow> Inl LogPanic
      | Some (adminJobType, updateEpoch) \<Rightarrow>
          andThen (onState (PatchStatus (patchState_status adminJobType)) m)
            (onState (PatchInfo (patchState_info feedState adminJobType updateEpoch))))"

subsection \<open>cleanUpInfos and the reports of the processors\<close>

definition cleanUpInfos_patch :: "TaskPosition option \<Rightarrow> TaskPosition PatchResult" where
  "cleanUpInfos_patch position = Inr (None, position \<noteq> None, None)"

definition cleanUpInfos :: "'b feedStateManager \<Rightarrow> panic + 'b feedStateManager" where
  "cleanUpInfos m =
     onState (\<lambda>s. foldl (\<lambda>s' captureID. PatchTaskPosition captureID cleanUpInfos_patch s')
                    s (map fst (TaskPositions s))) m"

text \<open>\<open>runningErrors[code] = err\<close> on a map kept as a list of its entries.\<close>

fun map_store :: "string \<Rightarrow> RunningError \<Rightarrow> (string \<times> RunningError) list \<Rightarrow>
                  (string \<times> RunningError) list" where
  "map_store k v [] = [(k, v)]"
| "map_store k v ((k', v') # kvs) =
     (if k' = k then (k, v) # kvs else (k', v') # map_store k v kvs)"

definition clearError_patch :: "TaskPosition option \<Rightarrow> TaskPosition PatchResult" where
  "clearError_patch position =
     (case position of
        None \<Rightarrow> Inr (None, False, None)
      | Some p \<Rightarrow> Inr (Some (p\<lparr>PosError := None\<rparr>), True, None))"

definition clearWarning_patch :: "TaskPosition option \<Rightarrow> TaskPosition PatchResult" where
  "clearWarning_patch position =
     (case position of
        None \<Rightarrow> Inr (None, False, None)
      | Some p \<Rightarrow> Inr (Some (p\<lparr>PosWarning := None\<rparr>), True, None))"

text \<open>
  One round of the loop over the task positions: the map of the errors found so far and
  the reactor state, with the closure that clears the reported error enqueued.
\<close>

fun collectErrors ::
  "(string \<times> TaskPosition) list \<Rightarrow> (string \<times> RunningError) list \<Rightarrow> ChangefeedReactorState \<Rightarrow>
   (string \<times> RunningError) list \<times> ChangefeedReactorState" where
  "collectErrors [] runningErrors s = (runningErrors, s)"
| "collectErrors ((captureID, position) # rest) runningErrors s =
     (case PosError position of
        None \<Rightarrow> collectErrors rest runningErrors s
      | Some err \<Rightarrow>
          collectErrors rest (map_store (Code err) err runningErrors)
            (PatchTaskPosition captureID clearError_patch s))"

fun collectWarnings ::
  "(string \<times> TaskPosition) list \<Rightarrow> (string \<times> RunningError) list \<Rightarrow> ChangefeedReactorState \<Rightarrow>
   (string \<times> RunningError) list \<times> ChangefeedReactorState" where
  "collectWarnings [] runningWarnings s = (runningWarnings, s)"
| "collectWarnings ((captureID, position) # rest) runningWarnings s =
     (case PosWarning position of
        None \<Rightarrow> collectWarnings rest runningWarnings s
      | Some err \<Rightarrow>
          collectWarnings rest (map_store (Code err) err runningWarnings)
            (PatchTaskPosition captureID clearWarning_patch s))"

text \<open>
  The result lists the collected map; Go leaves the order of that last \<open>range\<close> open, the
  model lists the codes in the order in which they were first met.
\<close>

definition errorsReportedByProcessors ::
  "'b feedStateManager \<Rightarrow> panic + (RunningError list \<times> 'b feedStateManager)" where
  "errorsReportedByProcessors m =
     (case state m of
        None \<Rightarrow> Inl NilDereference
      | Some s \<Rightarrow>
          (let (runningErrors, s') = collectErrors (TaskPositions s) [] s
           in Inr (map snd runningErrors, m\<lparr>state := Some s'\<rparr>)))"

definition warningsReportedByProcessors ::
  "'b feedStateManager \<Rightarrow> panic + (RunningError list \<times> 'b feedStateManager)" where
  "warningsReportedByProcessors m =
     (case state m of
        None \<Rightarrow> Inl NilDereference
      | Some s \<Rightarrow>
          (let (runningWarnings, s') = collectWarnings (TaskPositions s) [] s
           in Inr (map snd runningWarnings, m\<lparr>state := Some s'\<rparr>)))"

subsection \<open>handleAdminJob\<close>

definition remove_info_patch :: "PDClient \<Rightarrow> ChangeFeedInfo option \<Rightarrow> ChangeFeedInfo PatchResult" where
  "remove_info_patch pdClient info = Inr (None, True, None)"

definition remove_status_patch :: "ChangeFeedStatus option \<Rightarrow> ChangeFeedStatus PatchResult" where
  "remove_status_patch status = Inr (None, True, None)"

definition resume_info_patch ::
  "AdminJob \<Rightarrow> PDClient \<Rightarrow> ChangeFeedInfo option \<Rightarrow> ChangeFeedInfo PatchResult" where
  "resume_info_patch job pdClient info =
     (case info of
        None \<Rightarrow> Inr (None, False, None)
      | Some i \<Rightarrow>
          (let (i1, changed1) =
                 (if 0 < OverwriteCheckpointTs job
                  then (i\<lparr>StartTs := OverwriteCheckpointTs job\<rparr>, True) else (i, False));
               (i2, changed2) =
                 (if Error i1 \<noteq> None then (i1\<lparr>Error := None\<rparr>, True) else (i1, changed1))
           in Inr (Some i2, changed2, None)))"

definition resume_status_patch ::
  "AdminJob \<Rightarrow> ChangeFeedStatus option \<Rightarrow> ChangeFeedStatus PatchResult" where
  "resume_status_patch job status =
     (if 0 < OverwriteCheckpointTs job
      then (case status of
              None \<Rightarrow> Inl NilDereference
            | Some old \<Rightarrow>
                Inr (Some \<lparr>ResolvedTs = OverwriteCheckpointTs job,
                           CheckpointTs = OverwriteCheckpointTs job,
                           MinTableBarrierTs = OverwriteCheckpointTs job,
                           StatusAdminJobType = AdminNone\<rparr>, True, None))
      else Inr (status, False, None))"

text \<open>
  The admin job at the head of the queue, if any, is taken off the queue. A job for
  another changefeed, a job that the current state does not permit, and a job of an
  unknown type return \<open>False\<close>.
\<close>

definition handleAdminJob ::
  "'b ExponentialBackOff \<Rightarrow> 'b feedStateManager \<Rightarrow> panic + (bool \<times> 'b feedStateManager)" where
  "handleAdminJob bo m =
     (case popAdminJob m of
        (None, m1) \<Rightarrow> Inr (False, m1)
      | (Some job, m1) \<Rightarrow>
          (case state m1 of
             None \<Rightarrow> Inl NilDereference
           | Some s \<Rightarrow>
               if CfID job \<noteq> StateID s then Inr (False, m1)
               else (case Type job of
                  AdminStop \<Rightarrow>
                    (case Info s of
                       None \<Rightarrow> Inl NilDereference
                     | Some info \<Rightarrow>
                         if State info = StateNormal \<or> State info = StateError
                         then andThen (patchState StateStopped (m1\<lparr>shouldBeRunning := False\<rparr>))
                                (\<lambda>m2. Inr (True, m2))
                         else Inr (False, m1))
                | AdminRemove \<Rightarrow>
                    (case Info s of
                       None \<Rightarrow> Inl NilDereference
                     | Some info \<Rightarrow>
                         if State info = StateNormal \<or> State info = StateError
                            \<or> State info = StateFailed \<or> State info = StateStopped
                            \<or> State info = StateFinished \<or> State info = StateRemoved
                         then andThen (onState (PatchInfo remove_info_patch)
                                         (m1\<lparr>shouldBeRunning := False, shouldBeRemoved := True\<rparr>))
                                (\<lambda>m2. andThen (onState (PatchStatus remove_status_patch) m2)
                                   (\<lambda>m3. Inr (True, m3)))
                         else Inr (False, m1))
                | AdminResume \<Rightarrow>
                    (case Info s of
                       None \<Rightarrow> Inl NilDereference
                     | Some info \<Rightarrow>
                         if State info = StateFailed \<or> State info = StateError
                            \<or> State info = StateStopped \<or> State info = StateFinished
                         then andThen
                                (patchState StateNormal
                                   ((resetErrBackoff bo (m1\<lparr>shouldBeRunning := True\<rparr>))
                                      \<lparr>lastErrorTime := Unix 0 0\<rparr>))
                                (\<lambda>m2. andThen (onState (PatchInfo (resume_info_patch job)) m2)
                                   (\<lambda>m3. andThen
                                      (onState (PatchStatus (resume_status_patch job)) m3)
                                      (\<lambda>m4. Inr (True, m4))))
                         else Inr (False, m1))
                | AdminFinish \<Rightarrow>
                    (case Info s of
                       None \<Rightarrow> Inl NilDereference
                     | Some info \<Rightarrow>
                         if State info = StateNormal
                         then andThen (patchState StateFinished (m1\<lparr>shouldBeRunning := False\<rparr>))
                                (\<lambda>m2. Inr (True, m2))
                         else Inr (False, m1))
                | AdminNone \<Rightarrow> Inr (False, m1))))"

subsection \<open>handleError and handleWarning\<close>

text \<open>The closure of both scans: it records the error that the scan stopped at.\<close>

definition setError_patch ::
  "RunningError \<Rightarrow> PDClient \<Rightarrow> ChangeFeedInfo option \<Rightarrow> ChangeFeedInfo PatchResult" where
  "setError_patch err pdClient info =
     (case info of
        None \<Rightarrow> Inr (None, False, None)
      | Some i \<Rightarrow> Inr (Some (i\<lparr>Error := Some err\<rparr>), True, None))"

text \<open>The closure of the retryable batch: every error is assigned in turn, the last one stays.\<close>

definition lastError_patch ::
  "RunningError list \<Rightarrow> PDClient \<Rightarrow> ChangeFeedInfo option \<Rightarrow> ChangeFeedInfo PatchResult" where
  "lastError_patch errs pdClient info =
     (case info of
        None \<Rightarrow> Inr (None, False, None)
      | Some i \<Rightarrow>
          Inr (Some (foldl (\<lambda>i' err. i'\<lparr>Error := Some err\<rparr>) i errs), 0 < length errs, None))"

definition lastWarning_patch ::
  "RunningError list \<Rightarrow> PDClient \<Rightarrow> ChangeFeedInfo option \<Rightarrow> ChangeFeedInfo PatchResult" where
  "lastWarning_patch errs pdClient info =
     (case info of
        None \<Rightarrow> Inr (None, False, None)
      | Some i \<Rightarrow>
          Inr (Some (foldl (\<lambda>i' err. i'\<lparr>Warning := Some err\<rparr>) i errs), 0 < length errs, None))"

text \<open>
  The bookkeeping of the backoff: the time of the error, the reset of the backoff after a
  stable window, and the shift of the window. It reads \<open>m.state.Info.State\<close> without a
  check for nil.
\<close>

definition handleError_window ::
  "'b ExponentialBackOff \<Rightarrow> Clock \<Rightarrow> RunningError list \<Rightarrow> 'b feedStateManager \<Rightarrow>
   panic + 'b feedStateManager" where
  "handleError_window bo clock errs m =
     (case state m of
        None \<Rightarrow> Inl NilDereference
      | Some s \<Rightarrow>
          (case Info s of
             None \<Rightarrow> Inl NilDereference
           | Some info \<Rightarrow>
               (let m1 =
                      (if 0 < length errs
                       then (let m' = m\<lparr>lastErrorTime := Now (timeNow clock)\<rparr>
                             in if isChangefeedStable m' then resetErrBackoff bo m' else m')
                       else if State info = StateNormal
                            then m\<lparr>lastErrorTime := Unix 0 0\<rparr> else m)
                in Inr (shiftStateWindow (State info) m1))))"

text \<open>The gate of the restart, from the test of the time of the last error on.\<close>

definition handleError_gate ::
  "'b ExponentialBackOff \<Rightarrow> Clock \<Rightarrow> 'b feedStateManager \<Rightarrow> panic + 'b feedStateManager" where
  "handleError_gate bo clock m =
     (if lastErrorTime m = Unix 0 0 then Inr m
      else if time_Since (timeSinceNow clock) (lastErrorTime m) < backoffInterval m
      then patchState StateError (m\<lparr>shouldBeRunning := False\<rparr>)
      else (let (interval, b) = NextBackOff bo (errBackoff m);
                m1 = m\<lparr>errBackoff := b, backoffInterval := interval,
                        lastErrorTime := Unix 0 0\<rparr>
            in if backoffInterval m1 = Stop bo (errBackoff m1)
               then patchState StateFailed (m1\<lparr>shouldBeRunning := False\<rparr>)
               else Inr m1))"

definition isStopped :: "'b feedStateManager \<Rightarrow> panic + bool" where
  "isStopped m =
     (case state m of
        None \<Rightarrow> Inl NilDereference
      | Some s \<Rightarrow>
          (case Info s of
             None \<Rightarrow> Inr False
           | Some info \<Rightarrow> Inr (State info = StateStopped)))"

definition handleError ::
  "'b ExponentialBackOff \<Rightarrow> ErrorClassifier \<Rightarrow> Clock \<Rightarrow> RunningError list \<Rightarrow>
   'b feedStateManager \<Rightarrow> panic + 'b feedStateManager" where
  "handleError bo cf clock errs m =
     (case find (\<lambda>err. IsChangefeedFastFailErrorCode cf (Code err)) errs of
        Some err \<Rightarrow>
          andThen (onState (PatchInfo (setError_patch err)) m)
            (\<lambda>m1. patchState StateFailed (m1\<lparr>shouldBeRunning := False\<rparr>))
      | None \<Rightarrow>
          andThen (isStopped m)
            (\<lambda>stopped.
               if stopped then Inr m
               else (case find (IsChangefeedUnRetryableError cf) errs of
                       Some err \<Rightarrow>
                         andThen (onState (PatchInfo (setError_patch err)) m)
                           (\<lambda>m1. patchState StateError (m1\<lparr>shouldBeRunning := False\<rparr>))
                     | None \<Rightarrow>
                         andThen (onState (PatchInfo (lastError_patch errs)) m)
                           (\<lambda>m1. andThen (handleError_window bo clock errs m1)
                              (handleError_gate bo clock)))))"

definition handleWarning ::
  "RunningError list \<Rightarrow> 'b feedStateManager \<Rightarrow> panic + 'b feedStateManager" where
  "handleWarning errs m = onState (PatchInfo (lastWarning_patch errs)) m"

subsection \<open>Tick\<close>

text \<open>The deferred function of \<open>Tick\<close>.\<close>

definition Tick_deferred :: "'b feedStateManager \<Rightarrow> panic + 'b feedStateManager" where
  "Tick_deferred m = (if shouldBeRunning m then patchState StateNormal m else cleanUpInfos m)"

text \<open>The statements after the switch on the state of the feed.\<close>

definition Tick_reports ::
  "'b ExponentialBackOff \<Rightarrow> ErrorClassifier \<Rightarrow> Clock \<Rightarrow> 'b feedStateManager \<Rightarrow>
   panic + 'b feedStateManager" where
  "Tick_reports bo cf clock m =
     andThen (errorsReportedByProcessors m)
       (\<lambda>(errs, m1). andThen (handleError bo cf clock errs m1)
          (\<lambda>m2. andThen (warningsReportedByProcessors m2)
             (\<lambda>(warnings, m3). handleWarning warnings m3)))"

text \<open>
  The switch on the state of the feed and what follows it. In state \<open>StateError\<close> the
  method \<open>IsChangefeedUnRetryableError\<close> is called on \<open>m.state.Info.Error\<close>, which it
  dereferences.
\<close>

definition Tick_switch ::
  "'b ExponentialBackOff \<Rightarrow> ErrorClassifier \<Rightarrow> Clock \<Rightarrow> 'b feedStateManager \<Rightarrow>
   panic + 'b feedStateManager" where
  "Tick_switch bo cf clock m =
     (case state m of
        None \<Rightarrow> Inl NilDereference
      | Some s \<Rightarrow>
          (case Info s of
             None \<Rightarrow> Inl NilDereference
           | Some info \<Rightarrow>
               if State info = StateRemoved
               then Inr (m\<lparr>shouldBeRunning := False, shouldBeRemoved := True\<rparr>)
               else if State info = StateStopped \<or> State info = StateFailed
                       \<or> State info = StateFinished
               then Inr (m\<lparr>shouldBeRunning := False\<rparr>)
               else if State info = StateError
               then (case Error info of
                       None \<Rightarrow> Inl NilDereference
                     | Some err \<Rightarrow>
                         if IsChangefeedUnRetryableError cf err
                         then patchState StateFailed (m\<lparr>shouldBeRunning := False\<rparr>)
                         else Tick_reports bo cf clock m)
               else Tick_reports bo cf clock m))"

text \<open>
  The body of \<open>Tick\<close> after the two assignments: a handled admin job ends the tick with
  the result true, otherwise the switch decides and the result is false.
\<close>

definition Tick_body ::
  "'b ExponentialBackOff \<Rightarrow> ErrorClassifier \<Rightarrow> Clock \<Rightarrow> 'b feedStateManager \<Rightarrow>
   panic + (bool \<times> 'b feedStateManager)" where
  "Tick_body bo cf clock m =
     andThen (handleAdminJob bo m)
       (\<lambda>(jobsPending, m1).
          if jobsPending then Inr (True, m1)
          else andThen (Tick_switch bo cf clock m1) (\<lambda>m2. Inr (False, m2)))"

text \<open>
  \<open>Tick\<close> binds the reactor state, sets the feed to run, runs the body and then the
  deferred function. When the body panics the panic is the result: what the deferred
  function does on the way out is not kept.
\<close>

definition Tick ::
  "'b ExponentialBackOff \<Rightarrow> ErrorClassifier \<Rightarrow> Clock \<Rightarrow> ChangefeedReactorState \<Rightarrow>
   'b feedStateManager \<Rightarrow> panic + (bool \<times> 'b feedStateManager)" where
  "Tick bo cf clock s m =
     andThen (Tick_body bo cf clock (m\<lparr>state := Some s, shouldBeRunning := True\<rparr>))
       (\<lambda>(adminJobPending, m1).
          andThen (Tick_deferred m1) (\<lambda>m2. Inr (adminJobPending, m2)))"

subsection \<open>The persistence of the patches\<close>

text \<open>
  Modelled from the spec: the persistence collaborator, which is not part of the sources.
  It applies the enqueued closures in order, each to the latest value; a closure that
  reports no change leaves the value as it was, a new value of nil erases the record.
  The result also lists the change flag of each closure. A closure that panics or returns
  an error stops the application.
\<close>

datatype applyError = ClosurePanic panic | ClosureError string

fun alist_delete :: "string \<Rightarrow> (string \<times> 'v) list \<Rightarrow> (string \<times> 'v) list" where
  "alist_delete k [] = []"
| "alist_delete k ((k', v) # kvs) = (if k' = k then alist_delete k kvs else (k', v) # alist_delete k kvs)"

fun alist_put :: "string \<Rightarrow> 'v \<Rightarrow> (string \<times> 'v) list \<Rightarrow> (string \<times> 'v) list" where
  "alist_put k v [] = [(k, v)]"
| "alist_put k v ((k', v') # kvs) =
     (if k' = k then (k, v) # kvs else (k', v') # alist_put k v kvs)"

definition applyPatch ::
  "PDClient \<Rightarrow> DataPatch \<Rightarrow> ChangefeedReactorState \<Rightarrow>
   applyError + (bool \<times> ChangefeedReactorState)" where
  "applyPatch pdClient p s =
     (case p of
        InfoPatch fn \<Rightarrow>
          (case fn pdClient (Info s) of
             Inl pn \<Rightarrow> Inl (ClosurePanic pn)
           | Inr (new, changed, Some e) \<Rightarrow> Inl (ClosureError e)
           | Inr (new, changed, None) \<Rightarrow>
               Inr (changed, if changed then s\<lparr>Info := new\<rparr> else s))
      | StatusPatch fn \<Rightarrow>
          (case fn (Status s) of
             Inl pn \<Rightarrow> Inl (ClosurePanic pn)
           | Inr (new, changed, Some e) \<Rightarrow> Inl (ClosureError e)
           | Inr (new, changed, None) \<Rightarrow>
               Inr (changed, if changed then s\<lparr>Status := new\<rparr> else s))
      | TaskPositionPatch captureID fn \<Rightarrow>
          (case fn (map_of (TaskPositions s) captureID) of
             Inl pn \<Rightarrow> Inl (ClosurePanic pn)
           | Inr (new, changed, Some e) \<Rightarrow> Inl (ClosureError e)
           | Inr (new, changed, None) \<Rightarrow>
               Inr (changed,
                    if changed
                    then s\<lparr>TaskPositions :=
                            (case new of
                               None \<Rightarrow> alist_delete captureID (TaskPositions s)
                             | Some position \<Rightarrow> alist_put captureID position (TaskPositions s))\<rparr>
                    else s)))"

fun applyPatches ::
  "PDClient \<Rightarrow> DataPatch list \<Rightarrow> ChangefeedReactorState \<Rightarrow>
   applyError + (bool list \<times> ChangefeedReactorState)" where
  "applyPatches pdClient [] s = Inr ([], s)"
| "applyPatches pdClient (p # ps) s =
     (case applyPatch pdClient p s of
        Inl e \<Rightarrow> Inl e
      | Inr (changed, s1) \<Rightarrow>
          (case applyPatches pdClient ps s1 of
             Inl e \<Rightarrow> Inl e
           | Inr (flags, s2) \<Rightarrow> Inr (changed # flags, s2)))"

text \<open>The reactor state once its pending patches are persisted: none is pending any more.\<close>

definition persist ::
  "PDClient \<Rightarrow> ChangefeedReactorState \<Rightarrow> applyError + (bool list \<times> ChangefeedReactorState)" where
  "persist pdClient s =
     (case applyPatches pdClient (pendingPatches s) (s\<lparr>pendingPatches := []\<rparr>) of
        Inl e \<Rightarrow> Inl e
      | Inr (flags, s1) \<Rightarrow> Inr (flags, s1))"

subsection \<open>Instances for the examples\<close>

text \<open>
  A backoff without randomisation for the examples: its state is the current interval
  and the time spent so far, counted as the sum of the intervals handed out; the
  intervals double from 10 s up to 30 min and the budget is 90 min.
\<close>

definition exampleBackOff :: "(int \<times> int) ExponentialBackOff" where
  "exampleBackOff =
     \<lparr>Reset = (\<lambda>b. (10000000000, 0)),
      NextBackOff = (\<lambda>(current, elapsed).
         if 5400000000000 < elapsed + current
         then (- 1, (min (2 * current) 1800000000000, elapsed))
         else (current, (min (2 * current) 1800000000000, elapsed + current))),
      Stop = (\<lambda>b. - 1)\<rparr>"

definition exampleClassifier :: ErrorClassifier where
  "exampleClassifier =
     \<lparr>IsChangefeedFastFailErrorCode = (\<lambda>code. code = ''CDC:ErrGCTTLExceeded''),
      IsChangefeedUnRetryableError = (\<lambda>err. Code err = ''CDC:ErrExpressionColumnNotFound'')\<rparr>"

definition exampleID :: ChangeFeedID where
  "exampleID = \<lparr>Namespace = ''default'', ID = ''feed-1''\<rparr>"

definition exampleInfo :: "FeedState \<Rightarrow> ChangeFeedInfo" where
  "exampleInfo st =
     \<lparr>State = st,
      AdminJobType = (case st of StateNormal \<Rightarrow> AdminNone | StateFinished \<Rightarrow> AdminFinish
                      | StateRemoved \<Rightarrow> AdminRemove | _ \<Rightarrow> AdminStop),
      Error = None, Warning = None, Epoch = 7, StartTs = 5\<rparr>"

definition exampleStatus :: "AdminJobType \<Rightarrow> ChangeFeedStatus" where
  "exampleStatus t =
     \<lparr>ResolvedTs = 9, CheckpointTs = 8, MinTableBarrierTs = 8, StatusAdminJobType = t\<rparr>"

definition exampleState :: "ChangeFeedInfo \<Rightarrow> (string \<times> TaskPosition) list \<Rightarrow> ChangefeedReactorState" where
  "exampleState info positions =
     \<lparr>StateID = exampleID, Info = Some info,
      Status = Some (exampleStatus (AdminJobType info)),
      TaskPositions = positions, pendingPatches = []\<rparr>"

definition exampleManager :: "(int \<times> int) feedStateManager" where
  "exampleManager =
     \<lparr>state = None, shouldBeRunning = False, shouldBeRemoved = False, adminJobQueue = [],
      stateHistory = replicate defaultStateWindowSize StateNormal,
      lastErrorTime = Unix 0 0, backoffInterval = 10000000000,
      errBackoff = (20000000000, 10000000000)\<rparr>"

definition exampleError :: "string \<Rightarrow> RunningError" where
  "exampleError code = \<lparr>Addr = ''127.0.0.1:8300'', Code = code, Message = ''failed''\<rparr>"

definition examplePD :: PDClient where
  "examplePD = \<lparr>GetTS = Some (100, 1), UnixNano = 1700000000000000000\<rparr>"

subsection \<open>Vocabulary of the properties\<close>

text \<open>
  Every info closure enqueued on the reactor state of \<open>m1\<close> since it was \<open>s\<close> returns
  \<open>(nil, false, nil)\<close> when the latest info is nil.
\<close>

definition nilSafeSince :: "ChangefeedReactorState \<Rightarrow> 'b feedStateManager \<Rightarrow> bool" where
  "nilSafeSince s m1 =
     (\<exists>new. state m1 = Some (s\<lparr>pendingPatches := pendingPatches s @ new\<rparr>) \<and>
        (\<forall>fn pdClient. InfoPatch fn \<in> set new \<longrightarrow> fn pdClient None = Inr (None, False, None)))"

text \<open>The two closures that \<open>patchState\<close> enqueues for a target state.\<close>

definition patchesTo :: "FeedState \<Rightarrow> DataPatch list" where
  "patchesTo feedState =
     (case patchState_switch feedState of
        None \<Rightarrow> []
      | Some (adminJobType, updateEpoch) \<Rightarrow>
          [StatusPatch (patchState_status adminJobType),
           InfoPatch (patchState_info feedState adminJobType updateEpoch)])"

text \<open>
  The table of \<open>handleAdminJob\<close>: the states of the feed from which a job of each type
  is carried out.
\<close>

definition jobPermitted :: "AdminJobType \<Rightarrow> FeedState \<Rightarrow> bool" where
  "jobPermitted t st =
     (case t of
        AdminStop \<Rightarrow> st = StateNormal \<or> st = StateError
      | AdminRemove \<Rightarrow>
          st = StateNormal \<or> st = StateError \<or> st = StateFailed \<or> st = StateStopped
          \<or> st = StateFinished \<or> st = StateRemoved
      | AdminResume \<Rightarrow> st = StateFailed \<or> st = StateError \<or> st = StateStopped \<or> st = StateFinished
      | AdminFinish \<Rightarrow> st = StateNormal
      | AdminNone \<Rightarrow> False)"

text \<open>
  The job at the head of the queue is addressed to this changefeed and permitted in the
  state of the feed.
\<close>

definition jobHandled :: "'b feedStateManager \<Rightarrow> ChangefeedReactorState \<Rightarrow> bool" where
  "jobHandled m s =
     (case adminJobQueue m of
        [] \<Rightarrow> False
      | job # rest \<Rightarrow>
          CfID job = StateID s
          \<and> (case Info s of None \<Rightarrow> False | Some info \<Rightarrow> jobPermitted (Type job) (State info)))"

text \<open>The closures that the handling of a permitted job enqueues.\<close>

definition jobPatches :: "AdminJob \<Rightarrow> DataPatch list" where
  "jobPatches job =
     (case Type job of
        AdminStop \<Rightarrow> patchesTo StateStopped
      | AdminRemove \<Rightarrow> [InfoPatch remove_info_patch, StatusPatch remove_status_patch]
      | AdminResume \<Rightarrow>
          patchesTo StateNormal
          @ [InfoPatch (resume_info_patch job), StatusPatch (resume_status_patch job)]
      | AdminFinish \<Rightarrow> patchesTo StateFinished
      | AdminNone \<Rightarrow> [])"

text \<open>The manager after the handling of a permitted job, the reactor state apart.\<close>

definition jobEffect :: "'b ExponentialBackOff \<Rightarrow> AdminJob \<Rightarrow> 'b feedStateManager \<Rightarrow> 'b feedStateManager" where
  "jobEffect bo job m =
     (case Type job of
        AdminStop \<Rightarrow> m\<lparr>shouldBeRunning := False\<rparr>
      | AdminRemove \<Rightarrow> m\<lparr>shouldBeRunning := False, shouldBeRemoved := True\<rparr>
      | AdminResume \<Rightarrow> (resetErrBackoff bo (m\<lparr>shouldBeRunning := True\<rparr>))\<lparr>lastErrorTime := Unix 0 0\<rparr>
      | AdminFinish \<Rightarrow> m\<lparr>shouldBeRunning := False\<rparr>
      | AdminNone \<Rightarrow> m)"

text \<open>The closures that the deferred function of \<open>Tick\<close> enqueues.\<close>

definition deferredPatches :: "bool \<Rightarrow> (string \<times> TaskPosition) list \<Rightarrow> DataPatch list" where
  "deferredPatches running positions =
     (if running then patchesTo StateNormal
      else map (\<lambda>captureID. TaskPositionPatch captureID cleanUpInfos_patch) (map fst positions))"

text \<open>
  The life of a manager: the calls of its public methods that change it, one after the
  other, until one of them panics.
\<close>

datatype operation =
  CallTick Clock ChangefeedReactorState
  | CallPushAdminJob AdminJob
  | CallMarkFinished

fun call ::
  "'b ExponentialBackOff \<Rightarrow> ErrorClassifier \<Rightarrow> operation \<Rightarrow> 'b feedStateManager \<Rightarrow>
   panic + 'b feedStateManager" where
  "call bo cf (CallTick clock s) m = andThen (Tick bo cf clock s m) (\<lambda>(pending, m1). Inr m1)"
| "call bo cf (CallPushAdminJob job) m = PushAdminJob job m"
| "call bo cf CallMarkFinished m = Inr (MarkFinished m)"

fun calls ::
  "'b ExponentialBackOff \<Rightarrow> ErrorClassifier \<Rightarrow> operation list \<Rightarrow> 'b feedStateManager \<Rightarrow>
   panic + 'b feedStateManager" where
  "calls bo cf [] m = Inr m"
| "calls bo cf (op # ops) m = andThen (call bo cf op m) (calls bo cf ops)"

text \<open>No admin job is queued and no task position holds an error or a warning.\<close>

definition emptyInput :: "'b feedStateManager \<Rightarrow> ChangefeedReactorState \<Rightarrow> bool" where
  "emptyInput m s =
     (adminJobQueue m = []
      \<and> list_all (\<lambda>(captureID, position). PosError position = None \<and> PosWarning position = None)
           (TaskPositions s))"

text \<open>What the controller sees: the persisted values and the two flags.\<close>

definition observable ::
  "'b feedStateManager \<Rightarrow> ChangefeedReactorState \<Rightarrow>
   ChangeFeedInfo option \<times> ChangeFeedStatus option \<times> (string \<times> TaskPosition) list \<times> bool \<times> bool" where
  "observable m s = (Info s, Status s, TaskPositions s, ShouldRunning m, ShouldRemoved m)"

text \<open>
  One tick followed by the persistence of the patches it enqueued: the change flags of
  the closures, the manager, and the reactor state that the next tick is given.
\<close>

datatype roundError = TickPanic panic | PersistError applyError

definition tickAndPersist ::
  "'b ExponentialBackOff \<Rightarrow> ErrorClassifier \<Rightarrow> Clock \<Rightarrow> PDClient \<Rightarrow> ChangefeedReactorState \<Rightarrow>
   'b feedStateManager \<Rightarrow> roundError + (bool list \<times> 'b feedStateManager \<times> ChangefeedReactorState)" where
  "tickAndPersist bo cf clock pdClient s m =
     (case Tick bo cf clock s m of
        Inl p \<Rightarrow> Inl (TickPanic p)
      | Inr (pending, m1) \<Rightarrow>
          (case state m1 of
             None \<Rightarrow> Inl (TickPanic NilDereference)
           | Some s1 \<Rightarrow>
               (case persist pdClient s1 of
                  Inl e \<Rightarrow> Inl (PersistError e)
                | Inr (flags, s2) \<Rightarrow> Inr (flags, m1, s2))))"

text \<open>
  The tick reaches the restart gate with an error pending: the time of the last error is
  set and the feed is in \<open>StateWarning\<close>, or in \<open>StateError\<close> with an error that is
  not unretryable.
\<close>

definition restartPending :: "ErrorClassifier \<Rightarrow> 'b feedStateManager \<Rightarrow> ChangeFeedInfo \<Rightarrow> bool" where
  "restartPending cf m info =
     (lastErrorTime m \<noteq> Unix 0 0
      \<and> (State info = StateWarning
           \<or> (State info = StateError
               \<and> (case Error info of
                     None \<Rightarrow> True
                   | Some err \<Rightarrow> \<not> IsChangefeedUnRetryableError cf err))))"

text \<open>
  A scenario: the feed is in \<open>StateError\<close> with the retryable error E1, recorded at
  100 ns, and the interval is 10 s. The first round runs one second after the error, the
  second one eleven seconds after it; nothing is queued or reported in either.
\<close>

definition pendingManager :: "(int \<times> int) feedStateManager" where
  "pendingManager = exampleManager\<lparr>lastErrorTime := Now 100\<rparr>"

definition erroredState :: ChangefeedReactorState where
  "erroredState = exampleState ((exampleInfo StateError)\<lparr>Error := Some (exampleError ''E1'')\<rparr>) []"

definition firstRound ::
  "roundError + (bool list \<times> (int \<times> int) feedStateManager \<times> ChangefeedReactorState)" where
  "firstRound =
     tickAndPersist exampleBackOff exampleClassifier \<lparr>timeNow = 1000000100, timeSinceNow = 1000000100\<rparr>
       examplePD erroredState pendingManager"

definition secondRound ::
  "roundError + (bool list \<times> (int \<times> int) feedStateManager \<times> ChangefeedReactorState)" where
  "secondRound =
     tickAndPersist exampleBackOff exampleClassifier \<lparr>timeNow = 11000000100, timeSinceNow = 11000000100\<rparr>
       examplePD (snd (snd (projr firstRound))) (fst (snd (projr firstRound)))"

text \<open>
  Patches on task positions whose closure is one of the three that the manager enqueues
  there; all three return whatever the position.
\<close>

definition positionPatches :: "DataPatch list \<Rightarrow> bool" where
  "positionPatches ps =
     list_all (\<lambda>p. case p of
                 TaskPositionPatch captureID fn \<Rightarrow>
                   fn = clearError_patch \<or> fn = clearWarning_patch \<or> fn = cleanUpInfos_patch
               | _ \<Rightarrow> False) ps"

text \<open>The batch of errors that a tick collects from the task positions.\<close>

definition reportedErrors :: "ChangefeedReactorState \<Rightarrow> RunningError list" where
  "reportedErrors s = map snd (fst (collectErrors (TaskPositions s) [] s))"

text \<open>
  Closures that, applied in order to a state with an info, all return and leave the
  state and the error of the info as they are.
\<close>

definition keepsStateAndError :: "DataPatch list \<Rightarrow> bool" where
  "keepsStateAndError ps =
     (\<forall>pdClient r i. Info r = Some i \<longrightarrow>
        (\<exists>flags r1 i1. applyPatches pdClient ps r = Inr (flags, r1)
           \<and> Info r1 = Some i1 \<and> State i1 = State i \<and> Error i1 = Error i))"

text \<open>
  The restart gate holds the feed down at the reading of a clock: less than the interval
  of the backoff has passed since the time of the last error.
\<close>

definition heldDown :: "Clock \<Rightarrow> 'b feedStateManager \<Rightarrow> bool" where
  "heldDown clock m = (time_Since (timeSinceNow clock) (lastErrorTime m) < backoffInterval m)"

text \<open>
  Two more scenarios, both with the manager of the first one (an error recorded at
  100 ns, an interval of 10 s) and the feed in \<open>StateWarning\<close>, with a given error in
  its info. The rounds run one and two seconds after the error, both within the interval;
  nothing is queued or reported in either.
\<close>

definition warnedState :: "RunningError option \<Rightarrow> ChangefeedReactorState" where
  "warnedState e = exampleState ((exampleInfo StateWarning)\<lparr>Error := e\<rparr>) []"

definition heldRound ::
  "RunningError option \<Rightarrow>
   roundError + (bool list \<times> (int \<times> int) feedStateManager \<times> ChangefeedReactorState)" where
  "heldRound e =
     tickAndPersist exampleBackOff exampleClassifier \<lparr>timeNow = 1000000100, timeSinceNow = 1000000100\<rparr>
       examplePD (warnedState e) pendingManager"

definition nextHeldRound ::
  "RunningError option \<Rightarrow>
   roundError + (bool list \<times> (int \<times> int) feedStateManager \<times> ChangefeedReactorState)" where
  "nextHeldRound e =
     tickAndPersist exampleBackOff exampleClassifier \<lparr>timeNow = 2000000100, timeSinceNow = 2000000100\<rparr>
       examplePD (snd (snd (projr (heldRound e)))) (fst (snd (projr (heldRound e))))"

section \<open>Properties\<close>

subsection \<open>Sequencing and the enqueued patches\<close>

lemma andThen_Inr [simp]: "andThen (Inr x) f = f x"
  by (simp add: andThen_def)

lemma andThen_Inl [simp]: "andThen (Inl p) f = Inl p"
  by (simp add: andThen_def)

lemma andThen_eq_Inr: "(andThen r f = Inr y) = (\<exists>x. r = Inr x \<and> f x = Inr y)"
  by (cases r) simp_all

lemma onState_Some: "state m = Some s \<Longrightarrow> onState f m = Inr (m\<lparr>state := Some (f s)\<rparr>)"
  by (simp add: onState_def)

lemma patchState_Some:
  "state m = Some s \<Longrightarrow> patchState_switch feedState = Some (a, u) \<Longrightarrow>
   patchState feedState m =
     Inr (m\<lparr>state := Some (s\<lparr>pendingPatches := pendingPatches s @
              [StatusPatch (patchState_status a), InfoPatch (patchState_info feedState a u)]\<rparr>)\<rparr>)"
  by (simp add: patchState_def onState_def PatchStatus_def PatchInfo_def)

lemma patchState_Inr_switch:
  "patchState feedState m = Inr m1 \<Longrightarrow> \<exists>a u. patchState_switch feedState = Some (a, u)"
  by (cases "patchState_switch feedState") (auto simp: patchState_def)

lemma patchState_info_nil: "patchState_info feedState a u pdClient None = Inr (None, False, None)"
  by (simp add: patchState_info_def)

lemma setError_patch_nil: "setError_patch err pdClient None = Inr (None, False, None)"
  by (simp add: setError_patch_def)

lemma lastError_patch_nil: "lastError_patch errs pdClient None = Inr (None, False, None)"
  by (simp add: lastError_patch_def)

lemma lastWarning_patch_nil: "lastWarning_patch errs pdClient None = Inr (None, False, None)"
  by (simp add: lastWarning_patch_def)

lemma resume_info_patch_nil: "resume_info_patch job pdClient None = Inr (None, False, None)"
  by (simp add: resume_info_patch_def)

subsection \<open>Closures applied to a nil info\<close>

lemma nilSafeSince_patchState:
  assumes "nilSafeSince s m" "patchState feedState m = Inr m1"
  shows "nilSafeSince s m1"
proof -
  from assms(1) obtain new where n: "state m = Some (s\<lparr>pendingPatches := pendingPatches s @ new\<rparr>)"
    and safe: "\<forall>fn pdClient. InfoPatch fn \<in> set new \<longrightarrow> fn pdClient None = Inr (None, False, None)"
    by (auto simp: nilSafeSince_def)
  from assms(2) obtain a u where sw: "patchState_switch feedState = Some (a, u)"
    using patchState_Inr_switch by blast
  have "state m1 = Some (s\<lparr>pendingPatches := pendingPatches s @
          (new @ [StatusPatch (patchState_status a), InfoPatch (patchState_info feedState a u)])\<rparr>)"
    using assms(2) patchState_Some [OF n sw] by auto
  moreover have "\<forall>fn pdClient. InfoPatch fn \<in> set (new @ [StatusPatch (patchState_status a), InfoPatch (patchState_info feedState a u)])
      \<longrightarrow> fn pdClient None = Inr (None, False, None)"
    using safe by (auto simp: patchState_info_nil)
  ultimately show ?thesis unfolding nilSafeSince_def by blast
qed

lemma nilSafeSince_refl: "state m = Some s \<Longrightarrow> nilSafeSince s m"
  unfolding nilSafeSince_def by (rule exI [of _ "[]"]) simp

lemma nilSafeSince_same_state: "nilSafeSince s m \<Longrightarrow> state m1 = state m \<Longrightarrow> nilSafeSince s m1"
  by (simp add: nilSafeSince_def)

lemma nilSafeSince_PatchInfo:
  assumes "nilSafeSince s m" "onState (PatchInfo fn) m = Inr m1"
    and "\<And>pdClient. fn pdClient None = Inr (None, False, None)"
  shows "nilSafeSince s m1"
proof -
  from assms(1) obtain new where n: "state m = Some (s\<lparr>pendingPatches := pendingPatches s @ new\<rparr>)"
    and safe: "\<forall>fn pdClient. InfoPatch fn \<in> set new \<longrightarrow> fn pdClient None = Inr (None, False, None)"
    by (auto simp: nilSafeSince_def)
  have "state m1 = Some (s\<lparr>pendingPatches := pendingPatches s @ (new @ [InfoPatch fn])\<rparr>)"
    using assms(2) n by (auto simp: onState_def PatchInfo_def)
  moreover have "\<forall>f pdClient. InfoPatch f \<in> set (new @ [InfoPatch fn])
      \<longrightarrow> f pdClient None = Inr (None, False, None)"
    using safe assms(3) by auto
  ultimately show ?thesis unfolding nilSafeSince_def by blast
qed

lemma nilSafeSince_PatchStatus:
  assumes "nilSafeSince s m" "onState (PatchStatus fn) m = Inr m1"
  shows "nilSafeSince s m1"
proof -
  from assms(1) obtain new where n: "state m = Some (s\<lparr>pendingPatches := pendingPatches s @ new\<rparr>)"
    and safe: "\<forall>fn pdClient. InfoPatch fn \<in> set new \<longrightarrow> fn pdClient None = Inr (None, False, None)"
    by (auto simp: nilSafeSince_def)
  have "state m1 = Some (s\<lparr>pendingPatches := pendingPatches s @ (new @ [StatusPatch fn])\<rparr>)"
    using assms(2) n by (auto simp: onState_def PatchStatus_def)
  moreover have "\<forall>f pdClient. InfoPatch f \<in> set (new @ [StatusPatch fn])
      \<longrightarrow> f pdClient None = Inr (None, False, None)"
    using safe by auto
  ultimately show ?thesis unfolding nilSafeSince_def by blast
qed

lemma state_resetErrBackoff [simp]: "state (resetErrBackoff bo m) = state m"
  by (simp add: resetErrBackoff_def split: prod.splits)

lemma state_shiftStateWindow [simp]: "state (shiftStateWindow st m) = state m"
  by (simp add: shiftStateWindow_def)

lemma handleError_window_state:
  "handleError_window bo clock errs m = Inr m1 \<Longrightarrow> state m1 = state m"
  by (auto simp: handleError_window_def Let_def split: option.splits if_splits)

lemma nilSafeSince_gate:
  assumes "nilSafeSince s m" "handleError_gate bo clock m = Inr m1"
  shows "nilSafeSince s m1"
proof (cases "lastErrorTime m = Unix 0 0")
  case True
  with assms show ?thesis by (simp add: handleError_gate_def)
next
  case False
  show ?thesis
  proof (cases "time_Since (timeSinceNow clock) (lastErrorTime m) < backoffInterval m")
    case True
    with False assms(2) have "patchState StateError (m\<lparr>shouldBeRunning := False\<rparr>) = Inr m1"
      by (simp add: handleError_gate_def)
    moreover have "nilSafeSince s (m\<lparr>shouldBeRunning := False\<rparr>)"
      using assms(1) by (rule nilSafeSince_same_state) simp
    ultimately show ?thesis by (rule nilSafeSince_patchState [rotated])
  next
    case nlt: False
    obtain interval b where nb: "NextBackOff bo (errBackoff m) = (interval, b)"
      by (cases "NextBackOff bo (errBackoff m)")
    let ?m1 = "m\<lparr>errBackoff := b, backoffInterval := interval, lastErrorTime := Unix 0 0\<rparr>"
    have safe1: "nilSafeSince s ?m1"
      using assms(1) by (rule nilSafeSince_same_state) simp
    show ?thesis
    proof (cases "interval = Stop bo b")
      case True
      with False nlt nb assms(2)
      have "patchState StateFailed (?m1\<lparr>shouldBeRunning := False\<rparr>) = Inr m1"
        by (simp add: handleError_gate_def)
      moreover have "nilSafeSince s (?m1\<lparr>shouldBeRunning := False\<rparr>)"
        using assms(1) by (rule nilSafeSince_same_state) simp
      ultimately show ?thesis by (rule nilSafeSince_patchState [rotated])
    next
      case nstop: False
      with False nlt nb assms(2) have "m1 = ?m1"
        by (simp add: handleError_gate_def)
      with safe1 show ?thesis by simp
    qed
  qed
qed

lemma nilSafeSince_set_then_patch:
  assumes "nilSafeSince s m"
    and "andThen (onState (PatchInfo (setError_patch err)) m)
           (\<lambda>m1. patchState feedState (m1\<lparr>shouldBeRunning := False\<rparr>)) = Inr m2"
  shows "nilSafeSince s m2"
proof -
  from assms(2) obtain m1 where a: "onState (PatchInfo (setError_patch err)) m = Inr m1"
    and b: "patchState feedState (m1\<lparr>shouldBeRunning := False\<rparr>) = Inr m2"
    by (auto simp: andThen_eq_Inr)
  have "nilSafeSince s m1"
    using assms(1) a by (rule nilSafeSince_PatchInfo) (rule setError_patch_nil)
  then have "nilSafeSince s (m1\<lparr>shouldBeRunning := False\<rparr>)"
    by (rule nilSafeSince_same_state) simp
  then show ?thesis using b by (rule nilSafeSince_patchState)
qed

lemma nilSafeSince_handleError:
  assumes "nilSafeSince s m" "handleError bo cf clock errs m = Inr m2"
  shows "nilSafeSince s m2"
proof (cases "find (\<lambda>err. IsChangefeedFastFailErrorCode cf (Code err)) errs")
  case (Some err)
  with assms(2) show ?thesis
    using nilSafeSince_set_then_patch [OF assms(1)] by (simp add: handleError_def)
next
  case None
  from assms(2) None obtain stopped where st: "isStopped m = Inr stopped"
    by (auto simp: handleError_def andThen_eq_Inr)
  show ?thesis
  proof (cases stopped)
    case True
    with assms None st show ?thesis by (simp add: handleError_def)
  next
    case False
    show ?thesis
    proof (cases "find (IsChangefeedUnRetryableError cf) errs")
      case (Some err)
      with assms(2) None st False show ?thesis
        using nilSafeSince_set_then_patch [OF assms(1)] by (simp add: handleError_def)
    next
      case un: None
      from assms(2) None st False un obtain m1 mw where
        a: "onState (PatchInfo (lastError_patch errs)) m = Inr m1"
        and w: "handleError_window bo clock errs m1 = Inr mw"
        and g: "handleError_gate bo clock mw = Inr m2"
        by (auto simp: handleError_def andThen_eq_Inr)
      have "nilSafeSince s m1"
        using assms(1) a by (rule nilSafeSince_PatchInfo) (rule lastError_patch_nil)
      then have "nilSafeSince s mw"
        using handleError_window_state [OF w] by (rule nilSafeSince_same_state)
      then show ?thesis using g by (rule nilSafeSince_gate)
    qed
  qed
qed

lemma nilSafeSince_handleWarning:
  assumes "nilSafeSince s m" "handleWarning errs m = Inr m1"
  shows "nilSafeSince s m1"
  using assms(1) assms(2) [unfolded handleWarning_def]
  by (rule nilSafeSince_PatchInfo) (rule lastWarning_patch_nil)

lemma nilSafeSince_resume:
  assumes "nilSafeSince s m" "Type job = AdminResume"
    and "handleAdminJob bo (m\<lparr>adminJobQueue := job # q\<rparr>) = Inr (b, m4)"
  shows "nilSafeSince s m4"
proof -
  let ?m1 = "m\<lparr>adminJobQueue := q\<rparr>"
  have safe1: "nilSafeSince s ?m1"
    using assms(1) by (rule nilSafeSince_same_state) simp
  from assms(1) obtain s1 where s1: "state m = Some s1"
    by (auto simp: nilSafeSince_def)
  show ?thesis
  proof (cases "CfID job \<noteq> StateID s1")
    case True
    with assms(2,3) s1 safe1 show ?thesis
      by (simp add: handleAdminJob_def popAdminJob_def)
  next
    case same: False
    show ?thesis
    proof (cases "Info s1")
      case None
      with assms(2,3) s1 same show ?thesis
        by (simp add: handleAdminJob_def popAdminJob_def)
    next
      case (Some info)
      show ?thesis
      proof (cases "State info = StateFailed \<or> State info = StateError
                    \<or> State info = StateStopped \<or> State info = StateFinished")
        case False
        with assms(2,3) s1 same Some safe1 show ?thesis
          by (simp add: handleAdminJob_def popAdminJob_def)
      next
        case True
        let ?m2 = "(resetErrBackoff bo (?m1\<lparr>shouldBeRunning := True\<rparr>))\<lparr>lastErrorTime := Unix 0 0\<rparr>"
        from assms(2,3) s1 same Some True obtain ma mb where
          p: "patchState StateNormal ?m2 = Inr ma"
          and i: "onState (PatchInfo (resume_info_patch job)) ma = Inr mb"
          and st: "onState (PatchStatus (resume_status_patch job)) mb = Inr m4"
          by (auto simp: handleAdminJob_def popAdminJob_def andThen_eq_Inr)
        have "nilSafeSince s ?m2"
          using assms(1) by (rule nilSafeSince_same_state) simp
        then have "nilSafeSince s ma" using p by (rule nilSafeSince_patchState)
        then have "nilSafeSince s mb"
          using i by (rule nilSafeSince_PatchInfo) (rule resume_info_patch_nil)
        then show ?thesis using st by (rule nilSafeSince_PatchStatus)
      qed
    qed
  qed
qed

text \<open>
  C10: every info closure that the error handler, the warning handler, the handling of a
  Resume job and \<open>patchState\<close> enqueue returns \<open>(nil, false, nil)\<close> on a nil info: it
  neither dereferences it nor reports a change.
\<close>

theorem info_closures_nil_safe:
  assumes "state m = Some s"
    and "handleError bo cf clock errs m = Inr m1 \<or> handleWarning errs m = Inr m1
         \<or> patchState feedState m = Inr m1
         \<or> (Type job = AdminResume \<and> handleAdminJob bo (m\<lparr>adminJobQueue := job # q\<rparr>) = Inr (b, m1))"
  shows "nilSafeSince s m1"
  using assms(2) nilSafeSince_refl [OF assms(1)]
  by (auto intro: nilSafeSince_handleError nilSafeSince_handleWarning nilSafeSince_patchState
      nilSafeSince_resume)

theorem info_closures_nil_safe_witness:
  "nilSafeSince (exampleState (exampleInfo StateNormal) [])
     (projr (handleError exampleBackOff exampleClassifier \<lparr>timeNow = 100, timeSinceNow = 101\<rparr>
        [exampleError ''CDC:ErrGCTTLExceeded'']
        (exampleManager\<lparr>state := Some (exampleState (exampleInfo StateNormal) [])\<rparr>)))"
  using info_closures_nil_safe [of "exampleManager\<lparr>state := Some (exampleState (exampleInfo StateNormal) [])\<rparr>"
      "exampleState (exampleInfo StateNormal) []" exampleBackOff exampleClassifier
      "\<lparr>timeNow = 100, timeSinceNow = 101\<rparr>" "[exampleError ''CDC:ErrGCTTLExceeded'']"
      "projr (handleError exampleBackOff exampleClassifier \<lparr>timeNow = 100, timeSinceNow = 101\<rparr>
        [exampleError ''CDC:ErrGCTTLExceeded'']
        (exampleManager\<lparr>state := Some (exampleState (exampleInfo StateNormal) [])\<rparr>))"]
  by (simp add: handleError_def exampleClassifier_def exampleError_def onState_def patchState_def
      patchState_switch_def exampleManager_def)

subsection \<open>The closures of patchState\<close>

lemma patchState_patchesTo:
  "state m = Some s \<Longrightarrow> feedState \<noteq> StateWarning \<Longrightarrow>
   patchState feedState m =
     Inr (m\<lparr>state := Some (s\<lparr>pendingPatches := pendingPatches s @ patchesTo feedState\<rparr>)\<rparr>)"
  by (cases feedState)
    (simp_all add: patchState_def patchesTo_def patchState_switch_def onState_def PatchStatus_def
      PatchInfo_def)

lemma applyPatches_patchesTo:
  assumes "Info r = Some i" "feedState \<noteq> StateWarning"
  shows "\<exists>flags r1 i1. applyPatches pdClient (patchesTo feedState) r = Inr (flags, r1)
           \<and> Info r1 = Some i1 \<and> State i1 = feedState \<and> Error i1 = Error i
           \<and> Warning i1 = Warning i \<and> StartTs i1 = StartTs i
           \<and> TaskPositions r1 = TaskPositions r \<and> pendingPatches r1 = pendingPatches r"
  using assms
  by (cases feedState; cases "Status r")
    (simp_all add: patchesTo_def patchState_switch_def applyPatch_def patchState_status_def
      patchState_info_def)

text \<open>
  C5: \<open>patchState\<close> enqueues one info closure; applied to an info it writes a fresh
  epoch exactly when the update-epoch flag of the target is set and the admin job type of
  the info differs from the one mapped to the target. The flag is set for every target
  but \<open>StateNormal\<close>, and a second application to the result changes nothing: the
  epoch is updated at most once per transition, and never by a patch to \<open>StateNormal\<close>.
\<close>

theorem patchState_epoch:
  assumes "state m = Some s" "feedState \<noteq> StateWarning"
  shows "\<exists>adminJobType updateEpoch fn.
           patchState_switch feedState = Some (adminJobType, updateEpoch)
           \<and> updateEpoch = (feedState \<noteq> StateNormal)
           \<and> patchState feedState m =
               Inr (m\<lparr>state := Some (s\<lparr>pendingPatches := pendingPatches s @
                      [StatusPatch (patchState_status adminJobType), InfoPatch fn]\<rparr>)\<rparr>)
           \<and> (\<forall>pdClient i. \<exists>i1 changed.
                  fn pdClient (Some i) = Inr (Some i1, changed, None)
                  \<and> Epoch i1 = (if updateEpoch \<and> AdminJobType i \<noteq> adminJobType
                                then GenerateChangefeedEpoch pdClient else Epoch i)
                  \<and> (\<forall>pdClient2. fn pdClient2 (Some i1) = Inr (Some i1, False, None)))"
proof -
  obtain a u where sw: "patchState_switch feedState = Some (a, u)"
    using assms(2) by (cases feedState) (auto simp: patchState_switch_def)
  have u: "u = (feedState \<noteq> StateNormal)"
    using sw by (cases feedState) (simp_all add: patchState_switch_def)
  have p: "patchState feedState m =
      Inr (m\<lparr>state := Some (s\<lparr>pendingPatches := pendingPatches s @
        [StatusPatch (patchState_status a), InfoPatch (patchState_info feedState a u)]\<rparr>)\<rparr>)"
    using assms(1) sw by (rule patchState_Some)
  have e: "\<forall>pdClient i. \<exists>i1 changed.
      patchState_info feedState a u pdClient (Some i) = Inr (Some i1, changed, None)
      \<and> Epoch i1 = (if u \<and> AdminJobType i \<noteq> a then GenerateChangefeedEpoch pdClient else Epoch i)
      \<and> (\<forall>pdClient2. patchState_info feedState a u pdClient2 (Some i1) = Inr (Some i1, False, None))"
    by (auto simp: patchState_info_def)
  from sw u p e show ?thesis by blast
qed

theorem patchState_epoch_witness:
  "\<exists>adminJobType updateEpoch fn.
     patchState_switch StateFailed = Some (adminJobType, updateEpoch)
     \<and> updateEpoch = (StateFailed \<noteq> StateNormal)
     \<and> patchState StateFailed (exampleManager\<lparr>state := Some (exampleState (exampleInfo StateNormal) [])\<rparr>) =
         Inr (exampleManager\<lparr>state := Some ((exampleState (exampleInfo StateNormal) [])
                \<lparr>pendingPatches := pendingPatches (exampleState (exampleInfo StateNormal) []) @
                [StatusPatch (patchState_status adminJobType), InfoPatch fn]\<rparr>)\<rparr>)
     \<and> (\<forall>pdClient i. \<exists>i1 changed.
            fn pdClient (Some i) = Inr (Some i1, changed, None)
            \<and> Epoch i1 = (if updateEpoch \<and> AdminJobType i \<noteq> adminJobType
                          then GenerateChangefeedEpoch pdClient else Epoch i)
            \<and> (\<forall>pdClient2. fn pdClient2 (Some i1) = Inr (Some i1, False, None)))"
  using patchState_epoch [of "exampleManager\<lparr>state := Some (exampleState (exampleInfo StateNormal) [])\<rparr>"
      "exampleState (exampleInfo StateNormal) []" StateFailed]
  by simp

subsection \<open>The error handler\<close>

text \<open>
  The restart gate when no error is pending: the time of the last error is the
  sentinel, so the condition of the first branch fails, and yet the gate returns the
  manager as it was; the interval stays 10 s and is not the next backoff (20 s).
\<close>

theorem restart_gate_counterexample:
  "\<not> (lastErrorTime exampleManager \<noteq> Unix 0 0
       \<and> time_Since 101 (lastErrorTime exampleManager) < backoffInterval exampleManager)
   \<and> handleError_gate exampleBackOff \<lparr>timeNow = 100, timeSinceNow = 101\<rparr> exampleManager
       = Inr exampleManager
   \<and> fst (NextBackOff exampleBackOff (errBackoff exampleManager)) = 20000000000
   \<and> backoffInterval exampleManager = 10000000000"
  by (simp add: handleError_gate_def exampleManager_def exampleBackOff_def)

text \<open>
  C2, amended: the restart gate has three cases. With the sentinel as the time of the
  last error it returns with nothing changed. Otherwise, when the time since the last
  error is less than the interval, it sets should-run to false and patches
  \<open>StateError\<close>; else it sets the interval to the next backoff and clears the time of
  the last error, and when that interval is the stop value it sets should-run to false
  and patches \<open>StateFailed\<close>, else should-run stays as it was.
\<close>

theorem restart_gate:
  assumes "state m = Some s"
  shows "(lastErrorTime m = Unix 0 0 \<longrightarrow> handleError_gate bo clock m = Inr m)
    \<and> (lastErrorTime m \<noteq> Unix 0 0
         \<and> time_Since (timeSinceNow clock) (lastErrorTime m) < backoffInterval m \<longrightarrow>
        handleError_gate bo clock m =
          Inr (m\<lparr>shouldBeRunning := False,
                 state := Some (s\<lparr>pendingPatches := pendingPatches s @ patchesTo StateError\<rparr>)\<rparr>))
    \<and> (lastErrorTime m \<noteq> Unix 0 0
         \<and> \<not> time_Since (timeSinceNow clock) (lastErrorTime m) < backoffInterval m \<longrightarrow>
        (\<exists>m1. handleError_gate bo clock m = Inr m1
           \<and> backoffInterval m1 = fst (NextBackOff bo (errBackoff m))
           \<and> errBackoff m1 = snd (NextBackOff bo (errBackoff m))
           \<and> lastErrorTime m1 = Unix 0 0
           \<and> (if backoffInterval m1 = Stop bo (errBackoff m1)
               then shouldBeRunning m1 = False
                    \<and> state m1 = Some (s\<lparr>pendingPatches := pendingPatches s @ patchesTo StateFailed\<rparr>)
               else shouldBeRunning m1 = shouldBeRunning m \<and> state m1 = Some s)))"
  using assms
  by (cases "NextBackOff bo (errBackoff m)")
    (auto simp: handleError_gate_def patchState_patchesTo Let_def)

theorem restart_gate_witness:
  "handleError_gate exampleBackOff \<lparr>timeNow = 100, timeSinceNow = 101\<rparr>
     (exampleManager\<lparr>state := Some (exampleState (exampleInfo StateError) [])\<rparr>)
     = Inr (exampleManager\<lparr>state := Some (exampleState (exampleInfo StateError) [])\<rparr>)
   \<and> handleError_gate exampleBackOff \<lparr>timeNow = 100, timeSinceNow = 101\<rparr>
       (exampleManager\<lparr>state := Some (exampleState (exampleInfo StateError) []),
                        lastErrorTime := Now 100\<rparr>)
     = Inr (exampleManager\<lparr>state := Some ((exampleState (exampleInfo StateError) [])
              \<lparr>pendingPatches := patchesTo StateError\<rparr>),
            lastErrorTime := Now 100, shouldBeRunning := False\<rparr>)
   \<and> backoffInterval (projr (handleError_gate exampleBackOff
         \<lparr>timeNow = 100, timeSinceNow = 11000000100\<rparr>
         (exampleManager\<lparr>state := Some (exampleState (exampleInfo StateError) []),
                          lastErrorTime := Now 100\<rparr>))) = 20000000000"
proof -
  let ?s = "exampleState (exampleInfo StateError) []"
  let ?m = "exampleManager\<lparr>state := Some ?s\<rparr>"
  let ?p = "exampleManager\<lparr>state := Some ?s, lastErrorTime := Now 100\<rparr>"
  have 1: "lastErrorTime ?m = Unix 0 0" by (simp add: exampleManager_def)
  have 2: "lastErrorTime ?p \<noteq> Unix 0 0
      \<and> time_Since (timeSinceNow \<lparr>timeNow = 100, timeSinceNow = 101\<rparr>) (lastErrorTime ?p)
          < backoffInterval ?p"
    by (simp add: exampleManager_def)
  have 3: "lastErrorTime ?p \<noteq> Unix 0 0
      \<and> \<not> time_Since (timeSinceNow \<lparr>timeNow = 100, timeSinceNow = 11000000100\<rparr>) (lastErrorTime ?p)
          < backoffInterval ?p"
    by (simp add: exampleManager_def)
  have a: "handleError_gate exampleBackOff \<lparr>timeNow = 100, timeSinceNow = 101\<rparr> ?m = Inr ?m"
    using restart_gate [of ?m ?s exampleBackOff "\<lparr>timeNow = 100, timeSinceNow = 101\<rparr>"] 1
    by simp
  have b: "handleError_gate exampleBackOff \<lparr>timeNow = 100, timeSinceNow = 101\<rparr> ?p
      = Inr (?p\<lparr>shouldBeRunning := False,
               state := Some (?s\<lparr>pendingPatches := pendingPatches ?s @ patchesTo StateError\<rparr>)\<rparr>)"
    using restart_gate [of ?p ?s exampleBackOff "\<lparr>timeNow = 100, timeSinceNow = 101\<rparr>"] 2
    by simp
  have c: "\<exists>m1. handleError_gate exampleBackOff \<lparr>timeNow = 100, timeSinceNow = 11000000100\<rparr> ?p = Inr m1
      \<and> backoffInterval m1 = fst (NextBackOff exampleBackOff (errBackoff ?p))"
    using restart_gate [of ?p ?s exampleBackOff "\<lparr>timeNow = 100, timeSinceNow = 11000000100\<rparr>"] 3
    by auto
  have d: "fst (NextBackOff exampleBackOff (errBackoff ?p)) = 20000000000"
    by (simp add: exampleManager_def exampleBackOff_def)
  from a b c d show ?thesis
    by (auto simp: exampleState_def)
qed

subsection \<open>Fields kept by the helpers\<close>

lemma resetErrBackoff_fields [simp]:
  "shouldBeRunning (resetErrBackoff bo m) = shouldBeRunning m"
  "shouldBeRemoved (resetErrBackoff bo m) = shouldBeRemoved m"
  "adminJobQueue (resetErrBackoff bo m) = adminJobQueue m"
  "stateHistory (resetErrBackoff bo m) = stateHistory m"
  "lastErrorTime (resetErrBackoff bo m) = lastErrorTime m"
  "backoffInterval (resetErrBackoff bo m) = fst (NextBackOff bo (Reset bo (errBackoff m)))"
  "errBackoff (resetErrBackoff bo m) = snd (NextBackOff bo (Reset bo (errBackoff m)))"
  by (simp_all add: resetErrBackoff_def split: prod.splits)

lemma shiftStateWindow_fields [simp]:
  "shouldBeRunning (shiftStateWindow st m) = shouldBeRunning m"
  "shouldBeRemoved (shiftStateWindow st m) = shouldBeRemoved m"
  "adminJobQueue (shiftStateWindow st m) = adminJobQueue m"
  "lastErrorTime (shiftStateWindow st m) = lastErrorTime m"
  "backoffInterval (shiftStateWindow st m) = backoffInterval m"
  "errBackoff (shiftStateWindow st m) = errBackoff m"
  by (simp_all add: shiftStateWindow_def)

lemma find_None_all: "(find P xs = None) = (\<forall>x \<in> set xs. \<not> P x)"
  by (auto simp: find_None_iff)

text \<open>
  C8: when every sample of the window is \<open>StateNormal\<close> and the handler gets a
  non-empty batch of retryable errors (the feed not being stopped), the backoff is reset
  before the restart gate runs: the gate decides on the interval that \<open>NextBackOff\<close>
  returns right after \<open>Reset\<close>, the initial interval. When the gate keeps the feed down,
  that interval and the time of the error are what the manager holds for the restart.
\<close>

theorem stable_window_resets_backoff:
  assumes "state m = Some s" "Info s = Some i" "State i \<noteq> StateStopped"
    and "errs \<noteq> []"
    and "\<forall>err \<in> set errs. \<not> IsChangefeedFastFailErrorCode cf (Code err)
           \<and> \<not> IsChangefeedUnRetryableError cf err"
    and "isChangefeedStable m"
  shows "\<exists>mw. handleError bo cf clock errs m = handleError_gate bo clock mw
           \<and> backoffInterval mw = fst (NextBackOff bo (Reset bo (errBackoff m)))
           \<and> errBackoff mw = snd (NextBackOff bo (Reset bo (errBackoff m)))
           \<and> lastErrorTime mw = Now (timeNow clock)
           \<and> (timeSinceNow clock - timeNow clock < backoffInterval mw \<longrightarrow>
                (\<exists>m1. handleError bo cf clock errs m = Inr m1
                   \<and> shouldBeRunning m1 = False
                   \<and> lastErrorTime m1 = Now (timeNow clock)
                   \<and> backoffInterval m1 = fst (NextBackOff bo (Reset bo (errBackoff m)))
                   \<and> errBackoff m1 = snd (NextBackOff bo (Reset bo (errBackoff m)))))"
proof -
  let ?s1 = "PatchInfo (lastError_patch errs) s"
  let ?mw = "shiftStateWindow (State i)
               (resetErrBackoff bo (m\<lparr>state := Some ?s1, lastErrorTime := Now (timeNow clock)\<rparr>))"
  have ff: "find (\<lambda>err. IsChangefeedFastFailErrorCode cf (Code err)) errs = None"
    using assms(5) by (simp add: find_None_all)
  have un: "find (IsChangefeedUnRetryableError cf) errs = None"
    using assms(5) by (simp add: find_None_all)
  have st: "isChangefeedStable (m\<lparr>state := Some ?s1, lastErrorTime := Now (timeNow clock)\<rparr>)"
    using assms(6) by (simp add: isChangefeedStable_def)
  have w: "handleError_window bo clock errs (m\<lparr>state := Some ?s1\<rparr>) = Inr ?mw"
    using assms(2,4) st by (simp add: handleError_window_def PatchInfo_def)
  have h: "handleError bo cf clock errs m = handleError_gate bo clock ?mw"
    using assms(1,2,3) ff un w by (simp add: handleError_def isStopped_def onState_def)
  have g: "\<exists>m1. handleError_gate bo clock ?mw = Inr m1
      \<and> shouldBeRunning m1 = False
      \<and> lastErrorTime m1 = Now (timeNow clock)
      \<and> backoffInterval m1 = fst (NextBackOff bo (Reset bo (errBackoff m)))
      \<and> errBackoff m1 = snd (NextBackOff bo (Reset bo (errBackoff m)))"
    if "timeSinceNow clock - timeNow clock < backoffInterval ?mw"
    using that by (simp add: handleError_gate_def patchState_patchesTo)
  show ?thesis
    apply (rule exI [of _ ?mw])
    using h g by simp
qed

theorem stable_window_resets_backoff_witness:
  "backoffInterval (projr (handleError exampleBackOff exampleClassifier
      \<lparr>timeNow = 100, timeSinceNow = 101\<rparr> [exampleError ''E1'']
      (exampleManager\<lparr>state := Some (exampleState (exampleInfo StateNormal) []),
                       backoffInterval := 40000000000,
                       errBackoff := (80000000000, 70000000000)\<rparr>))) = 10000000000
   \<and> shouldBeRunning (projr (handleError exampleBackOff exampleClassifier
      \<lparr>timeNow = 100, timeSinceNow = 101\<rparr> [exampleError ''E1'']
      (exampleManager\<lparr>state := Some (exampleState (exampleInfo StateNormal) []),
                       backoffInterval := 40000000000,
                       errBackoff := (80000000000, 70000000000)\<rparr>))) = False"
proof -
  let ?s = "exampleState (exampleInfo StateNormal) []"
  let ?m = "exampleManager\<lparr>state := Some ?s, backoffInterval := 40000000000,
                           errBackoff := (80000000000, 70000000000)\<rparr>"
  have 1: "state ?m = Some ?s" by simp
  have 2: "Info ?s = Some (exampleInfo StateNormal)" by (simp add: exampleState_def)
  have 3: "State (exampleInfo StateNormal) \<noteq> StateStopped" by (simp add: exampleInfo_def)
  have 4: "[exampleError ''E1''] \<noteq> []" by simp
  have 5: "\<forall>err \<in> set [exampleError ''E1''].
      \<not> IsChangefeedFastFailErrorCode exampleClassifier (Code err)
      \<and> \<not> IsChangefeedUnRetryableError exampleClassifier err"
    by (simp add: exampleClassifier_def exampleError_def)
  have 6: "isChangefeedStable ?m"
    by (simp add: isChangefeedStable_def exampleManager_def list_all_iff)
  have 7: "fst (NextBackOff exampleBackOff (Reset exampleBackOff (errBackoff ?m))) = 10000000000"
    by (simp add: exampleBackOff_def)
  let ?r = "handleError exampleBackOff exampleClassifier
      \<lparr>timeNow = 100, timeSinceNow = 101\<rparr> [exampleError ''E1''] ?m"
  from stable_window_resets_backoff [OF 1 2 3 4 5 6, of exampleBackOff
        "\<lparr>timeNow = 100, timeSinceNow = 101\<rparr>"] 7
  obtain m1 where r: "?r = Inr m1" and "shouldBeRunning m1 = False"
    and "backoffInterval m1 = 10000000000"
    by auto
  then show ?thesis by simp
qed

subsection \<open>Admin jobs\<close>

lemma handleAdminJob_handled:
  assumes "state m = Some s" "adminJobQueue m = job # q" "CfID job = StateID s"
    and "Info s = Some i" "jobPermitted (Type job) (State i)"
  shows "handleAdminJob bo m =
           Inr (True, (jobEffect bo job (m\<lparr>adminJobQueue := q\<rparr>))
                  \<lparr>state := Some (s\<lparr>pendingPatches := pendingPatches s @ jobPatches job\<rparr>)\<rparr>)"
  using assms
  by (cases "Type job")
    (auto simp: handleAdminJob_def popAdminJob_def jobPermitted_def jobEffect_def jobPatches_def
      patchState_patchesTo onState_def PatchInfo_def PatchStatus_def)

lemma handleAdminJob_not_handled:
  assumes "state m = Some s" "Info s = Some i" "\<not> jobHandled m s"
  shows "handleAdminJob bo m = Inr (False, m\<lparr>adminJobQueue := tl (adminJobQueue m)\<rparr>)"
proof (cases "adminJobQueue m")
  case Nil
  then show ?thesis by (simp add: handleAdminJob_def popAdminJob_def)
next
  case (Cons job q)
  with assms show ?thesis
    by (cases "Type job")
      (auto simp: handleAdminJob_def popAdminJob_def jobHandled_def jobPermitted_def)
qed

lemma foldl_PatchTaskPosition:
  "foldl (\<lambda>s' captureID. PatchTaskPosition captureID fn s') s cs =
     s\<lparr>pendingPatches := pendingPatches s @ map (\<lambda>captureID. TaskPositionPatch captureID fn) cs\<rparr>"
  by (induction cs arbitrary: s) (simp_all add: PatchTaskPosition_def)

lemma Tick_deferred_Some:
  "state m = Some s \<Longrightarrow>
   Tick_deferred m =
     Inr (m\<lparr>state := Some (s\<lparr>pendingPatches := pendingPatches s
            @ deferredPatches (shouldBeRunning m) (TaskPositions s)\<rparr>)\<rparr>)"
  by (simp add: Tick_deferred_def deferredPatches_def patchState_patchesTo cleanUpInfos_def
      onState_def foldl_PatchTaskPosition)

lemma jobEffect_fields [simp]:
  "state (jobEffect bo job m) = state m"
  "adminJobQueue (jobEffect bo job m) = adminJobQueue m"
  "stateHistory (jobEffect bo job m) = stateHistory m"
  "shouldBeRunning (jobEffect bo job m) =
     (Type job = AdminResume \<or> (Type job = AdminNone \<and> shouldBeRunning m))"
  by (cases "Type job"; simp add: jobEffect_def)+

lemma Tick_handled:
  assumes "adminJobQueue m = job # q" "CfID job = StateID s"
    and "Info s = Some i" "jobPermitted (Type job) (State i)"
  shows "Tick bo cf clock s m =
           Inr (True,
             (jobEffect bo job (m\<lparr>shouldBeRunning := True, adminJobQueue := q\<rparr>))
               \<lparr>state := Some (s\<lparr>pendingPatches := pendingPatches s @ jobPatches job
                   @ deferredPatches (Type job = AdminResume) (TaskPositions s)\<rparr>)\<rparr>)"
proof -
  let ?m0 = "m\<lparr>state := Some s, shouldBeRunning := True\<rparr>"
  have a: "handleAdminJob bo ?m0 =
      Inr (True, (jobEffect bo job (?m0\<lparr>adminJobQueue := q\<rparr>))
        \<lparr>state := Some (s\<lparr>pendingPatches := pendingPatches s @ jobPatches job\<rparr>)\<rparr>)"
    using assms by (intro handleAdminJob_handled) simp_all
  have r: "Type job \<noteq> AdminNone"
    using assms(4) by (auto simp: jobPermitted_def)
  have e: "(jobEffect bo job (?m0\<lparr>adminJobQueue := q\<rparr>))\<lparr>state := x\<rparr>
      = (jobEffect bo job (m\<lparr>shouldBeRunning := True, adminJobQueue := q\<rparr>))\<lparr>state := x\<rparr>" for x
    by (cases "Type job") (simp_all add: jobEffect_def resetErrBackoff_def split: prod.splits)
  show ?thesis
    using r by (simp add: Tick_def Tick_body_def a Tick_deferred_Some e)
qed

lemma applyPatches_resume:
  assumes "Info r = Some i0" "Status r = Some st0" "Type job = AdminResume"
  shows "\<exists>flags r1 i1 st1.
           applyPatches pdClient (jobPatches job @ patchesTo StateNormal) r = Inr (flags, r1)
           \<and> Info r1 = Some i1 \<and> Status r1 = Some st1
           \<and> Error i1 = None \<and> State i1 = StateNormal
           \<and> (0 < OverwriteCheckpointTs job \<longrightarrow>
                StartTs i1 = OverwriteCheckpointTs job
                \<and> ResolvedTs st1 = OverwriteCheckpointTs job
                \<and> CheckpointTs st1 = OverwriteCheckpointTs job
                \<and> MinTableBarrierTs st1 = OverwriteCheckpointTs job)"
  using assms
  by (simp add: jobPatches_def patchesTo_def patchState_switch_def applyPatch_def
      patchState_status_def patchState_info_def resume_info_patch_def resume_status_patch_def)

text \<open>
  Resume with a status in place: a tick that handles a Resume job from \<open>StateFailed\<close>,
  \<open>StateError\<close>, \<open>StateStopped\<close> or \<open>StateFinished\<close> returns true with the time of
  the last error at the sentinel, the backoff reset (the interval is the first one after
  \<open>Reset\<close>) and should-run set. The closures it enqueues, applied to an info and a
  status that is not nil, leave the info with no error and in \<open>StateNormal\<close>; when the
  checkpoint to overwrite is positive, the start of the info and the three timestamps of
  the status equal it.
\<close>

theorem resume_hygiene:
  assumes "adminJobQueue m = job # q" "Type job = AdminResume" "CfID job = StateID s"
    and "Info s = Some i"
    and "State i = StateFailed \<or> State i = StateError \<or> State i = StateStopped
         \<or> State i = StateFinished"
  shows "\<exists>m1 new.
           Tick bo cf clock s m = Inr (True, m1)
           \<and> lastErrorTime m1 = Unix 0 0
           \<and> backoffInterval m1 = fst (NextBackOff bo (Reset bo (errBackoff m)))
           \<and> errBackoff m1 = snd (NextBackOff bo (Reset bo (errBackoff m)))
           \<and> shouldBeRunning m1 = True
           \<and> state m1 = Some (s\<lparr>pendingPatches := pendingPatches s @ new\<rparr>)
           \<and> (\<forall>pdClient r i0 st0. Info r = Some i0 \<and> Status r = Some st0 \<longrightarrow>
                 (\<exists>flags r1 i1 st1.
                    applyPatches pdClient new r = Inr (flags, r1)
                    \<and> Info r1 = Some i1 \<and> Status r1 = Some st1
                    \<and> Error i1 = None \<and> State i1 = StateNormal
                    \<and> (0 < OverwriteCheckpointTs job \<longrightarrow>
                         StartTs i1 = OverwriteCheckpointTs job
                         \<and> ResolvedTs st1 = OverwriteCheckpointTs job
                         \<and> CheckpointTs st1 = OverwriteCheckpointTs job
                         \<and> MinTableBarrierTs st1 = OverwriteCheckpointTs job)))"
proof -
  have p: "jobPermitted (Type job) (State i)"
    using assms(2,5) by (simp add: jobPermitted_def)
  let ?new = "jobPatches job @ patchesTo StateNormal"
  let ?m1 = "(jobEffect bo job (m\<lparr>shouldBeRunning := True, adminJobQueue := q\<rparr>))
               \<lparr>state := Some (s\<lparr>pendingPatches := pendingPatches s @ ?new\<rparr>)\<rparr>"
  have t: "Tick bo cf clock s m = Inr (True, ?m1)"
    using Tick_handled [OF assms(1,3,4) p, of bo cf clock] assms(2)
    by (simp add: deferredPatches_def)
  have f: "lastErrorTime ?m1 = Unix 0 0
      \<and> backoffInterval ?m1 = fst (NextBackOff bo (Reset bo (errBackoff m)))
      \<and> errBackoff ?m1 = snd (NextBackOff bo (Reset bo (errBackoff m)))
      \<and> shouldBeRunning ?m1 = True
      \<and> state ?m1 = Some (s\<lparr>pendingPatches := pendingPatches s @ ?new\<rparr>)"
    using assms(2) by (simp add: jobEffect_def)
  have a: "\<forall>pdClient r i0 st0. Info r = Some i0 \<and> Status r = Some st0 \<longrightarrow>
      (\<exists>flags r1 i1 st1.
         applyPatches pdClient ?new r = Inr (flags, r1)
         \<and> Info r1 = Some i1 \<and> Status r1 = Some st1
         \<and> Error i1 = None \<and> State i1 = StateNormal
         \<and> (0 < OverwriteCheckpointTs job \<longrightarrow>
              StartTs i1 = OverwriteCheckpointTs job
              \<and> ResolvedTs st1 = OverwriteCheckpointTs job
              \<and> CheckpointTs st1 = OverwriteCheckpointTs job
              \<and> MinTableBarrierTs st1 = OverwriteCheckpointTs job))"
    using applyPatches_resume [OF _ _ assms(2)] by blast
  show ?thesis
    apply (rule exI [of _ ?m1], rule exI [of _ ?new])
    using t f a by simp
qed

lemmas manager_defs =
  Tick_def Tick_body_def Tick_switch_def Tick_deferred_def Tick_reports_def handleAdminJob_def popAdminJob_def
  handleError_def handleError_window_def handleError_gate_def handleWarning_def isStopped_def
  errorsReportedByProcessors_def warningsReportedByProcessors_def cleanUpInfos_def
  patchState_def patchState_switch_def onState_def PatchInfo_def PatchStatus_def
  PatchTaskPosition_def resetErrBackoff_def isChangefeedStable_def

lemmas example_defs =
  exampleBackOff_def exampleClassifier_def exampleID_def exampleInfo_def exampleStatus_def
  exampleState_def exampleManager_def exampleError_def examplePD_def

theorem resume_hygiene_witness:
  "fst (projr (Tick exampleBackOff exampleClassifier \<lparr>timeNow = 100, timeSinceNow = 101\<rparr>
      (exampleState (exampleInfo StateFailed) [])
      (exampleManager\<lparr>adminJobQueue :=
         [\<lparr>CfID = exampleID, Type = AdminResume, OverwriteCheckpointTs = 42\<rparr>],
         lastErrorTime := Now 50, backoffInterval := - 1\<rparr>))) = True
   \<and> lastErrorTime (snd (projr (Tick exampleBackOff exampleClassifier \<lparr>timeNow = 100, timeSinceNow = 101\<rparr>
      (exampleState (exampleInfo StateFailed) [])
      (exampleManager\<lparr>adminJobQueue :=
         [\<lparr>CfID = exampleID, Type = AdminResume, OverwriteCheckpointTs = 42\<rparr>],
         lastErrorTime := Now 50, backoffInterval := - 1\<rparr>)))) = Unix 0 0
   \<and> backoffInterval (snd (projr (Tick exampleBackOff exampleClassifier \<lparr>timeNow = 100, timeSinceNow = 101\<rparr>
      (exampleState (exampleInfo StateFailed) [])
      (exampleManager\<lparr>adminJobQueue :=
         [\<lparr>CfID = exampleID, Type = AdminResume, OverwriteCheckpointTs = 42\<rparr>],
         lastErrorTime := Now 50, backoffInterval := - 1\<rparr>)))) = 10000000000"
proof -
  let ?job = "\<lparr>CfID = exampleID, Type = AdminResume, OverwriteCheckpointTs = 42\<rparr>"
  let ?s = "exampleState (exampleInfo StateFailed) []"
  let ?m = "exampleManager\<lparr>adminJobQueue := [?job], lastErrorTime := Now 50, backoffInterval := - 1\<rparr>"
  have 1: "adminJobQueue ?m = ?job # []" by simp
  have 2: "Type ?job = AdminResume" by simp
  have 3: "CfID ?job = StateID ?s" by (simp add: exampleState_def)
  have 4: "Info ?s = Some (exampleInfo StateFailed)" by (simp add: exampleState_def)
  have 5: "State (exampleInfo StateFailed) = StateFailed \<or> State (exampleInfo StateFailed) = StateError
      \<or> State (exampleInfo StateFailed) = StateStopped \<or> State (exampleInfo StateFailed) = StateFinished"
    by (simp add: exampleInfo_def)
  have 6: "fst (NextBackOff exampleBackOff (Reset exampleBackOff (errBackoff ?m))) = 10000000000"
    by (simp add: exampleBackOff_def)
  from resume_hygiene [OF 1 2 3 4 5, of exampleBackOff exampleClassifier
      "\<lparr>timeNow = 100, timeSinceNow = 101\<rparr>"] 6
  obtain m1 where "Tick exampleBackOff exampleClassifier \<lparr>timeNow = 100, timeSinceNow = 101\<rparr> ?s ?m
      = Inr (True, m1)" and "lastErrorTime m1 = Unix 0 0" and "backoffInterval m1 = 10000000000"
    by auto
  then show ?thesis by simp
qed

lemma Tick_True_handled:
  assumes "Info s = Some i" "Tick bo cf clock s m = Inr (True, m1)"
  shows "jobHandled m s"
proof (rule ccontr)
  assume n: "\<not> jobHandled m s"
  let ?m0 = "m\<lparr>state := Some s, shouldBeRunning := True\<rparr>"
  have "\<not> jobHandled ?m0 s" using n by (simp add: jobHandled_def)
  then have a: "handleAdminJob bo ?m0 = Inr (False, ?m0\<lparr>adminJobQueue := tl (adminJobQueue ?m0)\<rparr>)"
    using assms(1) by (intro handleAdminJob_not_handled) simp_all
  from assms(2) obtain mb where "Tick_body bo cf clock ?m0 = Inr (True, mb)"
    by (auto simp: Tick_def andThen_eq_Inr)
  then show False
    using assms(1)
    by (auto simp: Tick_body_def a andThen_eq_Inr split: if_splits option.splits)
qed

text \<open>
  A Resume job for this changefeed is queued while the feed is in \<open>StateNormal\<close>, from
  which it is not permitted, and a processor reports the error E1. The tick takes the job
  off the queue and returns false; the error handler runs in the same tick: it records
  the time of the error and keeps the feed down.
\<close>

theorem admin_job_exclusive_counterexample:
  "adminJobQueue (exampleManager\<lparr>adminJobQueue :=
       [\<lparr>CfID = exampleID, Type = AdminResume, OverwriteCheckpointTs = 0\<rparr>]\<rparr>)
     = [\<lparr>CfID = exampleID, Type = AdminResume, OverwriteCheckpointTs = 0\<rparr>]
   \<and> \<not> isl (Tick exampleBackOff exampleClassifier \<lparr>timeNow = 100, timeSinceNow = 101\<rparr>
      (exampleState (exampleInfo StateNormal)
         [(''capture-1'', \<lparr>PosError = Some (exampleError ''E1''), PosWarning = None\<rparr>)])
      (exampleManager\<lparr>adminJobQueue :=
         [\<lparr>CfID = exampleID, Type = AdminResume, OverwriteCheckpointTs = 0\<rparr>]\<rparr>))
   \<and> fst (projr (Tick exampleBackOff exampleClassifier \<lparr>timeNow = 100, timeSinceNow = 101\<rparr>
      (exampleState (exampleInfo StateNormal)
         [(''capture-1'', \<lparr>PosError = Some (exampleError ''E1''), PosWarning = None\<rparr>)])
      (exampleManager\<lparr>adminJobQueue :=
         [\<lparr>CfID = exampleID, Type = AdminResume, OverwriteCheckpointTs = 0\<rparr>]\<rparr>))) = False
   \<and> adminJobQueue (snd (projr (Tick exampleBackOff exampleClassifier \<lparr>timeNow = 100, timeSinceNow = 101\<rparr>
      (exampleState (exampleInfo StateNormal)
         [(''capture-1'', \<lparr>PosError = Some (exampleError ''E1''), PosWarning = None\<rparr>)])
      (exampleManager\<lparr>adminJobQueue :=
         [\<lparr>CfID = exampleID, Type = AdminResume, OverwriteCheckpointTs = 0\<rparr>]\<rparr>)))) = []
   \<and> lastErrorTime (snd (projr (Tick exampleBackOff exampleClassifier \<lparr>timeNow = 100, timeSinceNow = 101\<rparr>
      (exampleState (exampleInfo StateNormal)
         [(''capture-1'', \<lparr>PosError = Some (exampleError ''E1''), PosWarning = None\<rparr>)])
      (exampleManager\<lparr>adminJobQueue :=
         [\<lparr>CfID = exampleID, Type = AdminResume, OverwriteCheckpointTs = 0\<rparr>]\<rparr>)))) = Now 100
   \<and> shouldBeRunning (snd (projr (Tick exampleBackOff exampleClassifier \<lparr>timeNow = 100, timeSinceNow = 101\<rparr>
      (exampleState (exampleInfo StateNormal)
         [(''capture-1'', \<lparr>PosError = Some (exampleError ''E1''), PosWarning = None\<rparr>)])
      (exampleManager\<lparr>adminJobQueue :=
         [\<lparr>CfID = exampleID, Type = AdminResume, OverwriteCheckpointTs = 0\<rparr>]\<rparr>)))) = False"
  by (simp add: manager_defs example_defs list_all_iff defaultStateWindowSize_def)

subsection \<open>The flag of removal\<close>

lemma onState_removed: "onState f m = Inr m1 \<Longrightarrow> shouldBeRemoved m1 = shouldBeRemoved m"
  by (auto simp: onState_def split: option.splits)

lemma patchState_removed: "patchState feedState m = Inr m1 \<Longrightarrow> shouldBeRemoved m1 = shouldBeRemoved m"
  by (auto simp: patchState_def andThen_eq_Inr split: option.splits dest!: onState_removed)

lemma cleanUpInfos_removed: "cleanUpInfos m = Inr m1 \<Longrightarrow> shouldBeRemoved m1 = shouldBeRemoved m"
  unfolding cleanUpInfos_def by (rule onState_removed)

lemma Tick_deferred_removed: "Tick_deferred m = Inr m1 \<Longrightarrow> shouldBeRemoved m1 = shouldBeRemoved m"
  by (auto simp: Tick_deferred_def split: if_splits dest: patchState_removed cleanUpInfos_removed)

lemma errorsReportedByProcessors_removed:
  "errorsReportedByProcessors m = Inr (errs, m1) \<Longrightarrow> shouldBeRemoved m1 = shouldBeRemoved m"
  by (auto simp: errorsReportedByProcessors_def split: option.splits prod.splits)

lemma warningsReportedByProcessors_removed:
  "warningsReportedByProcessors m = Inr (errs, m1) \<Longrightarrow> shouldBeRemoved m1 = shouldBeRemoved m"
  by (auto simp: warningsReportedByProcessors_def split: option.splits prod.splits)

lemma handleError_window_removed:
  "handleError_window bo clock errs m = Inr m1 \<Longrightarrow> shouldBeRemoved m1 = shouldBeRemoved m"
  by (auto simp: handleError_window_def Let_def split: option.splits if_splits)

lemma handleError_gate_removed:
  "handleError_gate bo clock m = Inr m1 \<Longrightarrow> shouldBeRemoved m1 = shouldBeRemoved m"
  by (auto simp: handleError_gate_def Let_def split: if_splits prod.splits dest!: patchState_removed)

lemma set_then_patch_removed:
  "andThen (onState f m) (\<lambda>m1. patchState feedState (m1\<lparr>shouldBeRunning := False\<rparr>)) = Inr m2 \<Longrightarrow>
   shouldBeRemoved m2 = shouldBeRemoved m"
  by (auto simp: andThen_eq_Inr dest!: onState_removed patchState_removed)

lemma handleError_removed:
  "handleError bo cf clock errs m = Inr m1 \<Longrightarrow> shouldBeRemoved m1 = shouldBeRemoved m"
  by (auto simp: handleError_def andThen_eq_Inr split: option.splits if_splits
      dest!: set_then_patch_removed [unfolded andThen_eq_Inr] onState_removed
        handleError_window_removed handleError_gate_removed patchState_removed)

lemma handleWarning_removed:
  "handleWarning errs m = Inr m1 \<Longrightarrow> shouldBeRemoved m1 = shouldBeRemoved m"
  unfolding handleWarning_def by (rule onState_removed)

lemma Tick_reports_removed:
  "Tick_reports bo cf clock m = Inr m1 \<Longrightarrow> shouldBeRemoved m1 = shouldBeRemoved m"
  by (auto simp: Tick_reports_def andThen_eq_Inr
      dest!: errorsReportedByProcessors_removed warningsReportedByProcessors_removed
        handleError_removed handleWarning_removed)

lemma handleAdminJob_removed:
  "handleAdminJob bo m = Inr (pending, m1) \<Longrightarrow> shouldBeRemoved m \<Longrightarrow> shouldBeRemoved m1"
  by (auto simp: handleAdminJob_def popAdminJob_def andThen_eq_Inr
      split: list.splits option.splits if_splits AdminJobType.splits
      dest!: patchState_removed onState_removed)

lemma Tick_switch_removed:
  "Tick_switch bo cf clock m = Inr m1 \<Longrightarrow> shouldBeRemoved m \<Longrightarrow> shouldBeRemoved m1"
  by (auto simp: Tick_switch_def split: option.splits if_splits
      dest!: patchState_removed Tick_reports_removed)

lemma Tick_body_removed:
  "Tick_body bo cf clock m = Inr (pending, m1) \<Longrightarrow> shouldBeRemoved m \<Longrightarrow> shouldBeRemoved m1"
  by (auto simp: Tick_body_def andThen_eq_Inr split: if_splits
      dest: handleAdminJob_removed Tick_switch_removed)

lemma Tick_removed:
  "Tick bo cf clock s m = Inr (pending, m1) \<Longrightarrow> shouldBeRemoved m \<Longrightarrow> shouldBeRemoved m1"
  by (auto simp: Tick_def andThen_eq_Inr dest!: Tick_body_removed Tick_deferred_removed)

lemma call_removed:
  "call bo cf op m = Inr m1 \<Longrightarrow> shouldBeRemoved m \<Longrightarrow> shouldBeRemoved m1"
  by (cases op)
    (auto simp: andThen_eq_Inr PushAdminJob_def pushAdminJob_def MarkFinished_def
      split: if_splits option.splits dest: Tick_removed)

lemma calls_removed:
  "calls bo cf ops m = Inr m1 \<Longrightarrow> shouldBeRemoved m \<Longrightarrow> shouldBeRemoved m1"
  by (induction ops arbitrary: m) (auto simp: andThen_eq_Inr dest: call_removed)

lemma calls_append:
  "calls bo cf (ops1 @ ops2) m = andThen (calls bo cf ops1 m) (calls bo cf ops2)"
  by (induction ops1 arbitrary: m) (auto simp: andThen_def split: sum.splits)

text \<open>
  C9: at whatever point of a sequence of calls of \<open>Tick\<close>, \<open>PushAdminJob\<close> and
  \<open>MarkFinished\<close> the flag of removal is true, it is true after the rest of the calls:
  \<open>ShouldRemoved\<close> never goes from true to false.
\<close>

theorem shouldBeRemoved_monotone:
  assumes "calls bo cf (ops1 @ ops2) m = Inr m2"
  shows "\<exists>m1. calls bo cf ops1 m = Inr m1 \<and> calls bo cf ops2 m1 = Inr m2
           \<and> (ShouldRemoved m1 \<longrightarrow> ShouldRemoved m2)"
  using assms
  by (auto simp: calls_append andThen_eq_Inr ShouldRemoved_def dest: calls_removed)

theorem shouldBeRemoved_monotone_witness:
  "ShouldRemoved (projr (calls exampleBackOff exampleClassifier
      [CallPushAdminJob \<lparr>CfID = exampleID, Type = AdminRemove, OverwriteCheckpointTs = 0\<rparr>,
       CallTick \<lparr>timeNow = 100, timeSinceNow = 101\<rparr> (exampleState (exampleInfo StateNormal) [])]
      exampleManager))
   \<and> ShouldRemoved (projr (calls exampleBackOff exampleClassifier
      ([CallPushAdminJob \<lparr>CfID = exampleID, Type = AdminRemove, OverwriteCheckpointTs = 0\<rparr>,
        CallTick \<lparr>timeNow = 100, timeSinceNow = 101\<rparr> (exampleState (exampleInfo StateNormal) [])]
       @ [CallMarkFinished,
          CallTick \<lparr>timeNow = 200, timeSinceNow = 201\<rparr> (exampleState (exampleInfo StateNormal) [])])
      exampleManager))"
proof -
  let ?ops1 = "[CallPushAdminJob \<lparr>CfID = exampleID, Type = AdminRemove, OverwriteCheckpointTs = 0\<rparr>,
       CallTick \<lparr>timeNow = 100, timeSinceNow = 101\<rparr> (exampleState (exampleInfo StateNormal) [])]"
  let ?ops2 = "[CallMarkFinished,
          CallTick \<lparr>timeNow = 200, timeSinceNow = 201\<rparr> (exampleState (exampleInfo StateNormal) [])]"
  have e: "calls exampleBackOff exampleClassifier (?ops1 @ ?ops2) exampleManager
      = Inr (projr (calls exampleBackOff exampleClassifier (?ops1 @ ?ops2) exampleManager))"
    by (simp add: manager_defs example_defs PushAdminJob_def pushAdminJob_def MarkFinished_def
        jobPermitted_def)
  have r: "ShouldRemoved (projr (calls exampleBackOff exampleClassifier ?ops1 exampleManager))"
    by (simp add: manager_defs example_defs PushAdminJob_def pushAdminJob_def ShouldRemoved_def)
  from shouldBeRemoved_monotone [OF e] obtain m1 where
    "calls exampleBackOff exampleClassifier ?ops1 exampleManager = Inr m1"
    and "ShouldRemoved m1 \<longrightarrow> ShouldRemoved
      (projr (calls exampleBackOff exampleClassifier (?ops1 @ ?ops2) exampleManager))"
    by blast
  with r show ?thesis by simp
qed

subsection \<open>Ticks that handle no admin job\<close>

lemma collectErrors_none:
  "list_all (\<lambda>(captureID, position). PosError position = None) positions \<Longrightarrow>
   collectErrors positions acc s = (acc, s)"
  by (induction positions arbitrary: acc s) auto

lemma collectWarnings_none:
  "list_all (\<lambda>(captureID, position). PosWarning position = None) positions \<Longrightarrow>
   collectWarnings positions acc s = (acc, s)"
  by (induction positions arbitrary: acc s) auto

lemma emptyInput_positions:
  assumes "emptyInput m s"
  shows "list_all (\<lambda>(captureID, position). PosError position = None) (TaskPositions s)"
    and "list_all (\<lambda>(captureID, position). PosWarning position = None) (TaskPositions s)"
  using assms by (auto simp: emptyInput_def list_all_iff)

text \<open>The reports of a tick when nothing is reported and no restart is pending.\<close>

lemma Tick_reports_idle:
  assumes "state m = Some s" "Info s = Some i" "State i \<noteq> StateStopped"
    and "list_all (\<lambda>(captureID, position). PosError position = None) (TaskPositions s)"
    and "list_all (\<lambda>(captureID, position). PosWarning position = None) (TaskPositions s)"
    and "lastErrorTime m = Unix 0 0 \<or> State i = StateNormal"
  shows "Tick_reports bo cf clock m =
           Inr ((shiftStateWindow (State i) m)
                  \<lparr>lastErrorTime := Unix 0 0,
                   state := Some (s\<lparr>pendingPatches := pendingPatches s
                     @ [InfoPatch (lastError_patch []), InfoPatch (lastWarning_patch [])]\<rparr>)\<rparr>)"
proof -
  let ?s1 = "s\<lparr>pendingPatches := pendingPatches s @ [InfoPatch (lastError_patch [])]\<rparr>"
  let ?m1 = "(shiftStateWindow (State i) m)\<lparr>lastErrorTime := Unix 0 0, state := Some ?s1\<rparr>"
  have e: "errorsReportedByProcessors m = Inr ([], m)"
    using assms(1,4) by (simp add: errorsReportedByProcessors_def collectErrors_none)
  have w: "handleError_window bo clock [] (m\<lparr>state := Some ?s1\<rparr>) = Inr ?m1"
    using assms(2,6) by (auto simp: handleError_window_def shiftStateWindow_def)
  have h: "handleError bo cf clock [] m = Inr ?m1"
    using assms(1,2,3) w
    by (simp add: handleError_def isStopped_def onState_def PatchInfo_def handleError_gate_def)
  have ww: "warningsReportedByProcessors ?m1 = Inr ([], ?m1)"
    using assms(5) by (simp add: warningsReportedByProcessors_def collectWarnings_none)
  show ?thesis
    by (simp add: Tick_reports_def e h ww handleWarning_def onState_def PatchInfo_def)
qed

lemma Tick_not_handled:
  assumes "Info s = Some i" "\<not> jobHandled m s"
  shows "Tick bo cf clock s m =
           andThen (Tick_switch bo cf clock
                      (m\<lparr>state := Some s, shouldBeRunning := True,
                         adminJobQueue := tl (adminJobQueue m)\<rparr>))
             (\<lambda>m1. andThen (Tick_deferred m1) (\<lambda>m2. Inr (False, m2)))"
proof -
  let ?m0 = "m\<lparr>state := Some s, shouldBeRunning := True\<rparr>"
  have "\<not> jobHandled ?m0 s" using assms(2) by (simp add: jobHandled_def)
  then have a: "handleAdminJob bo ?m0 = Inr (False, ?m0\<lparr>adminJobQueue := tl (adminJobQueue ?m0)\<rparr>)"
    using assms(1) by (intro handleAdminJob_not_handled) simp_all
  show ?thesis
    by (cases "Tick_switch bo cf clock (m\<lparr>state := Some s, shouldBeRunning := True,
                         adminJobQueue := tl (adminJobQueue m)\<rparr>)")
      (simp_all add: Tick_def Tick_body_def a)
qed

lemma Tick_idle_running:
  assumes "Info s = Some i" "\<not> jobHandled m s"
    and "list_all (\<lambda>(captureID, position). PosError position = None) (TaskPositions s)"
    and "list_all (\<lambda>(captureID, position). PosWarning position = None) (TaskPositions s)"
    and "State i = StateNormal \<or> State i = StateWarning
         \<or> (State i = StateError \<and> (\<exists>err. Error i = Some err \<and> \<not> IsChangefeedUnRetryableError cf err))"
    and "lastErrorTime m = Unix 0 0 \<or> State i = StateNormal"
  shows "Tick bo cf clock s m =
           Inr (False, (shiftStateWindow (State i) m)
                  \<lparr>shouldBeRunning := True, lastErrorTime := Unix 0 0,
                   adminJobQueue := tl (adminJobQueue m),
                   state := Some (s\<lparr>pendingPatches := pendingPatches s
                     @ [InfoPatch (lastError_patch []), InfoPatch (lastWarning_patch [])]
                     @ patchesTo StateNormal\<rparr>)\<rparr>)"
proof -
  let ?m0 = "m\<lparr>state := Some s, shouldBeRunning := True, adminJobQueue := tl (adminJobQueue m)\<rparr>"
  have r: "Tick_reports bo cf clock ?m0 =
      Inr ((shiftStateWindow (State i) ?m0)
             \<lparr>lastErrorTime := Unix 0 0,
              state := Some (s\<lparr>pendingPatches := pendingPatches s
                @ [InfoPatch (lastError_patch []), InfoPatch (lastWarning_patch [])]\<rparr>)\<rparr>)"
    using assms by (intro Tick_reports_idle) auto
  have sw: "Tick_switch bo cf clock ?m0 = Tick_reports bo cf clock ?m0"
    using assms(1,5) by (auto simp: Tick_switch_def)
  show ?thesis
    by (simp add: Tick_not_handled [OF assms(1,2)] sw r Tick_deferred_Some deferredPatches_def
        shiftStateWindow_def)
qed

lemma Tick_idle_halted:
  assumes "Info s = Some i" "\<not> jobHandled m s"
    and "State i = StateStopped \<or> State i = StateFailed \<or> State i = StateFinished
         \<or> State i = StateRemoved"
  shows "Tick bo cf clock s m =
           Inr (False, m\<lparr>shouldBeRunning := False,
                  shouldBeRemoved := (shouldBeRemoved m \<or> State i = StateRemoved),
                  adminJobQueue := tl (adminJobQueue m),
                  state := Some (s\<lparr>pendingPatches := pendingPatches s
                    @ deferredPatches False (TaskPositions s)\<rparr>)\<rparr>)"
  using assms(1,3)
  by (auto simp: Tick_not_handled [OF assms(1,2)] Tick_switch_def Tick_deferred_Some)

lemma Tick_idle_unretryable:
  assumes "Info s = Some i" "\<not> jobHandled m s"
    and "State i = StateError" "Error i = Some err" "IsChangefeedUnRetryableError cf err"
  shows "Tick bo cf clock s m =
           Inr (False, m\<lparr>shouldBeRunning := False,
                  adminJobQueue := tl (adminJobQueue m),
                  state := Some (s\<lparr>pendingPatches := pendingPatches s
                    @ patchesTo StateFailed @ deferredPatches False (TaskPositions s)\<rparr>)\<rparr>)"
  using assms(1,3,4,5)
  by (simp add: Tick_not_handled [OF assms(1,2)] Tick_switch_def Tick_deferred_Some
      patchState_patchesTo)

lemma applyPatches_append:
  "applyPatches pdClient (ps @ qs) r =
     (case applyPatches pdClient ps r of
        Inl e \<Rightarrow> Inl e
      | Inr (flags1, r1) \<Rightarrow>
          (case applyPatches pdClient qs r1 of
             Inl e \<Rightarrow> Inl e
           | Inr (flags2, r2) \<Rightarrow> Inr (flags1 @ flags2, r2)))"
  by (induction ps arbitrary: r) (auto split: sum.splits prod.splits)

lemma alist_delete_filter: "alist_delete k kvs = filter (\<lambda>kv. fst kv \<noteq> k) kvs"
  by (induction kvs) auto

lemma map_of_None_filter: "map_of kvs k = None \<Longrightarrow> filter (\<lambda>kv. fst kv \<noteq> k) kvs = kvs"
  by (induction kvs) (auto split: if_splits)

lemma applyPatch_cleanUp:
  "applyPatch pdClient (TaskPositionPatch captureID cleanUpInfos_patch) r =
     Inr (map_of (TaskPositions r) captureID \<noteq> None,
          r\<lparr>TaskPositions := filter (\<lambda>kv. fst kv \<noteq> captureID) (TaskPositions r)\<rparr>)"
  by (cases "map_of (TaskPositions r) captureID")
    (simp_all add: applyPatch_def cleanUpInfos_patch_def alist_delete_filter map_of_None_filter)

lemma applyPatches_cleanUp:
  "\<exists>flags. applyPatches pdClient
      (map (\<lambda>captureID. TaskPositionPatch captureID cleanUpInfos_patch) cs) r =
     Inr (flags, r\<lparr>TaskPositions := filter (\<lambda>kv. fst kv \<notin> set cs) (TaskPositions r)\<rparr>)
     \<and> length flags = length cs"
proof (induction cs arbitrary: r)
  case Nil
  show ?case by simp
next
  case (Cons c cs)
  let ?r1 = "r\<lparr>TaskPositions := filter (\<lambda>kv. fst kv \<noteq> c) (TaskPositions r)\<rparr>"
  from Cons [of ?r1] obtain flags where
    f: "applyPatches pdClient (map (\<lambda>captureID. TaskPositionPatch captureID cleanUpInfos_patch) cs) ?r1 =
     Inr (flags, ?r1\<lparr>TaskPositions := filter (\<lambda>kv. fst kv \<notin> set cs) (TaskPositions ?r1)\<rparr>)"
    and l: "length flags = length cs"
    by blast
  have e: "filter (\<lambda>kv. fst kv \<notin> set cs) (filter (\<lambda>kv. fst kv \<noteq> c) (TaskPositions r))
      = filter (\<lambda>kv. fst kv \<notin> set (c # cs)) (TaskPositions r)"
    by (induction "TaskPositions r") auto
  show ?case
    apply (rule exI [of _ "(map_of (TaskPositions r) c \<noteq> None) # flags"])
    using f l e by (simp add: applyPatch_cleanUp)
qed

lemma applyPatches_deferred_halt:
  "\<exists>flags. applyPatches pdClient (deferredPatches False (TaskPositions r)) r =
     Inr (flags, r\<lparr>TaskPositions := []\<rparr>) \<and> length flags = length (TaskPositions r)"
proof -
  have "filter (\<lambda>kv. fst kv \<notin> set (map fst (TaskPositions r))) (TaskPositions r) = []"
    by (auto simp: filter_empty_conv)
  then show ?thesis
    using applyPatches_cleanUp [of pdClient "map fst (TaskPositions r)" r]
    by (simp add: deferredPatches_def)
qed

lemma applyPatches_failed_then_cleanUp:
  assumes "Info r = Some i"
  shows "\<exists>flags r1 i1.
           applyPatches pdClient (patchesTo StateFailed @ deferredPatches False positions) r
             = Inr (flags, r1)
           \<and> Info r1 = Some i1 \<and> State i1 = StateFailed \<and> Error i1 = Error i"
proof -
  obtain flags1 r1 i1 where a: "applyPatches pdClient (patchesTo StateFailed) r = Inr (flags1, r1)"
    and b: "Info r1 = Some i1" "State i1 = StateFailed" "Error i1 = Error i"
    using applyPatches_patchesTo [OF assms, of StateFailed pdClient] by auto
  obtain flags2 where c: "applyPatches pdClient
      (map (\<lambda>captureID. TaskPositionPatch captureID cleanUpInfos_patch) (map fst positions)) r1 =
     Inr (flags2, r1\<lparr>TaskPositions := filter (\<lambda>kv. fst kv \<notin> set (map fst positions)) (TaskPositions r1)\<rparr>)"
    using applyPatches_cleanUp [of pdClient "map fst positions" r1] by blast
  show ?thesis
    using a b c by (simp add: applyPatches_append deferredPatches_def)
qed

text \<open>
  C6: when the feed is not stopped and the batch holds an unretryable error and no
  fast-fail error, the handler sets should-run to false and enqueues the closure that
  writes the first unretryable error and the closures of \<open>patchState StateError\<close>;
  applied to an info they give \<open>StateError\<close> with that error. A later tick that finds
  the info in \<open>StateError\<close> with that error, and handles no admin job, returns false
  with should-run false, and its closures give \<open>StateFailed\<close>, the error kept.
\<close>

theorem unretryable_error_then_failed:
  assumes "state m = Some s" "Info s = Some i" "State i \<noteq> StateStopped"
    and "\<forall>err \<in> set errs. \<not> IsChangefeedFastFailErrorCode cf (Code err)"
    and "\<exists>err \<in> set errs. IsChangefeedUnRetryableError cf err"
  shows "\<exists>err m1 new.
           err \<in> set errs \<and> IsChangefeedUnRetryableError cf err
           \<and> handleError bo cf clock errs m = Inr m1
           \<and> shouldBeRunning m1 = False
           \<and> state m1 = Some (s\<lparr>pendingPatches := pendingPatches s @ new\<rparr>)
           \<and> new = InfoPatch (setError_patch err) # patchesTo StateError
           \<and> (\<forall>pdClient r i0. Info r = Some i0 \<longrightarrow>
                 (\<exists>flags r1 i1. applyPatches pdClient new r = Inr (flags, r1)
                    \<and> Info r1 = Some i1 \<and> State i1 = StateError \<and> Error i1 = Some err))
           \<and> (\<forall>clock2 m2 s2 i2.
                 Info s2 = Some i2 \<and> State i2 = StateError \<and> Error i2 = Some err
                 \<and> \<not> jobHandled m2 s2 \<longrightarrow>
                 (\<exists>m3 new2.
                    Tick bo cf clock2 s2 m2 = Inr (False, m3)
                    \<and> shouldBeRunning m3 = False
                    \<and> state m3 = Some (s2\<lparr>pendingPatches := pendingPatches s2 @ new2\<rparr>)
                    \<and> new2 = patchesTo StateFailed @ deferredPatches False (TaskPositions s2)
                    \<and> (\<forall>pdClient r. Info r = Some i2 \<longrightarrow>
                          (\<exists>flags r1 i3. applyPatches pdClient new2 r = Inr (flags, r1)
                             \<and> Info r1 = Some i3 \<and> State i3 = StateFailed
                             \<and> Error i3 = Some err))))"
proof -
  have ff: "find (\<lambda>err. IsChangefeedFastFailErrorCode cf (Code err)) errs = None"
    using assms(4) by (simp add: find_None_all)
  from assms(5) obtain err where f: "find (IsChangefeedUnRetryableError cf) errs = Some err"
    by (cases "find (IsChangefeedUnRetryableError cf) errs") (auto simp: find_None_iff)
  then have mem: "err \<in> set errs" and un: "IsChangefeedUnRetryableError cf err"
    by (auto simp: find_Some_iff)
  let ?new = "InfoPatch (setError_patch err) # patchesTo StateError"
  let ?m1 = "m\<lparr>state := Some (s\<lparr>pendingPatches := pendingPatches s @ ?new\<rparr>), shouldBeRunning := False\<rparr>"
  have h: "handleError bo cf clock errs m = Inr ?m1"
    using ff f assms(1,2,3)
    by (simp add: handleError_def isStopped_def onState_def patchState_patchesTo PatchInfo_def)
  have a: "\<exists>flags r1 i1. applyPatches pdClient ?new r = Inr (flags, r1)
      \<and> Info r1 = Some i1 \<and> State i1 = StateError \<and> Error i1 = Some err"
    if "Info r = Some i0" for pdClient r i0
  proof -
    have "\<exists>flags r1 i1. applyPatches pdClient (patchesTo StateError) (r\<lparr>Info := Some (i0\<lparr>Error := Some err\<rparr>)\<rparr>) = Inr (flags, r1)
           \<and> Info r1 = Some i1 \<and> State i1 = StateError \<and> Error i1 = Error (i0\<lparr>Error := Some err\<rparr>)
           \<and> Warning i1 = Warning (i0\<lparr>Error := Some err\<rparr>) \<and> StartTs i1 = StartTs (i0\<lparr>Error := Some err\<rparr>)
           \<and> TaskPositions r1 = TaskPositions (r\<lparr>Info := Some (i0\<lparr>Error := Some err\<rparr>)\<rparr>) \<and> pendingPatches r1 = pendingPatches (r\<lparr>Info := Some (i0\<lparr>Error := Some err\<rparr>)\<rparr>)"
      by (rule applyPatches_patchesTo) simp_all
    then show ?thesis using that
      by (auto simp: applyPatch_def setError_patch_def)
  qed
  have b: "\<exists>m3 new2.
      Tick bo cf clock2 s2 m2 = Inr (False, m3)
      \<and> shouldBeRunning m3 = False
      \<and> state m3 = Some (s2\<lparr>pendingPatches := pendingPatches s2 @ new2\<rparr>)
      \<and> new2 = patchesTo StateFailed @ deferredPatches False (TaskPositions s2)
      \<and> (\<forall>pdClient r. Info r = Some i2 \<longrightarrow>
            (\<exists>flags r1 i3. applyPatches pdClient new2 r = Inr (flags, r1)
               \<and> Info r1 = Some i3 \<and> State i3 = StateFailed \<and> Error i3 = Some err))"
    if "Info s2 = Some i2 \<and> State i2 = StateError \<and> Error i2 = Some err \<and> \<not> jobHandled m2 s2"
    for clock2 m2 s2 i2
  proof -
    have t: "Tick bo cf clock2 s2 m2 =
        Inr (False, m2\<lparr>shouldBeRunning := False,
               adminJobQueue := tl (adminJobQueue m2),
               state := Some (s2\<lparr>pendingPatches := pendingPatches s2
                 @ patchesTo StateFailed @ deferredPatches False (TaskPositions s2)\<rparr>)\<rparr>)"
      using that un by (intro Tick_idle_unretryable) auto
    have p: "\<forall>pdClient r. Info r = Some i2 \<longrightarrow>
        (\<exists>flags r1 i3. applyPatches pdClient
            (patchesTo StateFailed @ deferredPatches False (TaskPositions s2)) r = Inr (flags, r1)
           \<and> Info r1 = Some i3 \<and> State i3 = StateFailed \<and> Error i3 = Some err)"
      using applyPatches_failed_then_cleanUp that by fastforce
    show ?thesis
      using t p by simp
  qed
  show ?thesis
    apply (rule exI [of _ err], rule exI [of _ ?m1], rule exI [of _ ?new])
    using mem un h a b by simp
qed

theorem unretryable_error_then_failed_witness:
  "shouldBeRunning (projr (handleError exampleBackOff exampleClassifier
      \<lparr>timeNow = 100, timeSinceNow = 101\<rparr>
      [exampleError ''E1'', exampleError ''CDC:ErrExpressionColumnNotFound'']
      (exampleManager\<lparr>state := Some (exampleState (exampleInfo StateNormal) [])\<rparr>))) = False
   \<and> fst (projr (Tick exampleBackOff exampleClassifier \<lparr>timeNow = 200, timeSinceNow = 201\<rparr>
        (exampleState ((exampleInfo StateError)
           \<lparr>Error := Some (exampleError ''CDC:ErrExpressionColumnNotFound'')\<rparr>) [])
        exampleManager)) = False
   \<and> shouldBeRunning (snd (projr (Tick exampleBackOff exampleClassifier
        \<lparr>timeNow = 200, timeSinceNow = 201\<rparr>
        (exampleState ((exampleInfo StateError)
           \<lparr>Error := Some (exampleError ''CDC:ErrExpressionColumnNotFound'')\<rparr>) [])
        exampleManager))) = False"
proof -
  let ?s = "exampleState (exampleInfo StateNormal) []"
  let ?m = "exampleManager\<lparr>state := Some ?s\<rparr>"
  let ?u = "exampleError ''CDC:ErrExpressionColumnNotFound''"
  let ?errs = "[exampleError ''E1'', ?u]"
  let ?i2 = "(exampleInfo StateError)\<lparr>Error := Some ?u\<rparr>"
  let ?s2 = "exampleState ?i2 []"
  have 1: "state ?m = Some ?s" by simp
  have 2: "Info ?s = Some (exampleInfo StateNormal)" by (simp add: exampleState_def)
  have 3: "State (exampleInfo StateNormal) \<noteq> StateStopped" by (simp add: exampleInfo_def)
  have 4: "\<forall>err \<in> set ?errs. \<not> IsChangefeedFastFailErrorCode exampleClassifier (Code err)"
    by (simp add: exampleClassifier_def exampleError_def)
  have 5: "\<exists>err \<in> set ?errs. IsChangefeedUnRetryableError exampleClassifier err"
    by (simp add: exampleClassifier_def exampleError_def)
  have 6: "Info ?s2 = Some ?i2 \<and> State ?i2 = StateError \<and> Error ?i2 = Some ?u
      \<and> \<not> jobHandled exampleManager ?s2"
    by (simp add: exampleState_def exampleInfo_def jobHandled_def exampleManager_def)
  from unretryable_error_then_failed [OF 1 2 3 4 5, of exampleBackOff
      "\<lparr>timeNow = 100, timeSinceNow = 101\<rparr>"]
  obtain err m1 new where e: "err \<in> set ?errs" "IsChangefeedUnRetryableError exampleClassifier err"
    and h: "handleError exampleBackOff exampleClassifier \<lparr>timeNow = 100, timeSinceNow = 101\<rparr> ?errs ?m
        = Inr m1" "shouldBeRunning m1 = False"
    and n: "\<forall>clock2 m2 s2 i2.
        Info s2 = Some i2 \<and> State i2 = StateError \<and> Error i2 = Some err \<and> \<not> jobHandled m2 s2 \<longrightarrow>
        (\<exists>m3 new2. Tick exampleBackOff exampleClassifier clock2 s2 m2 = Inr (False, m3)
           \<and> shouldBeRunning m3 = False
           \<and> state m3 = Some (s2\<lparr>pendingPatches := pendingPatches s2 @ new2\<rparr>)
           \<and> new2 = patchesTo StateFailed @ deferredPatches False (TaskPositions s2)
           \<and> (\<forall>pdClient r. Info r = Some i2 \<longrightarrow>
                 (\<exists>flags r1 i3. applyPatches pdClient new2 r = Inr (flags, r1)
                    \<and> Info r1 = Some i3 \<and> State i3 = StateFailed \<and> Error i3 = Some err)))"
    by (elim exE conjE)
  from e have u: "err = ?u" by (auto simp: exampleClassifier_def exampleError_def)
  from n [rule_format, of ?s2 ?i2 exampleManager "\<lparr>timeNow = 200, timeSinceNow = 201\<rparr>"] 6 u
  obtain m3 where "Tick exampleBackOff exampleClassifier
      \<lparr>timeNow = 200, timeSinceNow = 201\<rparr> ?s2 exampleManager = Inr (False, m3)"
    and "shouldBeRunning m3 = False"
    by blast
  with h show ?thesis by simp
qed

subsection \<open>Two ticks with nothing to handle\<close>

lemma applyPatch_lastError_nil:
  "applyPatch pdClient (InfoPatch (lastError_patch [])) r = Inr (False, r)"
  by (cases "Info r") (simp_all add: applyPatch_def lastError_patch_def)

lemma applyPatch_lastWarning_nil:
  "applyPatch pdClient (InfoPatch (lastWarning_patch [])) r = Inr (False, r)"
  by (cases "Info r") (simp_all add: applyPatch_def lastWarning_patch_def)

lemma applyPatch_status:
  "applyPatch pdClient (StatusPatch (patchState_status a)) r =
     Inr (\<exists>st. Status r = Some st \<and> StatusAdminJobType st \<noteq> a,
          r\<lparr>Status := map_option (\<lambda>st. st\<lparr>StatusAdminJobType := a\<rparr>) (Status r)\<rparr>)"
proof (cases "Status r")
  case None
  then show ?thesis by (simp add: applyPatch_def patchState_status_def)
next
  case (Some st)
  have "StatusAdminJobType st = a \<Longrightarrow> st\<lparr>StatusAdminJobType := a\<rparr> = st" by auto
  then have "StatusAdminJobType st = a \<Longrightarrow> r\<lparr>Status := Some (st\<lparr>StatusAdminJobType := a\<rparr>)\<rparr> = r"
    using Some by simp
  with Some show ?thesis by (simp add: applyPatch_def patchState_status_def)
qed

lemma applyPatch_info_normal:
  assumes "Info r = Some i"
  shows "applyPatch pdClient (InfoPatch (patchState_info StateNormal AdminNone False)) r =
     Inr (State i \<noteq> StateNormal \<or> AdminJobType i \<noteq> AdminNone,
          r\<lparr>Info := Some (i\<lparr>State := StateNormal, AdminJobType := AdminNone\<rparr>)\<rparr>)"
proof -
  have "State i = StateNormal \<Longrightarrow> AdminJobType i = AdminNone \<Longrightarrow>
      i\<lparr>State := StateNormal, AdminJobType := AdminNone\<rparr> = i" by auto
  then have "State i = StateNormal \<Longrightarrow> AdminJobType i = AdminNone \<Longrightarrow>
      r\<lparr>Info := Some (i\<lparr>State := StateNormal, AdminJobType := AdminNone\<rparr>)\<rparr> = r"
    using assms by simp
  moreover have "State i = StateNormal \<Longrightarrow> i\<lparr>State := StateNormal, AdminJobType := AdminNone\<rparr>
      = i\<lparr>AdminJobType := AdminNone\<rparr>" by auto
  moreover have "AdminJobType i = AdminNone \<Longrightarrow> i\<lparr>State := StateNormal, AdminJobType := AdminNone\<rparr>
      = i\<lparr>State := StateNormal\<rparr>" by auto
  ultimately show ?thesis
    using assms by (auto simp: applyPatch_def patchState_info_def)
qed

lemma persist_running:
  assumes "Info s = Some i" "pendingPatches s = []"
  shows "persist pdClient
           (s\<lparr>pendingPatches := pendingPatches s
               @ [InfoPatch (lastError_patch []), InfoPatch (lastWarning_patch [])]
               @ patchesTo StateNormal\<rparr>) =
         Inr ([False, False, \<exists>st. Status s = Some st \<and> StatusAdminJobType st \<noteq> AdminNone,
               State i \<noteq> StateNormal \<or> AdminJobType i \<noteq> AdminNone],
              s\<lparr>Info := Some (i\<lparr>State := StateNormal, AdminJobType := AdminNone\<rparr>),
                Status := map_option (\<lambda>st. st\<lparr>StatusAdminJobType := AdminNone\<rparr>) (Status s)\<rparr>)"
proof -
  have e: "s\<lparr>pendingPatches := []\<rparr> = s" using assms(2) by simp
  show ?thesis
    using assms
    by (simp add: persist_def e patchesTo_def patchState_switch_def applyPatch_lastError_nil
        applyPatch_lastWarning_nil applyPatch_status applyPatch_info_normal)
qed

lemma emptyInput_not_handled: "emptyInput m s \<Longrightarrow> \<not> jobHandled m s"
  by (simp add: emptyInput_def jobHandled_def)

lemma round_running:
  assumes "emptyInput m s" "pendingPatches s = []" "Info s = Some i"
    and "State i = StateNormal \<or> State i = StateWarning
         \<or> (State i = StateError \<and> (\<exists>err. Error i = Some err \<and> \<not> IsChangefeedUnRetryableError cf err))"
    and "lastErrorTime m = Unix 0 0 \<or> State i = StateNormal"
  shows "tickAndPersist bo cf clock pdClient s m =
     Inr ([False, False, \<exists>st. Status s = Some st \<and> StatusAdminJobType st \<noteq> AdminNone,
           State i \<noteq> StateNormal \<or> AdminJobType i \<noteq> AdminNone],
          (shiftStateWindow (State i) m)
            \<lparr>shouldBeRunning := True, lastErrorTime := Unix 0 0, adminJobQueue := [],
             state := Some (s\<lparr>pendingPatches := pendingPatches s
               @ [InfoPatch (lastError_patch []), InfoPatch (lastWarning_patch [])]
               @ patchesTo StateNormal\<rparr>)\<rparr>,
          s\<lparr>Info := Some (i\<lparr>State := StateNormal, AdminJobType := AdminNone\<rparr>),
            Status := map_option (\<lambda>st. st\<lparr>StatusAdminJobType := AdminNone\<rparr>) (Status s)\<rparr>)"
proof -
  have q: "adminJobQueue m = []" using assms(1) by (simp add: emptyInput_def)
  have t: "Tick bo cf clock s m =
           Inr (False, (shiftStateWindow (State i) m)
                  \<lparr>shouldBeRunning := True, lastErrorTime := Unix 0 0,
                   adminJobQueue := tl (adminJobQueue m),
                   state := Some (s\<lparr>pendingPatches := pendingPatches s
                     @ [InfoPatch (lastError_patch []), InfoPatch (lastWarning_patch [])]
                     @ patchesTo StateNormal\<rparr>)\<rparr>)"
    using assms(3) emptyInput_not_handled [OF assms(1)] emptyInput_positions [OF assms(1)]
      assms(4,5)
    by (rule Tick_idle_running)
  show ?thesis
    using persist_running [OF assms(3,2), of pdClient]
    by (simp add: tickAndPersist_def t q)
qed

lemma persist_halted:
  assumes "pendingPatches s = []"
  shows "\<exists>flags. persist pdClient
           (s\<lparr>pendingPatches := pendingPatches s @ deferredPatches False (TaskPositions s)\<rparr>) =
         Inr (flags, s\<lparr>TaskPositions := []\<rparr>) \<and> length flags = length (TaskPositions s)"
proof -
  have e: "s\<lparr>pendingPatches := []\<rparr> = s" using assms by simp
  show ?thesis
    using applyPatches_deferred_halt [of pdClient s] assms
    by (auto simp: persist_def e)
qed

lemma round_halted:
  assumes "emptyInput m s" "pendingPatches s = []" "Info s = Some i"
    and "State i = StateStopped \<or> State i = StateFailed \<or> State i = StateFinished
         \<or> State i = StateRemoved"
  shows "\<exists>flags. tickAndPersist bo cf clock pdClient s m =
     Inr (flags,
          m\<lparr>shouldBeRunning := False,
            shouldBeRemoved := (shouldBeRemoved m \<or> State i = StateRemoved),
            adminJobQueue := [],
            state := Some (s\<lparr>pendingPatches := pendingPatches s
              @ deferredPatches False (TaskPositions s)\<rparr>)\<rparr>,
          s\<lparr>TaskPositions := []\<rparr>)
     \<and> length flags = length (TaskPositions s)"
proof -
  have q: "adminJobQueue m = []" using assms(1) by (simp add: emptyInput_def)
  have t: "Tick bo cf clock s m =
           Inr (False, m\<lparr>shouldBeRunning := False,
                  shouldBeRemoved := (shouldBeRemoved m \<or> State i = StateRemoved),
                  adminJobQueue := tl (adminJobQueue m),
                  state := Some (s\<lparr>pendingPatches := pendingPatches s
                    @ deferredPatches False (TaskPositions s)\<rparr>)\<rparr>)"
    using assms(3) emptyInput_not_handled [OF assms(1)] assms(4) by (rule Tick_idle_halted)
  from persist_halted [OF assms(2), of pdClient] obtain flags where
    "persist pdClient
           (s\<lparr>pendingPatches := pendingPatches s @ deferredPatches False (TaskPositions s)\<rparr>) =
         Inr (flags, s\<lparr>TaskPositions := []\<rparr>)" "length flags = length (TaskPositions s)"
    by blast
  then show ?thesis
    by (auto simp: tickAndPersist_def t q)
qed

lemma applyPatch_patchState_info:
  assumes "Info r = Some i"
  shows "\<exists>c i1. applyPatch pdClient (InfoPatch (patchState_info feedState a u)) r
           = Inr (c, r\<lparr>Info := Some i1\<rparr>)
           \<and> State i1 = feedState \<and> Error i1 = Error i"
proof (cases "State i = feedState \<and> AdminJobType i = a")
  case True
  have "r\<lparr>Info := Some i\<rparr> = r" using assms by simp
  then have "applyPatch pdClient (InfoPatch (patchState_info feedState a u)) r
      = Inr (False, r\<lparr>Info := Some i\<rparr>)"
    using True assms by (simp add: applyPatch_def patchState_info_def)
  with True show ?thesis by blast
next
  case False
  then show ?thesis
    using assms by (auto simp: applyPatch_def patchState_info_def)
qed

lemma persist_unretryable:
  assumes "Info s = Some i" "pendingPatches s = []"
  shows "\<exists>flags i1. persist pdClient
           (s\<lparr>pendingPatches := pendingPatches s @ patchesTo StateFailed
               @ deferredPatches False (TaskPositions s)\<rparr>) =
         Inr (flags, s\<lparr>Status := map_option (\<lambda>st. st\<lparr>StatusAdminJobType := AdminStop\<rparr>) (Status s),
                Info := Some i1, TaskPositions := []\<rparr>)
         \<and> State i1 = StateFailed"
proof -
  have e: "s\<lparr>pendingPatches := []\<rparr> = s" using assms(2) by simp
  let ?r0 = "s\<lparr>Status := map_option (\<lambda>st. st\<lparr>StatusAdminJobType := AdminStop\<rparr>) (Status s)\<rparr>"
  have "Info ?r0 = Some i" using assms(1) by simp
  from applyPatch_patchState_info [OF this, of pdClient StateFailed AdminStop True]
  obtain c i1 where a: "applyPatch pdClient (InfoPatch (patchState_info StateFailed AdminStop True)) ?r0
      = Inr (c, ?r0\<lparr>Info := Some i1\<rparr>)" and f: "State i1 = StateFailed"
    by blast
  let ?r = "?r0\<lparr>Info := Some i1\<rparr>"
  obtain flags2 where d: "applyPatches pdClient (deferredPatches False (TaskPositions ?r)) ?r =
     Inr (flags2, ?r\<lparr>TaskPositions := []\<rparr>)"
    using applyPatches_deferred_halt [of pdClient ?r] by blast
  have "persist pdClient
           (s\<lparr>pendingPatches := pendingPatches s @ patchesTo StateFailed
               @ deferredPatches False (TaskPositions s)\<rparr>) =
         Inr ((\<exists>st. Status s = Some st \<and> StatusAdminJobType st \<noteq> AdminStop) # c # flags2,
              ?r\<lparr>TaskPositions := []\<rparr>)"
    using assms(2) a d
    by (simp add: persist_def e patchesTo_def patchState_switch_def applyPatch_status
        applyPatches_append)
  with f show ?thesis by auto
qed

lemma round_unretryable:
  assumes "emptyInput m s" "pendingPatches s = []" "Info s = Some i"
    and "State i = StateError" "Error i = Some err" "IsChangefeedUnRetryableError cf err"
  shows "\<exists>flags i1. tickAndPersist bo cf clock pdClient s m =
     Inr (flags,
          m\<lparr>shouldBeRunning := False, adminJobQueue := [],
            state := Some (s\<lparr>pendingPatches := pendingPatches s @ patchesTo StateFailed
              @ deferredPatches False (TaskPositions s)\<rparr>)\<rparr>,
          s\<lparr>Status := map_option (\<lambda>st. st\<lparr>StatusAdminJobType := AdminStop\<rparr>) (Status s),
            Info := Some i1, TaskPositions := []\<rparr>)
     \<and> State i1 = StateFailed"
proof -
  have q: "adminJobQueue m = []" using assms(1) by (simp add: emptyInput_def)
  have t: "Tick bo cf clock s m =
           Inr (False, m\<lparr>shouldBeRunning := False,
                  adminJobQueue := tl (adminJobQueue m),
                  state := Some (s\<lparr>pendingPatches := pendingPatches s
                    @ patchesTo StateFailed @ deferredPatches False (TaskPositions s)\<rparr>)\<rparr>)"
    using assms(3) emptyInput_not_handled [OF assms(1)] assms(4,5,6)
    by (rule Tick_idle_unretryable)
  from persist_unretryable [OF assms(3,2), of pdClient] obtain flags i1 where
    "persist pdClient
           (s\<lparr>pendingPatches := pendingPatches s @ patchesTo StateFailed
               @ deferredPatches False (TaskPositions s)\<rparr>) =
         Inr (flags, s\<lparr>Status := map_option (\<lambda>st. st\<lparr>StatusAdminJobType := AdminStop\<rparr>) (Status s),
                Info := Some i1, TaskPositions := []\<rparr>)" "State i1 = StateFailed"
    by blast
  then show ?thesis
    by (auto simp: tickAndPersist_def t q)
qed

text \<open>
  Two rounds with nothing to handle when the first does not reach the restart gate with
  an error pending: the second leaves what the first left.
\<close>

lemma idle_rounds_settled:
  assumes "emptyInput m s" "pendingPatches s = []" "Info s = Some i"
    and "State i = StateError \<longrightarrow> Error i \<noteq> None"
    and "\<not> restartPending cf m i"
  shows "\<exists>flags1 m1 s1 flags2 m2 s2.
           tickAndPersist bo cf clock1 pdClient1 s m = Inr (flags1, m1, s1)
           \<and> tickAndPersist bo cf clock2 pdClient2 s1 m1 = Inr (flags2, m2, s2)
           \<and> observable m2 s2 = observable m1 s1
           \<and> True \<notin> set flags2"
proof -
  consider
    (running) "State i = StateNormal \<or> State i = StateWarning
         \<or> (State i = StateError \<and> (\<exists>err. Error i = Some err \<and> \<not> IsChangefeedUnRetryableError cf err))"
  | (halted) "State i = StateStopped \<or> State i = StateFailed \<or> State i = StateFinished
         \<or> State i = StateRemoved"
  | (unretryable) err where "State i = StateError" "Error i = Some err"
      "IsChangefeedUnRetryableError cf err"
    using assms(4) by (cases "State i") auto
  then show ?thesis
  proof cases
    case running
    have l: "lastErrorTime m = Unix 0 0 \<or> State i = StateNormal"
      using assms(5) running by (auto simp: restartPending_def)
    let ?i1 = "i\<lparr>State := StateNormal, AdminJobType := AdminNone\<rparr>"
    let ?s1 = "s\<lparr>Info := Some ?i1,
            Status := map_option (\<lambda>st. st\<lparr>StatusAdminJobType := AdminNone\<rparr>) (Status s)\<rparr>"
    let ?m1 = "(shiftStateWindow (State i) m)
            \<lparr>shouldBeRunning := True, lastErrorTime := Unix 0 0, adminJobQueue := [],
             state := Some (s\<lparr>pendingPatches := pendingPatches s
               @ [InfoPatch (lastError_patch []), InfoPatch (lastWarning_patch [])]
               @ patchesTo StateNormal\<rparr>)\<rparr>"
    let ?f1 = "[False, False, \<exists>st. Status s = Some st \<and> StatusAdminJobType st \<noteq> AdminNone,
           State i \<noteq> StateNormal \<or> AdminJobType i \<noteq> AdminNone]"
    have r1: "tickAndPersist bo cf clock1 pdClient1 s m = Inr (?f1, ?m1, ?s1)"
      using assms(1,2,3) running l by (rule round_running)
    have e1: "emptyInput ?m1 ?s1" using assms(1) by (simp add: emptyInput_def)
    have p1: "pendingPatches ?s1 = []" using assms(2) by simp
    have i1: "Info ?s1 = Some ?i1" by simp
    let ?m2 = "(shiftStateWindow (State ?i1) ?m1)
            \<lparr>shouldBeRunning := True, lastErrorTime := Unix 0 0, adminJobQueue := [],
             state := Some (?s1\<lparr>pendingPatches := pendingPatches ?s1
               @ [InfoPatch (lastError_patch []), InfoPatch (lastWarning_patch [])]
               @ patchesTo StateNormal\<rparr>)\<rparr>"
    let ?s2 = "?s1\<lparr>Info := Some (?i1\<lparr>State := StateNormal, AdminJobType := AdminNone\<rparr>),
            Status := map_option (\<lambda>st. st\<lparr>StatusAdminJobType := AdminNone\<rparr>) (Status ?s1)\<rparr>"
    let ?f2 = "[False, False, \<exists>st. Status ?s1 = Some st \<and> StatusAdminJobType st \<noteq> AdminNone,
           State ?i1 \<noteq> StateNormal \<or> AdminJobType ?i1 \<noteq> AdminNone]"
    have r2: "tickAndPersist bo cf clock2 pdClient2 ?s1 ?m1 = Inr (?f2, ?m2, ?s2)"
      using e1 p1 i1 by (rule round_running) simp_all
    have o: "observable ?m2 ?s2 = observable ?m1 ?s1"
      by (cases "Status s") (simp_all add: observable_def ShouldRunning_def ShouldRemoved_def)
    have f: "True \<notin> set ?f2"
      by (cases "Status s") simp_all
    from r1 r2 o f show ?thesis by blast
  next
    case halted
    let ?m1 = "m\<lparr>shouldBeRunning := False,
            shouldBeRemoved := (shouldBeRemoved m \<or> State i = StateRemoved),
            adminJobQueue := [],
            state := Some (s\<lparr>pendingPatches := pendingPatches s
              @ deferredPatches False (TaskPositions s)\<rparr>)\<rparr>"
    let ?s1 = "s\<lparr>TaskPositions := []\<rparr>"
    from round_halted [OF assms(1,2,3) halted, of bo cf clock1 pdClient1]
    obtain flags1 where r1: "tickAndPersist bo cf clock1 pdClient1 s m = Inr (flags1, ?m1, ?s1)"
      by blast
    have e1: "emptyInput ?m1 ?s1" by (simp add: emptyInput_def)
    have p1: "pendingPatches ?s1 = []" using assms(2) by simp
    have i1: "Info ?s1 = Some i" using assms(3) by simp
    let ?m2 = "?m1\<lparr>shouldBeRunning := False,
            shouldBeRemoved := (shouldBeRemoved ?m1 \<or> State i = StateRemoved),
            adminJobQueue := [],
            state := Some (?s1\<lparr>pendingPatches := pendingPatches ?s1
              @ deferredPatches False (TaskPositions ?s1)\<rparr>)\<rparr>"
    from round_halted [OF e1 p1 i1 halted, of bo cf clock2 pdClient2]
    obtain flags2 where r2: "tickAndPersist bo cf clock2 pdClient2 ?s1 ?m1
        = Inr (flags2, ?m2, ?s1\<lparr>TaskPositions := []\<rparr>)"
      and l2: "length flags2 = length (TaskPositions ?s1)"
      by blast
    have o: "observable ?m2 (?s1\<lparr>TaskPositions := []\<rparr>) = observable ?m1 ?s1"
      by (auto simp: observable_def ShouldRunning_def ShouldRemoved_def)
    have f: "True \<notin> set flags2" using l2 by simp
    from r1 r2 o f show ?thesis by blast
  next
    case unretryable
    let ?m1 = "m\<lparr>shouldBeRunning := False, adminJobQueue := [],
            state := Some (s\<lparr>pendingPatches := pendingPatches s @ patchesTo StateFailed
              @ deferredPatches False (TaskPositions s)\<rparr>)\<rparr>"
    from round_unretryable [OF assms(1,2,3) unretryable, of bo clock1 pdClient1]
    obtain flags1 i1 where r1: "tickAndPersist bo cf clock1 pdClient1 s m =
        Inr (flags1, ?m1,
          s\<lparr>Status := map_option (\<lambda>st. st\<lparr>StatusAdminJobType := AdminStop\<rparr>) (Status s),
            Info := Some i1, TaskPositions := []\<rparr>)"
      and st: "State i1 = StateFailed"
      by blast
    let ?s1 = "s\<lparr>Status := map_option (\<lambda>st. st\<lparr>StatusAdminJobType := AdminStop\<rparr>) (Status s),
            Info := Some i1, TaskPositions := []\<rparr>"
    have e1: "emptyInput ?m1 ?s1" by (simp add: emptyInput_def)
    have p1: "pendingPatches ?s1 = []" using assms(2) by simp
    have i1: "Info ?s1 = Some i1" by simp
    have h1: "State i1 = StateStopped \<or> State i1 = StateFailed \<or> State i1 = StateFinished
         \<or> State i1 = StateRemoved" using st by simp
    let ?m2 = "?m1\<lparr>shouldBeRunning := False,
            shouldBeRemoved := (shouldBeRemoved ?m1 \<or> State i1 = StateRemoved),
            adminJobQueue := [],
            state := Some (?s1\<lparr>pendingPatches := pendingPatches ?s1
              @ deferredPatches False (TaskPositions ?s1)\<rparr>)\<rparr>"
    from round_halted [OF e1 p1 i1 h1, of bo cf clock2 pdClient2]
    obtain flags2 where r2: "tickAndPersist bo cf clock2 pdClient2 ?s1 ?m1
        = Inr (flags2, ?m2, ?s1\<lparr>TaskPositions := []\<rparr>)"
      and l2: "length flags2 = length (TaskPositions ?s1)"
      by blast
    have o: "observable ?m2 (?s1\<lparr>TaskPositions := []\<rparr>) = observable ?m1 ?s1"
      using st by (auto simp: observable_def ShouldRunning_def ShouldRemoved_def)
    have f: "True \<notin> set flags2" using l2 by simp
    from r1 r2 o f show ?thesis by blast
  qed
qed

lemmas patch_defs =
  persist_def applyPatch_def patchesTo_def patchState_status_def patchState_info_def
  lastError_patch_def lastWarning_patch_def setError_patch_def cleanUpInfos_patch_def
  clearError_patch_def clearWarning_patch_def

lemma firstRound_eq:
  "firstRound =
     Inr ([False, False, False, False],
          (shiftStateWindow StateError pendingManager)
            \<lparr>state := Some (erroredState\<lparr>pendingPatches :=
                [InfoPatch (lastError_patch [])] @ patchesTo StateError
                @ [InfoPatch (lastWarning_patch [])]\<rparr>),
             shouldBeRunning := False\<rparr>,
          erroredState)"
  by (simp add: firstRound_def tickAndPersist_def manager_defs patch_defs example_defs
      pendingManager_def erroredState_def jobHandled_def shiftStateWindow_def)

subsection \<open>Two ticks with a restart pending\<close>

lemma Tick_reports_held_down:
  assumes "state m = Some s" "Info s = Some i" "State i \<noteq> StateStopped" "State i \<noteq> StateNormal"
    and "list_all (\<lambda>(captureID, position). PosError position = None) (TaskPositions s)"
    and "list_all (\<lambda>(captureID, position). PosWarning position = None) (TaskPositions s)"
    and "lastErrorTime m \<noteq> Unix 0 0" "heldDown clock m"
  shows "Tick_reports bo cf clock m =
           Inr ((shiftStateWindow (State i) m)
                  \<lparr>shouldBeRunning := False,
                   state := Some (s\<lparr>pendingPatches := pendingPatches s
                     @ [InfoPatch (lastError_patch [])] @ patchesTo StateError
                     @ [InfoPatch (lastWarning_patch [])]\<rparr>)\<rparr>)"
proof -
  let ?s1 = "s\<lparr>pendingPatches := pendingPatches s @ [InfoPatch (lastError_patch [])]\<rparr>"
  let ?m1 = "(shiftStateWindow (State i) m)\<lparr>state := Some ?s1\<rparr>"
  let ?s2 = "s\<lparr>pendingPatches := pendingPatches s @ [InfoPatch (lastError_patch [])]
      @ patchesTo StateError\<rparr>"
  let ?m2 = "(shiftStateWindow (State i) m)\<lparr>shouldBeRunning := False, state := Some ?s2\<rparr>"
  have e: "errorsReportedByProcessors m = Inr ([], m)"
    using assms(1,5) by (simp add: errorsReportedByProcessors_def collectErrors_none)
  have w: "handleError_window bo clock [] (m\<lparr>state := Some ?s1\<rparr>) = Inr ?m1"
    using assms(2,4) by (auto simp: handleError_window_def shiftStateWindow_def)
  have p: "patchState StateError (?m1\<lparr>shouldBeRunning := False\<rparr>) = Inr ?m2"
    by (simp add: patchState_patchesTo)
  have g: "handleError_gate bo clock ?m1 = Inr ?m2"
    using assms(7,8) p by (simp add: handleError_gate_def heldDown_def)
  have h: "handleError bo cf clock [] m = Inr ?m2"
    using assms(1,2,3) w g
    by (simp add: handleError_def isStopped_def onState_def PatchInfo_def)
  have ww: "warningsReportedByProcessors ?m2 = Inr ([], ?m2)"
    using assms(6) by (simp add: warningsReportedByProcessors_def collectWarnings_none)
  show ?thesis
    using ww by (simp add: Tick_reports_def e h handleWarning_def onState_def PatchInfo_def)
qed

lemma Tick_reports_open:
  assumes "state m = Some s" "Info s = Some i" "State i \<noteq> StateStopped" "State i \<noteq> StateNormal"
    and "list_all (\<lambda>(captureID, position). PosError position = None) (TaskPositions s)"
    and "list_all (\<lambda>(captureID, position). PosWarning position = None) (TaskPositions s)"
    and "lastErrorTime m \<noteq> Unix 0 0" "\<not> heldDown clock m"
    and "NextBackOff bo (errBackoff m) = (interval, b)"
  shows "Tick_reports bo cf clock m =
           Inr ((shiftStateWindow (State i) m)
                  \<lparr>errBackoff := b, backoffInterval := interval, lastErrorTime := Unix 0 0,
                   shouldBeRunning := (shouldBeRunning m \<and> interval \<noteq> Stop bo b),
                   state := Some (s\<lparr>pendingPatches := pendingPatches s
                     @ [InfoPatch (lastError_patch [])]
                     @ (if interval = Stop bo b then patchesTo StateFailed else [])
                     @ [InfoPatch (lastWarning_patch [])]\<rparr>)\<rparr>)"
proof -
  let ?s1 = "s\<lparr>pendingPatches := pendingPatches s @ [InfoPatch (lastError_patch [])]\<rparr>"
  let ?m1 = "(shiftStateWindow (State i) m)\<lparr>state := Some ?s1\<rparr>"
  let ?s2 = "s\<lparr>pendingPatches := pendingPatches s @ [InfoPatch (lastError_patch [])]
      @ (if interval = Stop bo b then patchesTo StateFailed else [])\<rparr>"
  let ?m2 = "(shiftStateWindow (State i) m)
      \<lparr>errBackoff := b, backoffInterval := interval, lastErrorTime := Unix 0 0,
       shouldBeRunning := (shouldBeRunning m \<and> interval \<noteq> Stop bo b), state := Some ?s2\<rparr>"
  have e: "errorsReportedByProcessors m = Inr ([], m)"
    using assms(1,5) by (simp add: errorsReportedByProcessors_def collectErrors_none)
  have w: "handleError_window bo clock [] (m\<lparr>state := Some ?s1\<rparr>) = Inr ?m1"
    using assms(2,4) by (auto simp: handleError_window_def shiftStateWindow_def)
  have g: "handleError_gate bo clock ?m1 = Inr ?m2"
  proof (cases "interval = Stop bo b")
    case True
    have "patchState StateFailed
        (?m1\<lparr>errBackoff := b, backoffInterval := interval, lastErrorTime := Unix 0 0,
             shouldBeRunning := False\<rparr>) = Inr ?m2"
      using True by (simp add: patchState_patchesTo)
    then show ?thesis
      using assms(7,8,9) True by (simp add: handleError_gate_def heldDown_def)
  next
    case False
    have "?m1\<lparr>errBackoff := b, backoffInterval := interval, lastErrorTime := Unix 0 0\<rparr> = ?m2"
      using False by (simp add: shiftStateWindow_def)
    then show ?thesis
      using assms(7,8,9) False by (simp add: handleError_gate_def heldDown_def)
  qed
  have h: "handleError bo cf clock [] m = Inr ?m2"
    using assms(1,2,3) w g
    by (simp add: handleError_def isStopped_def onState_def PatchInfo_def)
  have ww: "warningsReportedByProcessors ?m2 = Inr ([], ?m2)"
    using assms(6) by (simp add: warningsReportedByProcessors_def collectWarnings_none)
  show ?thesis
    using ww by (simp add: Tick_reports_def e h handleWarning_def onState_def PatchInfo_def)
qed

lemma Tick_idle_held_down:
  assumes "Info s = Some i" "\<not> jobHandled m s"
    and "list_all (\<lambda>(captureID, position). PosError position = None) (TaskPositions s)"
    and "list_all (\<lambda>(captureID, position). PosWarning position = None) (TaskPositions s)"
    and "State i = StateWarning
         \<or> (State i = StateError \<and> (\<exists>err. Error i = Some err \<and> \<not> IsChangefeedUnRetryableError cf err))"
    and "lastErrorTime m \<noteq> Unix 0 0" "heldDown clock m"
  shows "Tick bo cf clock s m =
           Inr (False, (shiftStateWindow (State i) m)
                  \<lparr>shouldBeRunning := False,
                   adminJobQueue := tl (adminJobQueue m),
                   state := Some (s\<lparr>pendingPatches := pendingPatches s
                     @ [InfoPatch (lastError_patch [])] @ patchesTo StateError
                     @ [InfoPatch (lastWarning_patch [])]
                     @ deferredPatches False (TaskPositions s)\<rparr>)\<rparr>)"
proof -
  let ?m0 = "m\<lparr>state := Some s, shouldBeRunning := True, adminJobQueue := tl (adminJobQueue m)\<rparr>"
  have hd: "heldDown clock ?m0" using assms(7) by (simp add: heldDown_def)
  have r: "Tick_reports bo cf clock ?m0 =
      Inr ((shiftStateWindow (State i) ?m0)
             \<lparr>shouldBeRunning := False,
              state := Some (s\<lparr>pendingPatches := pendingPatches s
                @ [InfoPatch (lastError_patch [])] @ patchesTo StateError
                @ [InfoPatch (lastWarning_patch [])]\<rparr>)\<rparr>)"
    using assms(1,3,4,5,6) hd by (intro Tick_reports_held_down) auto
  have sw: "Tick_switch bo cf clock ?m0 = Tick_reports bo cf clock ?m0"
    using assms(1,5) by (auto simp: Tick_switch_def)
  show ?thesis
    by (simp add: Tick_not_handled [OF assms(1,2)] sw r Tick_deferred_Some shiftStateWindow_def)
qed

lemma Tick_idle_open:
  assumes "Info s = Some i" "\<not> jobHandled m s"
    and "list_all (\<lambda>(captureID, position). PosError position = None) (TaskPositions s)"
    and "list_all (\<lambda>(captureID, position). PosWarning position = None) (TaskPositions s)"
    and "State i = StateWarning
         \<or> (State i = StateError \<and> (\<exists>err. Error i = Some err \<and> \<not> IsChangefeedUnRetryableError cf err))"
    and "lastErrorTime m \<noteq> Unix 0 0" "\<not> heldDown clock m"
    and "NextBackOff bo (errBackoff m) = (interval, b)"
  shows "Tick bo cf clock s m =
           Inr (False, (shiftStateWindow (State i) m)
                  \<lparr>errBackoff := b, backoffInterval := interval, lastErrorTime := Unix 0 0,
                   shouldBeRunning := (interval \<noteq> Stop bo b),
                   adminJobQueue := tl (adminJobQueue m),
                   state := Some (s\<lparr>pendingPatches := pendingPatches s
                     @ [InfoPatch (lastError_patch [])]
                     @ (if interval = Stop bo b then patchesTo StateFailed else [])
                     @ [InfoPatch (lastWarning_patch [])]
                     @ deferredPatches (interval \<noteq> Stop bo b) (TaskPositions s)\<rparr>)\<rparr>)"
proof -
  let ?m0 = "m\<lparr>state := Some s, shouldBeRunning := True, adminJobQueue := tl (adminJobQueue m)\<rparr>"
  have hd: "\<not> heldDown clock ?m0" using assms(7) by (simp add: heldDown_def)
  have nb: "NextBackOff bo (errBackoff ?m0) = (interval, b)" using assms(8) by simp
  have r: "Tick_reports bo cf clock ?m0 =
      Inr ((shiftStateWindow (State i) ?m0)
             \<lparr>errBackoff := b, backoffInterval := interval, lastErrorTime := Unix 0 0,
              shouldBeRunning := (shouldBeRunning ?m0 \<and> interval \<noteq> Stop bo b),
              state := Some (s\<lparr>pendingPatches := pendingPatches s
                @ [InfoPatch (lastError_patch [])]
                @ (if interval = Stop bo b then patchesTo StateFailed else [])
                @ [InfoPatch (lastWarning_patch [])]\<rparr>)\<rparr>)"
    using assms(1,3,4,5,6) hd nb by (intro Tick_reports_open) auto
  have sw: "Tick_switch bo cf clock ?m0 = Tick_reports bo cf clock ?m0"
    using assms(1,5) by (auto simp: Tick_switch_def)
  show ?thesis
    by (simp add: Tick_not_handled [OF assms(1,2)] sw r Tick_deferred_Some shiftStateWindow_def)
qed

lemma applyPatch_patchState_info_fields:
  assumes "Info r = Some i"
  shows "\<exists>c i1. applyPatch pdClient (InfoPatch (patchState_info feedState a u)) r
           = Inr (c, r\<lparr>Info := Some i1\<rparr>)
           \<and> State i1 = feedState \<and> AdminJobType i1 = a \<and> Error i1 = Error i
           \<and> (State i = feedState \<and> AdminJobType i = a \<longrightarrow> \<not> c \<and> i1 = i)"
proof (cases "State i = feedState \<and> AdminJobType i = a")
  case True
  have "r\<lparr>Info := Some i\<rparr> = r" using assms by simp
  then have "applyPatch pdClient (InfoPatch (patchState_info feedState a u)) r
      = Inr (False, r\<lparr>Info := Some i\<rparr>)"
    using True assms by (simp add: applyPatch_def patchState_info_def)
  with True show ?thesis by blast
next
  case False
  then show ?thesis
    using assms by (auto simp: applyPatch_def patchState_info_def)
qed

lemma persist_down:
  assumes "Info s = Some i" "pendingPatches s = []" "fs = StateError \<or> fs = StateFailed"
  shows "\<exists>flags i1. persist pdClient
           (s\<lparr>pendingPatches := pendingPatches s @ [InfoPatch (lastError_patch [])]
               @ patchesTo fs @ [InfoPatch (lastWarning_patch [])]
               @ deferredPatches False (TaskPositions s)\<rparr>) =
         Inr (flags, s\<lparr>Status := map_option (\<lambda>st. st\<lparr>StatusAdminJobType := AdminStop\<rparr>) (Status s),
                Info := Some i1, TaskPositions := []\<rparr>)
         \<and> State i1 = fs \<and> AdminJobType i1 = AdminStop \<and> Error i1 = Error i
         \<and> (State i = fs \<and> AdminJobType i = AdminStop \<longrightarrow> i1 = i)
         \<and> (State i = fs \<and> AdminJobType i = AdminStop
              \<and> (\<forall>st. Status s = Some st \<longrightarrow> StatusAdminJobType st = AdminStop)
              \<and> TaskPositions s = [] \<longrightarrow> True \<notin> set flags)"
proof -
  have e: "s\<lparr>pendingPatches := []\<rparr> = s" using assms(2) by simp
  let ?r0 = "s\<lparr>Status := map_option (\<lambda>st. st\<lparr>StatusAdminJobType := AdminStop\<rparr>) (Status s)\<rparr>"
  have "Info ?r0 = Some i" using assms(1) by simp
  from applyPatch_patchState_info_fields [OF this, of pdClient fs AdminStop True]
  obtain c i1 where a: "applyPatch pdClient (InfoPatch (patchState_info fs AdminStop True)) ?r0
      = Inr (c, ?r0\<lparr>Info := Some i1\<rparr>)"
    and f: "State i1 = fs" "AdminJobType i1 = AdminStop" "Error i1 = Error i"
    and k: "State i = fs \<and> AdminJobType i = AdminStop \<longrightarrow> \<not> c \<and> i1 = i"
    by blast
  let ?r = "?r0\<lparr>Info := Some i1\<rparr>"
  obtain flags2 where d: "applyPatches pdClient (deferredPatches False (TaskPositions ?r)) ?r =
     Inr (flags2, ?r\<lparr>TaskPositions := []\<rparr>)" and l: "length flags2 = length (TaskPositions ?r)"
    using applyPatches_deferred_halt [of pdClient ?r] by blast
  have sw: "patchState_switch fs = Some (AdminStop, True)"
    using assms(3) by (auto simp: patchState_switch_def)
  have w: "applyPatch pdClient (InfoPatch (lastWarning_patch [])) ?r = Inr (False, ?r)"
    by (rule applyPatch_lastWarning_nil)
  have p: "persist pdClient
           (s\<lparr>pendingPatches := pendingPatches s @ [InfoPatch (lastError_patch [])]
               @ patchesTo fs @ [InfoPatch (lastWarning_patch [])]
               @ deferredPatches False (TaskPositions s)\<rparr>) =
         Inr (False # (\<exists>st. Status s = Some st \<and> StatusAdminJobType st \<noteq> AdminStop) # c
                # False # flags2,
              ?r\<lparr>TaskPositions := []\<rparr>)"
    using assms(2) a d w
    by (simp add: persist_def e patchesTo_def sw applyPatch_status applyPatch_lastError_nil
        applyPatches_append)
  have n: "State i = fs \<and> AdminJobType i = AdminStop
              \<and> (\<forall>st. Status s = Some st \<longrightarrow> StatusAdminJobType st = AdminStop)
              \<and> TaskPositions s = [] \<longrightarrow>
      True \<notin> set (False # (\<exists>st. Status s = Some st \<and> StatusAdminJobType st \<noteq> AdminStop) # c
                # False # flags2)"
    using k l by auto
  from p f k n show ?thesis by blast
qed

lemma round_held_down:
  assumes "emptyInput m s" "pendingPatches s = []" "Info s = Some i"
    and "State i = StateWarning
         \<or> (State i = StateError \<and> (\<exists>err. Error i = Some err \<and> \<not> IsChangefeedUnRetryableError cf err))"
    and "lastErrorTime m \<noteq> Unix 0 0" "heldDown clock m"
  shows "\<exists>flags m1 i1. tickAndPersist bo cf clock pdClient s m =
     Inr (flags, m1,
          s\<lparr>Status := map_option (\<lambda>st. st\<lparr>StatusAdminJobType := AdminStop\<rparr>) (Status s),
            Info := Some i1, TaskPositions := []\<rparr>)
     \<and> State i1 = StateError \<and> AdminJobType i1 = AdminStop \<and> Error i1 = Error i
     \<and> (State i = StateError \<and> AdminJobType i = AdminStop \<longrightarrow> i1 = i)
     \<and> (State i = StateError \<and> AdminJobType i = AdminStop
          \<and> (\<forall>st. Status s = Some st \<longrightarrow> StatusAdminJobType st = AdminStop)
          \<and> TaskPositions s = [] \<longrightarrow> True \<notin> set flags)
     \<and> adminJobQueue m1 = [] \<and> shouldBeRunning m1 = False
     \<and> shouldBeRemoved m1 = shouldBeRemoved m
     \<and> lastErrorTime m1 = lastErrorTime m \<and> backoffInterval m1 = backoffInterval m"
proof -
  let ?m1 = "(shiftStateWindow (State i) m)
                  \<lparr>shouldBeRunning := False,
                   adminJobQueue := tl (adminJobQueue m),
                   state := Some (s\<lparr>pendingPatches := pendingPatches s
                     @ [InfoPatch (lastError_patch [])] @ patchesTo StateError
                     @ [InfoPatch (lastWarning_patch [])]
                     @ deferredPatches False (TaskPositions s)\<rparr>)\<rparr>"
  have q: "adminJobQueue m = []" using assms(1) by (simp add: emptyInput_def)
  have t: "Tick bo cf clock s m = Inr (False, ?m1)"
    using assms(3) emptyInput_not_handled [OF assms(1)] emptyInput_positions [OF assms(1)]
      assms(4,5,6)
    by (rule Tick_idle_held_down)
  from persist_down [OF assms(3,2), of StateError pdClient] obtain flags i1 where
    p: "persist pdClient
           (s\<lparr>pendingPatches := pendingPatches s @ [InfoPatch (lastError_patch [])]
               @ patchesTo StateError @ [InfoPatch (lastWarning_patch [])]
               @ deferredPatches False (TaskPositions s)\<rparr>) =
         Inr (flags, s\<lparr>Status := map_option (\<lambda>st. st\<lparr>StatusAdminJobType := AdminStop\<rparr>) (Status s),
                Info := Some i1, TaskPositions := []\<rparr>)"
    and f: "State i1 = StateError" "AdminJobType i1 = AdminStop" "Error i1 = Error i"
      "State i = StateError \<and> AdminJobType i = AdminStop \<longrightarrow> i1 = i"
      "State i = StateError \<and> AdminJobType i = AdminStop
              \<and> (\<forall>st. Status s = Some st \<longrightarrow> StatusAdminJobType st = AdminStop)
              \<and> TaskPositions s = [] \<longrightarrow> True \<notin> set flags"
    by blast
  have r: "tickAndPersist bo cf clock pdClient s m =
     Inr (flags, ?m1,
          s\<lparr>Status := map_option (\<lambda>st. st\<lparr>StatusAdminJobType := AdminStop\<rparr>) (Status s),
            Info := Some i1, TaskPositions := []\<rparr>)"
    using p by (simp add: tickAndPersist_def t)
  have g: "adminJobQueue ?m1 = [] \<and> shouldBeRunning ?m1 = False
     \<and> shouldBeRemoved ?m1 = shouldBeRemoved m
     \<and> lastErrorTime ?m1 = lastErrorTime m \<and> backoffInterval ?m1 = backoffInterval m"
    using q by simp
  show ?thesis
    by (rule exI [of _ flags], rule exI [of _ ?m1], rule exI [of _ i1]) (intro conjI r f g [THEN conjunct1]
        g [THEN conjunct2, THEN conjunct1] g [THEN conjunct2, THEN conjunct2, THEN conjunct1]
        g [THEN conjunct2, THEN conjunct2, THEN conjunct2, THEN conjunct1]
        g [THEN conjunct2, THEN conjunct2, THEN conjunct2, THEN conjunct2])
qed

lemma round_open_stop:
  assumes "emptyInput m s" "pendingPatches s = []" "Info s = Some i"
    and "State i = StateWarning
         \<or> (State i = StateError \<and> (\<exists>err. Error i = Some err \<and> \<not> IsChangefeedUnRetryableError cf err))"
    and "lastErrorTime m \<noteq> Unix 0 0" "\<not> heldDown clock m"
    and "NextBackOff bo (errBackoff m) = (interval, b)" "interval = Stop bo b"
  shows "\<exists>flags m1 i1. tickAndPersist bo cf clock pdClient s m =
     Inr (flags, m1,
          s\<lparr>Status := map_option (\<lambda>st. st\<lparr>StatusAdminJobType := AdminStop\<rparr>) (Status s),
            Info := Some i1, TaskPositions := []\<rparr>)
     \<and> State i1 = StateFailed
     \<and> adminJobQueue m1 = [] \<and> shouldBeRunning m1 = False"
proof -
  let ?m1 = "(shiftStateWindow (State i) m)
                  \<lparr>errBackoff := b, backoffInterval := interval, lastErrorTime := Unix 0 0,
                   shouldBeRunning := (interval \<noteq> Stop bo b),
                   adminJobQueue := tl (adminJobQueue m),
                   state := Some (s\<lparr>pendingPatches := pendingPatches s
                     @ [InfoPatch (lastError_patch [])]
                     @ (if interval = Stop bo b then patchesTo StateFailed else [])
                     @ [InfoPatch (lastWarning_patch [])]
                     @ deferredPatches (interval \<noteq> Stop bo b) (TaskPositions s)\<rparr>)\<rparr>"
  have q: "adminJobQueue m = []" using assms(1) by (simp add: emptyInput_def)
  have t: "Tick bo cf clock s m = Inr (False, ?m1)"
    using assms(3) emptyInput_not_handled [OF assms(1)] emptyInput_positions [OF assms(1)]
      assms(4,5,6,7)
    by (rule Tick_idle_open)
  from persist_down [OF assms(3,2), of StateFailed pdClient] obtain flags i1 where
    p: "persist pdClient
           (s\<lparr>pendingPatches := pendingPatches s @ [InfoPatch (lastError_patch [])]
               @ patchesTo StateFailed @ [InfoPatch (lastWarning_patch [])]
               @ deferredPatches False (TaskPositions s)\<rparr>) =
         Inr (flags, s\<lparr>Status := map_option (\<lambda>st. st\<lparr>StatusAdminJobType := AdminStop\<rparr>) (Status s),
                Info := Some i1, TaskPositions := []\<rparr>)"
    and f: "State i1 = StateFailed"
    by blast
  have r: "tickAndPersist bo cf clock pdClient s m =
     Inr (flags, ?m1,
          s\<lparr>Status := map_option (\<lambda>st. st\<lparr>StatusAdminJobType := AdminStop\<rparr>) (Status s),
            Info := Some i1, TaskPositions := []\<rparr>)"
    using p assms(8) by (simp add: tickAndPersist_def t)
  have g: "adminJobQueue ?m1 = []" "shouldBeRunning ?m1 = False"
    using q assms(8) by simp_all
  show ?thesis
    by (rule exI [of _ flags], rule exI [of _ ?m1], rule exI [of _ i1]) (intro conjI r f g)
qed

lemma round_open_go:
  assumes "emptyInput m s" "pendingPatches s = []" "Info s = Some i"
    and "State i = StateWarning
         \<or> (State i = StateError \<and> (\<exists>err. Error i = Some err \<and> \<not> IsChangefeedUnRetryableError cf err))"
    and "lastErrorTime m \<noteq> Unix 0 0" "\<not> heldDown clock m"
    and "NextBackOff bo (errBackoff m) = (interval, b)" "interval \<noteq> Stop bo b"
  shows "\<exists>flags m1. tickAndPersist bo cf clock pdClient s m =
     Inr (flags, m1,
          s\<lparr>Info := Some (i\<lparr>State := StateNormal, AdminJobType := AdminNone\<rparr>),
            Status := map_option (\<lambda>st. st\<lparr>StatusAdminJobType := AdminNone\<rparr>) (Status s)\<rparr>)
     \<and> adminJobQueue m1 = [] \<and> shouldBeRunning m1 = True \<and> lastErrorTime m1 = Unix 0 0"
proof -
  let ?m1 = "(shiftStateWindow (State i) m)
                  \<lparr>errBackoff := b, backoffInterval := interval, lastErrorTime := Unix 0 0,
                   shouldBeRunning := (interval \<noteq> Stop bo b),
                   adminJobQueue := tl (adminJobQueue m),
                   state := Some (s\<lparr>pendingPatches := pendingPatches s
                     @ [InfoPatch (lastError_patch [])]
                     @ (if interval = Stop bo b then patchesTo StateFailed else [])
                     @ [InfoPatch (lastWarning_patch [])]
                     @ deferredPatches (interval \<noteq> Stop bo b) (TaskPositions s)\<rparr>)\<rparr>"
  have q: "adminJobQueue m = []" using assms(1) by (simp add: emptyInput_def)
  have t: "Tick bo cf clock s m = Inr (False, ?m1)"
    using assms(3) emptyInput_not_handled [OF assms(1)] emptyInput_positions [OF assms(1)]
      assms(4,5,6,7)
    by (rule Tick_idle_open)
  have r: "tickAndPersist bo cf clock pdClient s m =
     Inr ([False, False, \<exists>st. Status s = Some st \<and> StatusAdminJobType st \<noteq> AdminNone,
               State i \<noteq> StateNormal \<or> AdminJobType i \<noteq> AdminNone], ?m1,
          s\<lparr>Info := Some (i\<lparr>State := StateNormal, AdminJobType := AdminNone\<rparr>),
            Status := map_option (\<lambda>st. st\<lparr>StatusAdminJobType := AdminNone\<rparr>) (Status s)\<rparr>)"
    using persist_running [OF assms(3,2), of pdClient] assms(8)
    by (simp add: tickAndPersist_def t deferredPatches_def)
  have g: "adminJobQueue ?m1 = []" "shouldBeRunning ?m1 = True" "lastErrorTime ?m1 = Unix 0 0"
    using q assms(8) by simp_all
  show ?thesis
    by (rule exI [of _ "[False, False, \<exists>st. Status s = Some st \<and> StatusAdminJobType st \<noteq> AdminNone,
               State i \<noteq> StateNormal \<or> AdminJobType i \<noteq> AdminNone]"], rule exI [of _ ?m1])
      (intro conjI r g)
qed

lemma heldRound_eq:
  "heldRound e =
     Inr ([False, False, True, False],
          (shiftStateWindow StateWarning pendingManager)
            \<lparr>state := Some ((warnedState e)\<lparr>pendingPatches :=
                [InfoPatch (lastError_patch [])] @ patchesTo StateError
                @ [InfoPatch (lastWarning_patch [])]\<rparr>),
             shouldBeRunning := False\<rparr>,
          exampleState ((exampleInfo StateError)\<lparr>Error := e\<rparr>) [])"
  by (simp add: heldRound_def warnedState_def tickAndPersist_def manager_defs patch_defs example_defs
      pendingManager_def jobHandled_def shiftStateWindow_def)

text \<open>
  In the first scenario both rounds have empty input. After the first the feed is still
  in \<open>StateError\<close> and kept down; the second one, once the interval has passed, lets it
  run: its closures patch \<open>StateNormal\<close> and two of them report a change. In the second
  scenario the info of the feed in \<open>StateWarning\<close> holds an unretryable error: the first
  round, held down, patches \<open>StateError\<close>, and the second, at the switch on the
  state, patches \<open>StateFailed\<close> with a change. In the third the info holds no error: the
  first round patches \<open>StateError\<close> and the second tick panics where it reads the error,
  as does the first tick of a feed that is in \<open>StateError\<close> with no error in its info.
\<close>

theorem idle_ticks_idempotent_counterexample:
  "emptyInput pendingManager erroredState
   \<and> \<not> isl firstRound \<and> \<not> isl secondRound
   \<and> observable (fst (snd (projr firstRound))) (snd (snd (projr firstRound)))
       = (Info erroredState, Status erroredState, [], False, False)
   \<and> map_option State (fst (observable (fst (snd (projr secondRound))) (snd (snd (projr secondRound)))))
       = Some StateNormal
   \<and> ShouldRunning (fst (snd (projr secondRound))) = True
   \<and> fst (projr secondRound) = [False, False, True, True]
   \<and> emptyInput pendingManager (warnedState (Some (exampleError ''CDC:ErrExpressionColumnNotFound'')))
   \<and> \<not> isl (heldRound (Some (exampleError ''CDC:ErrExpressionColumnNotFound'')))
   \<and> \<not> isl (nextHeldRound (Some (exampleError ''CDC:ErrExpressionColumnNotFound'')))
   \<and> map_option State
        (Info (snd (snd (projr (heldRound (Some (exampleError ''CDC:ErrExpressionColumnNotFound'')))))))
       = Some StateError
   \<and> map_option State
        (Info (snd (snd (projr (nextHeldRound (Some (exampleError ''CDC:ErrExpressionColumnNotFound'')))))))
       = Some StateFailed
   \<and> fst (projr (nextHeldRound (Some (exampleError ''CDC:ErrExpressionColumnNotFound''))))
       = [False, True]
   \<and> emptyInput pendingManager (warnedState None)
   \<and> \<not> isl (heldRound None)
   \<and> nextHeldRound None = Inl (TickPanic NilDereference)
   \<and> emptyInput exampleManager (exampleState (exampleInfo StateError) [])
   \<and> tickAndPersist exampleBackOff exampleClassifier \<lparr>timeNow = 100, timeSinceNow = 101\<rparr>
         examplePD (exampleState (exampleInfo StateError) []) exampleManager
       = Inl (TickPanic NilDereference)"
  by (simp add: secondRound_def firstRound_eq nextHeldRound_def heldRound_eq warnedState_def
      tickAndPersist_def manager_defs patch_defs
      example_defs pendingManager_def erroredState_def jobHandled_def emptyInput_def
      observable_def ShouldRunning_def ShouldRemoved_def)

text \<open>
  C7, amended: take a feed with an info (and, in \<open>StateError\<close>, an error in it), no
  pending patch, no admin job queued and nothing reported. Two successive ticks, each
  followed by the persistence of its patches, leave the same observable state, whatever
  the oracle, and no closure of the second tick reports a change; the one exception is a
  first tick that reaches the restart gate with an error pending and is held down there,
  for which this holds when the second tick is held down too and the error in the info
  is retryable.
\<close>

theorem idle_ticks_idempotent:
  assumes "emptyInput m s" "pendingPatches s = []" "Info s = Some i"
    and "State i = StateError \<longrightarrow> Error i \<noteq> None"
    and "restartPending cf m i \<and> heldDown clock1 m \<longrightarrow>
           heldDown clock2 m
           \<and> (\<exists>err. Error i = Some err \<and> \<not> IsChangefeedUnRetryableError cf err)"
  shows "\<exists>flags1 m1 s1 flags2 m2 s2.
           tickAndPersist bo cf clock1 pdClient1 s m = Inr (flags1, m1, s1)
           \<and> tickAndPersist bo cf clock2 pdClient2 s1 m1 = Inr (flags2, m2, s2)
           \<and> observable m2 s2 = observable m1 s1
           \<and> True \<notin> set flags2"
proof (cases "restartPending cf m i")
  case False
  with assms(1,2,3,4) show ?thesis by (rule idle_rounds_settled)
next
  case pending: True
  then have l: "lastErrorTime m \<noteq> Unix 0 0"
    and st: "State i = StateWarning
         \<or> (State i = StateError \<and> (\<exists>err. Error i = Some err \<and> \<not> IsChangefeedUnRetryableError cf err))"
    using assms(4) by (auto simp: restartPending_def split: option.splits)
  show ?thesis
  proof (cases "heldDown clock1 m")
    case True
    with assms(5) pending have h2: "heldDown clock2 m"
      and er: "\<exists>err. Error i = Some err \<and> \<not> IsChangefeedUnRetryableError cf err"
      by auto
    let ?stop = "map_option (\<lambda>st. st\<lparr>StatusAdminJobType := AdminStop\<rparr>)"
    from round_held_down [OF assms(1,2,3) st l True, of bo pdClient1]
    obtain flags1 m1 i1 where
      r1: "tickAndPersist bo cf clock1 pdClient1 s m =
        Inr (flags1, m1, s\<lparr>Status := ?stop (Status s), Info := Some i1, TaskPositions := []\<rparr>)"
      and f1: "State i1 = StateError" "AdminJobType i1 = AdminStop" "Error i1 = Error i"
      and g1: "adminJobQueue m1 = []" "shouldBeRunning m1 = False"
        "lastErrorTime m1 = lastErrorTime m" "backoffInterval m1 = backoffInterval m"
      by (elim exE conjE)
    let ?s1 = "s\<lparr>Status := ?stop (Status s), Info := Some i1, TaskPositions := []\<rparr>"
    have e1: "emptyInput m1 ?s1" using g1(1) by (simp add: emptyInput_def)
    have p1: "pendingPatches ?s1 = []" using assms(2) by simp
    have in1: "Info ?s1 = Some i1" by simp
    have st1: "State i1 = StateWarning
         \<or> (State i1 = StateError \<and> (\<exists>err. Error i1 = Some err \<and> \<not> IsChangefeedUnRetryableError cf err))"
      using f1 er by simp
    have l1: "lastErrorTime m1 \<noteq> Unix 0 0" using l g1(3) by simp
    have h1: "heldDown clock2 m1" using h2 g1(3,4) by (simp add: heldDown_def)
    from round_held_down [OF e1 p1 in1 st1 l1 h1, of bo pdClient2]
    obtain flags2 m2 i2 where
      r2: "tickAndPersist bo cf clock2 pdClient2 ?s1 m1 =
        Inr (flags2, m2, ?s1\<lparr>Status := ?stop (Status ?s1), Info := Some i2, TaskPositions := []\<rparr>)"
      and k2: "State i1 = StateError \<and> AdminJobType i1 = AdminStop \<longrightarrow> i2 = i1"
      and n2: "State i1 = StateError \<and> AdminJobType i1 = AdminStop
          \<and> (\<forall>st. Status ?s1 = Some st \<longrightarrow> StatusAdminJobType st = AdminStop)
          \<and> TaskPositions ?s1 = [] \<longrightarrow> True \<notin> set flags2"
      and g2: "shouldBeRunning m2 = False" "shouldBeRemoved m2 = shouldBeRemoved m1"
      by (elim exE conjE)
    let ?s2 = "?s1\<lparr>Status := ?stop (Status ?s1), Info := Some i2, TaskPositions := []\<rparr>"
    have i2: "i2 = i1" using k2 f1 by simp
    have o: "observable m2 ?s2 = observable m1 ?s1"
      using i2 g1(2) g2
      by (cases "Status s") (simp_all add: observable_def ShouldRunning_def ShouldRemoved_def)
    have "\<forall>st. Status ?s1 = Some st \<longrightarrow> StatusAdminJobType st = AdminStop"
      by (cases "Status s") auto
    with n2 f1 have f: "True \<notin> set flags2" by simp
    from r1 r2 o f show ?thesis by blast
  next
    case False
    obtain interval b where nb: "NextBackOff bo (errBackoff m) = (interval, b)"
      by (cases "NextBackOff bo (errBackoff m)")
    show ?thesis
    proof (cases "interval = Stop bo b")
      case True
      let ?stop = "map_option (\<lambda>st. st\<lparr>StatusAdminJobType := AdminStop\<rparr>)"
      from round_open_stop [OF assms(1,2,3) st l False nb True, of pdClient1]
      obtain flags1 m1 i1 where
        r1: "tickAndPersist bo cf clock1 pdClient1 s m =
          Inr (flags1, m1, s\<lparr>Status := ?stop (Status s), Info := Some i1, TaskPositions := []\<rparr>)"
        and f1: "State i1 = StateFailed"
        and g1: "adminJobQueue m1 = []" "shouldBeRunning m1 = False"
        by (elim exE conjE)
      let ?s1 = "s\<lparr>Status := ?stop (Status s), Info := Some i1, TaskPositions := []\<rparr>"
      have e1: "emptyInput m1 ?s1" using g1(1) by (simp add: emptyInput_def)
      have p1: "pendingPatches ?s1 = []" using assms(2) by simp
      have in1: "Info ?s1 = Some i1" by simp
      have h1: "State i1 = StateStopped \<or> State i1 = StateFailed \<or> State i1 = StateFinished
           \<or> State i1 = StateRemoved" using f1 by simp
      let ?m2 = "m1\<lparr>shouldBeRunning := False,
              shouldBeRemoved := (shouldBeRemoved m1 \<or> State i1 = StateRemoved),
              adminJobQueue := [],
              state := Some (?s1\<lparr>pendingPatches := pendingPatches ?s1
                @ deferredPatches False (TaskPositions ?s1)\<rparr>)\<rparr>"
      from round_halted [OF e1 p1 in1 h1, of bo cf clock2 pdClient2]
      obtain flags2 where r2: "tickAndPersist bo cf clock2 pdClient2 ?s1 m1
          = Inr (flags2, ?m2, ?s1\<lparr>TaskPositions := []\<rparr>)"
        and l2: "length flags2 = length (TaskPositions ?s1)"
        by blast
      have o: "observable ?m2 (?s1\<lparr>TaskPositions := []\<rparr>) = observable m1 ?s1"
        using f1 g1(2) by (auto simp: observable_def ShouldRunning_def ShouldRemoved_def)
      have f: "True \<notin> set flags2" using l2 by simp
      from r1 r2 o f show ?thesis by blast
    next
      case go: False
      let ?i1 = "i\<lparr>State := StateNormal, AdminJobType := AdminNone\<rparr>"
      let ?s1 = "s\<lparr>Info := Some ?i1,
              Status := map_option (\<lambda>st. st\<lparr>StatusAdminJobType := AdminNone\<rparr>) (Status s)\<rparr>"
      from round_open_go [OF assms(1,2,3) st l False nb go, of pdClient1]
      obtain flags1 m1 where
        r1: "tickAndPersist bo cf clock1 pdClient1 s m = Inr (flags1, m1, ?s1)"
        and g1: "adminJobQueue m1 = []" "shouldBeRunning m1 = True" "lastErrorTime m1 = Unix 0 0"
        by (elim exE conjE)
      have e1: "emptyInput m1 ?s1" using assms(1) g1(1) by (simp add: emptyInput_def)
      have p1: "pendingPatches ?s1 = []" using assms(2) by simp
      have in1: "Info ?s1 = Some ?i1" by simp
      let ?m2 = "(shiftStateWindow (State ?i1) m1)
              \<lparr>shouldBeRunning := True, lastErrorTime := Unix 0 0, adminJobQueue := [],
               state := Some (?s1\<lparr>pendingPatches := pendingPatches ?s1
                 @ [InfoPatch (lastError_patch []), InfoPatch (lastWarning_patch [])]
                 @ patchesTo StateNormal\<rparr>)\<rparr>"
      let ?s2 = "?s1\<lparr>Info := Some (?i1\<lparr>State := StateNormal, AdminJobType := AdminNone\<rparr>),
              Status := map_option (\<lambda>st. st\<lparr>StatusAdminJobType := AdminNone\<rparr>) (Status ?s1)\<rparr>"
      let ?f2 = "[False, False, \<exists>st. Status ?s1 = Some st \<and> StatusAdminJobType st \<noteq> AdminNone,
             State ?i1 \<noteq> StateNormal \<or> AdminJobType ?i1 \<noteq> AdminNone]"
      have r2: "tickAndPersist bo cf clock2 pdClient2 ?s1 m1 = Inr (?f2, ?m2, ?s2)"
        using e1 p1 in1 by (rule round_running) (simp_all add: g1)
      have o: "observable ?m2 ?s2 = observable m1 ?s1"
        using g1(2)
        by (cases "Status s") (simp_all add: observable_def ShouldRunning_def ShouldRemoved_def)
      have f: "True \<notin> set ?f2"
        by (cases "Status s") simp_all
      from r1 r2 o f show ?thesis by blast
    qed
  qed
qed

theorem idle_ticks_idempotent_witness:
  "\<exists>flags1 m1 s1 flags2 m2 s2.
     tickAndPersist exampleBackOff exampleClassifier
       \<lparr>timeNow = 1000000100, timeSinceNow = 1000000100\<rparr> examplePD erroredState pendingManager
       = Inr (flags1, m1, s1)
     \<and> tickAndPersist exampleBackOff exampleClassifier
         \<lparr>timeNow = 2000000100, timeSinceNow = 2000000100\<rparr> examplePD s1 m1 = Inr (flags2, m2, s2)
     \<and> observable m2 s2 = observable m1 s1
     \<and> True \<notin> set flags2
     \<and> restartPending exampleClassifier pendingManager
           ((exampleInfo StateError)\<lparr>Error := Some (exampleError ''E1'')\<rparr>)
     \<and> heldDown \<lparr>timeNow = 1000000100, timeSinceNow = 1000000100\<rparr> pendingManager
     \<and> heldDown \<lparr>timeNow = 2000000100, timeSinceNow = 2000000100\<rparr> pendingManager"
proof -
  let ?i = "(exampleInfo StateError)\<lparr>Error := Some (exampleError ''E1'')\<rparr>"
  let ?clock1 = "\<lparr>timeNow = 1000000100, timeSinceNow = 1000000100\<rparr>"
  let ?clock2 = "\<lparr>timeNow = 2000000100, timeSinceNow = 2000000100\<rparr>"
  have 1: "emptyInput pendingManager erroredState"
    by (simp add: emptyInput_def pendingManager_def exampleManager_def erroredState_def
        exampleState_def)
  have 2: "pendingPatches erroredState = []" by (simp add: erroredState_def exampleState_def)
  have 3: "Info erroredState = Some ?i" by (simp add: erroredState_def exampleState_def)
  have 4: "State ?i = StateError \<longrightarrow> Error ?i \<noteq> None" by simp
  have p: "restartPending exampleClassifier pendingManager ?i \<and> heldDown ?clock1 pendingManager"
    by (simp add: restartPending_def heldDown_def pendingManager_def exampleManager_def
        exampleInfo_def exampleClassifier_def exampleError_def)
  have 5: "restartPending exampleClassifier pendingManager ?i \<and> heldDown ?clock1 pendingManager \<longrightarrow>
           heldDown ?clock2 pendingManager
           \<and> (\<exists>err. Error ?i = Some err \<and> \<not> IsChangefeedUnRetryableError exampleClassifier err)"
    by (simp add: heldDown_def pendingManager_def exampleManager_def
        exampleClassifier_def exampleError_def)
  have h2: "heldDown ?clock2 pendingManager"
    by (simp add: heldDown_def pendingManager_def exampleManager_def)
  from idle_ticks_idempotent [OF 1 2 3 4 5, of exampleBackOff examplePD examplePD]
  obtain flags1 m1 s1 flags2 m2 s2 where
    "tickAndPersist exampleBackOff exampleClassifier ?clock1 examplePD erroredState pendingManager
       = Inr (flags1, m1, s1)"
    "tickAndPersist exampleBackOff exampleClassifier ?clock2 examplePD s1 m1 = Inr (flags2, m2, s2)"
    "observable m2 s2 = observable m1 s1" "True \<notin> set flags2"
    by blast
  with p h2 show ?thesis by blast
qed

subsection \<open>Fast-fail errors\<close>

lemma positionPatches_append [simp]:
  "positionPatches (ps @ qs) = (positionPatches ps \<and> positionPatches qs)"
  by (simp add: positionPatches_def)

lemma applyPatch_position:
  assumes "fn = clearError_patch \<or> fn = clearWarning_patch \<or> fn = cleanUpInfos_patch"
  shows "\<exists>c r1. applyPatch pdClient (TaskPositionPatch captureID fn) r = Inr (c, r1)
           \<and> Info r1 = Info r \<and> Status r1 = Status r"
  using assms
  by (cases "map_of (TaskPositions r) captureID")
    (auto simp: applyPatch_def clearError_patch_def clearWarning_patch_def cleanUpInfos_patch_def)

lemma applyPatches_position:
  "positionPatches ps \<Longrightarrow>
   \<exists>flags r1. applyPatches pdClient ps r = Inr (flags, r1)
     \<and> Info r1 = Info r \<and> Status r1 = Status r"
proof (induction ps arbitrary: r)
  case Nil
  show ?case by simp
next
  case (Cons p ps)
  from Cons.prems obtain captureID fn where p: "p = TaskPositionPatch captureID fn"
    and f: "fn = clearError_patch \<or> fn = clearWarning_patch \<or> fn = cleanUpInfos_patch"
    and rest: "positionPatches ps"
    by (cases p) (auto simp: positionPatches_def)
  from applyPatch_position [OF f, of pdClient captureID r] obtain c r1 where
    a: "applyPatch pdClient (TaskPositionPatch captureID fn) r = Inr (c, r1)"
    and k: "Info r1 = Info r" "Status r1 = Status r"
    by blast
  from Cons.IH [OF rest, of r1] obtain flags r2 where
    b: "applyPatches pdClient ps r1 = Inr (flags, r2)" and k2: "Info r2 = Info r1" "Status r2 = Status r1"
    by blast
  show ?case
    using p a b k k2 by simp
qed

lemma collectErrors_patches:
  "\<exists>qs. snd (collectErrors positions acc s) = s\<lparr>pendingPatches := pendingPatches s @ qs\<rparr>
        \<and> positionPatches qs"
proof (induction positions arbitrary: acc s)
  case Nil
  show ?case by (rule exI [of _ "[]"]) (simp add: positionPatches_def)
next
  case (Cons cp positions)
  obtain captureID position where cp: "cp = (captureID, position)" by (cases cp)
  show ?case
  proof (cases "PosError position")
    case None
    with cp Cons.IH [of acc s] show ?thesis by simp
  next
    case (Some err)
    let ?s1 = "PatchTaskPosition captureID clearError_patch s"
    from Cons.IH [of "map_store (Code err) err acc" ?s1] obtain qs where
      q: "snd (collectErrors positions (map_store (Code err) err acc) ?s1)
          = ?s1\<lparr>pendingPatches := pendingPatches ?s1 @ qs\<rparr>" and pp: "positionPatches qs"
      by blast
    show ?thesis
      apply (rule exI [of _ "TaskPositionPatch captureID clearError_patch # qs"])
      using cp Some q pp by (simp add: PatchTaskPosition_def positionPatches_def)
  qed
qed

lemma collectWarnings_patches:
  "\<exists>qs. snd (collectWarnings positions acc s) = s\<lparr>pendingPatches := pendingPatches s @ qs\<rparr>
        \<and> positionPatches qs"
proof (induction positions arbitrary: acc s)
  case Nil
  show ?case by (rule exI [of _ "[]"]) (simp add: positionPatches_def)
next
  case (Cons cp positions)
  obtain captureID position where cp: "cp = (captureID, position)" by (cases cp)
  show ?case
  proof (cases "PosWarning position")
    case None
    with cp Cons.IH [of acc s] show ?thesis by simp
  next
    case (Some err)
    let ?s1 = "PatchTaskPosition captureID clearWarning_patch s"
    from Cons.IH [of "map_store (Code err) err acc" ?s1] obtain qs where
      q: "snd (collectWarnings positions (map_store (Code err) err acc) ?s1)
          = ?s1\<lparr>pendingPatches := pendingPatches ?s1 @ qs\<rparr>" and pp: "positionPatches qs"
      by blast
    show ?thesis
      apply (rule exI [of _ "TaskPositionPatch captureID clearWarning_patch # qs"])
      using cp Some q pp by (simp add: PatchTaskPosition_def positionPatches_def)
  qed
qed

lemma collectErrors_fields [simp]:
  "TaskPositions (snd (collectErrors positions acc s)) = TaskPositions s"
  "Info (snd (collectErrors positions acc s)) = Info s"
  using collectErrors_patches [of positions acc s] by auto

lemma collectWarnings_fields [simp]:
  "TaskPositions (snd (collectWarnings positions acc s)) = TaskPositions s"
  "Info (snd (collectWarnings positions acc s)) = Info s"
  using collectWarnings_patches [of positions acc s] by auto

lemma keepsStateAndError_position: "positionPatches ps \<Longrightarrow> keepsStateAndError ps"
  unfolding keepsStateAndError_def
proof (intro allI impI)
  fix pdClient and r :: ChangefeedReactorState and i
  assume pp: "positionPatches ps" and i: "Info r = Some i"
  from applyPatches_position [OF pp, of pdClient r] obtain flags r1 where
    "applyPatches pdClient ps r = Inr (flags, r1)" "Info r1 = Info r"
    by blast
  with i show "\<exists>flags r1 i1. applyPatches pdClient ps r = Inr (flags, r1)
           \<and> Info r1 = Some i1 \<and> State i1 = State i \<and> Error i1 = Error i"
    by simp
qed

lemma foldl_Warning_fields [simp]:
  "State (foldl (\<lambda>i' err. i'\<lparr>Warning := Some err\<rparr>) i errs) = State i"
  "Error (foldl (\<lambda>i' err. i'\<lparr>Warning := Some err\<rparr>) i errs) = Error i"
  by (induction errs arbitrary: i) simp_all

lemma keepsStateAndError_lastWarning: "keepsStateAndError [InfoPatch (lastWarning_patch ws)]"
  by (auto simp: keepsStateAndError_def applyPatch_def lastWarning_patch_def)

lemma keepsStateAndError_append:
  assumes "keepsStateAndError ps" "keepsStateAndError qs"
  shows "keepsStateAndError (ps @ qs)"
  unfolding keepsStateAndError_def
proof (intro allI impI)
  fix pdClient and r :: ChangefeedReactorState and i
  assume i: "Info r = Some i"
  from assms(1) i obtain flags1 r1 i1 where
    a: "applyPatches pdClient ps r = Inr (flags1, r1)" "Info r1 = Some i1"
       "State i1 = State i" "Error i1 = Error i"
    unfolding keepsStateAndError_def by blast
  from assms(2) a(2) obtain flags2 r2 i2 where
    b: "applyPatches pdClient qs r1 = Inr (flags2, r2)" "Info r2 = Some i2"
       "State i2 = State i1" "Error i2 = Error i1"
    unfolding keepsStateAndError_def by blast
  show "\<exists>flags r1 i1. applyPatches pdClient (ps @ qs) r = Inr (flags, r1)
           \<and> Info r1 = Some i1 \<and> State i1 = State i \<and> Error i1 = Error i"
    using a b by (simp add: applyPatches_append)
qed

text \<open>The error is written and the state patched in between closures that keep both.\<close>

lemma applyPatches_error_then_state:
  assumes "keepsStateAndError ps" "keepsStateAndError qs" "feedState \<noteq> StateWarning"
    and "Info r = Some i"
  shows "\<exists>flags r1 i1.
           applyPatches pdClient
             (ps @ InfoPatch (setError_patch err) # patchesTo feedState @ qs) r = Inr (flags, r1)
           \<and> Info r1 = Some i1 \<and> State i1 = feedState \<and> Error i1 = Some err"
proof -
  from assms(1,4) obtain flags1 r1 i1 where
    a: "applyPatches pdClient ps r = Inr (flags1, r1)" "Info r1 = Some i1"
    unfolding keepsStateAndError_def by blast
  let ?r2 = "r1\<lparr>Info := Some (i1\<lparr>Error := Some err\<rparr>)\<rparr>"
  have b: "applyPatch pdClient (InfoPatch (setError_patch err)) r1 = Inr (True, ?r2)"
    using a(2) by (simp add: applyPatch_def setError_patch_def)
  have "Info ?r2 = Some (i1\<lparr>Error := Some err\<rparr>)" by simp
  from applyPatches_patchesTo [OF this assms(3), of pdClient] obtain flags3 r3 i3 where
    c: "applyPatches pdClient (patchesTo feedState) ?r2 = Inr (flags3, r3)" "Info r3 = Some i3"
       "State i3 = feedState" "Error i3 = Some err"
    by auto
  from assms(2) c(2) obtain flags4 r4 i4 where
    d: "applyPatches pdClient qs r3 = Inr (flags4, r4)" "Info r4 = Some i4"
       "State i4 = State i3" "Error i4 = Error i3"
    unfolding keepsStateAndError_def by blast
  show ?thesis
    using a b c d by (simp add: applyPatches_append)
qed

lemma handleError_fastFail:
  assumes "state m = Some s"
    and "find (\<lambda>err. IsChangefeedFastFailErrorCode cf (Code err)) errs = Some err"
  shows "handleError bo cf clock errs m =
           Inr (m\<lparr>state := Some (s\<lparr>pendingPatches := pendingPatches s
                    @ InfoPatch (setError_patch err) # patchesTo StateFailed\<rparr>),
                  shouldBeRunning := False\<rparr>)"
  using assms by (simp add: handleError_def onState_def patchState_patchesTo PatchInfo_def)

lemma Tick_fastFail:
  assumes "Info s = Some i" "\<not> jobHandled m s"
    and "State i = StateNormal \<or> State i = StateWarning
         \<or> (State i = StateError \<and> (\<exists>e0. Error i = Some e0 \<and> \<not> IsChangefeedUnRetryableError cf e0))"
    and "find (\<lambda>err. IsChangefeedFastFailErrorCode cf (Code err)) (reportedErrors s) = Some err"
  shows "\<exists>m1 new.
           Tick bo cf clock s m = Inr (False, m1)
           \<and> shouldBeRunning m1 = False
           \<and> state m1 = Some (s\<lparr>pendingPatches := pendingPatches s @ new\<rparr>)
           \<and> (\<forall>pdClient r i0. Info r = Some i0 \<longrightarrow>
                 (\<exists>flags r1 i1. applyPatches pdClient new r = Inr (flags, r1)
                    \<and> Info r1 = Some i1 \<and> State i1 = StateFailed \<and> Error i1 = Some err))"
proof -
  let ?m0 = "m\<lparr>state := Some s, shouldBeRunning := True, adminJobQueue := tl (adminJobQueue m)\<rparr>"
  obtain re sE where ce: "collectErrors (TaskPositions s) [] s = (re, sE)"
    by (cases "collectErrors (TaskPositions s) [] s")
  from collectErrors_patches [of "TaskPositions s" "[]" s] ce obtain qsE where
    sE: "sE = s\<lparr>pendingPatches := pendingPatches s @ qsE\<rparr>" and pE: "positionPatches qsE"
    by auto
  have errs: "reportedErrors s = map snd re" using ce by (simp add: reportedErrors_def)
  have e: "errorsReportedByProcessors ?m0 = Inr (map snd re, ?m0\<lparr>state := Some sE\<rparr>)"
    using ce by (simp add: errorsReportedByProcessors_def)
  let ?s2 = "sE\<lparr>pendingPatches := pendingPatches sE
                    @ InfoPatch (setError_patch err) # patchesTo StateFailed\<rparr>"
  let ?m2 = "?m0\<lparr>state := Some ?s2, shouldBeRunning := False\<rparr>"
  have h: "handleError bo cf clock (map snd re) (?m0\<lparr>state := Some sE\<rparr>) = Inr ?m2"
    using handleError_fastFail [of "?m0\<lparr>state := Some sE\<rparr>" sE cf "map snd re" err bo clock]
      assms(4) errs by simp
  obtain rw sW where cw: "collectWarnings (TaskPositions ?s2) [] ?s2 = (rw, sW)"
    by (cases "collectWarnings (TaskPositions ?s2) [] ?s2")
  from collectWarnings_patches [of "TaskPositions ?s2" "[]" ?s2] cw obtain qsW where
    sW: "sW = ?s2\<lparr>pendingPatches := pendingPatches ?s2 @ qsW\<rparr>" and pW: "positionPatches qsW"
    by auto
  have w: "warningsReportedByProcessors ?m2 = Inr (map snd rw, ?m2\<lparr>state := Some sW\<rparr>)"
    using cw by (simp add: warningsReportedByProcessors_def)
  let ?s3 = "PatchInfo (lastWarning_patch (map snd rw)) sW"
  let ?m3 = "?m2\<lparr>state := Some ?s3\<rparr>"
  have r: "Tick_reports bo cf clock ?m0 = Inr ?m3"
    using h w by (simp add: Tick_reports_def e handleWarning_def onState_def)
  have sw: "Tick_switch bo cf clock ?m0 = Tick_reports bo cf clock ?m0"
    using assms(1,3) by (auto simp: Tick_switch_def)
  let ?qs = "qsW @ [InfoPatch (lastWarning_patch (map snd rw))]
             @ deferredPatches False (TaskPositions s)"
  let ?new = "qsE @ InfoPatch (setError_patch err) # patchesTo StateFailed @ ?qs"
  let ?m4 = "?m3\<lparr>state := Some (s\<lparr>pendingPatches := pendingPatches s @ ?new\<rparr>)\<rparr>"
  have tp: "TaskPositions ?s3 = TaskPositions s"
    using sE sW by (simp add: PatchInfo_def)
  have t: "Tick bo cf clock s m = Inr (False, ?m4)"
    using tp sE sW
    by (simp add: Tick_not_handled [OF assms(1,2)] sw r Tick_deferred_Some PatchInfo_def)
  have kq: "keepsStateAndError ?qs"
  proof -
    have "positionPatches (deferredPatches False (TaskPositions s))"
      by (simp add: deferredPatches_def positionPatches_def list_all_iff)
    then show ?thesis
      using pW by (intro keepsStateAndError_append keepsStateAndError_position
          keepsStateAndError_lastWarning)
  qed
  have a: "\<forall>pdClient r i0. Info r = Some i0 \<longrightarrow>
      (\<exists>flags r1 i1. applyPatches pdClient ?new r = Inr (flags, r1)
         \<and> Info r1 = Some i1 \<and> State i1 = StateFailed \<and> Error i1 = Some err)"
    using applyPatches_error_then_state [OF keepsStateAndError_position [OF pE] kq]
    by blast
  have f: "shouldBeRunning ?m4 = False
      \<and> state ?m4 = Some (s\<lparr>pendingPatches := pendingPatches s @ ?new\<rparr>)"
    by simp
  from t f a show ?thesis by blast
qed

text \<open>
  A tick does not hand every batch to the error handler. A feed in \<open>StateStopped\<close>
  whose only processor reports an error with a fast-fail code: the tick returns at the
  switch on the state, and after the persistence of its patches the feed is still in
  \<open>StateStopped\<close> with no error in the info; only the task position is gone. A feed in
  \<open>StateError\<close> whose info holds an unretryable error, with the same report: the tick
  patches \<open>StateFailed\<close> at the switch, and the error of the info stays the unretryable
  one, not the reported one. A feed in \<open>StateError\<close> whose info holds no error, with
  the same report: the tick panics at the switch, where it reads the error of the info.
\<close>

theorem fastFail_short_circuit_counterexample:
  "find (\<lambda>err. IsChangefeedFastFailErrorCode exampleClassifier (Code err))
     (reportedErrors (exampleState (exampleInfo StateStopped)
        [(''capture-1'', \<lparr>PosError = Some (exampleError ''CDC:ErrGCTTLExceeded''),
                         PosWarning = None\<rparr>)]))
     = Some (exampleError ''CDC:ErrGCTTLExceeded'')
   \<and> \<not> isl (tickAndPersist exampleBackOff exampleClassifier \<lparr>timeNow = 100, timeSinceNow = 101\<rparr>
       examplePD
       (exampleState (exampleInfo StateStopped)
          [(''capture-1'', \<lparr>PosError = Some (exampleError ''CDC:ErrGCTTLExceeded''),
                           PosWarning = None\<rparr>)])
       exampleManager)
   \<and> snd (snd (projr (tickAndPersist exampleBackOff exampleClassifier
       \<lparr>timeNow = 100, timeSinceNow = 101\<rparr> examplePD
       (exampleState (exampleInfo StateStopped)
          [(''capture-1'', \<lparr>PosError = Some (exampleError ''CDC:ErrGCTTLExceeded''),
                           PosWarning = None\<rparr>)])
       exampleManager)))
     = exampleState (exampleInfo StateStopped) []
   \<and> State (exampleInfo StateStopped) = StateStopped
   \<and> Error (exampleInfo StateStopped) = None
   \<and> find (\<lambda>err. IsChangefeedFastFailErrorCode exampleClassifier (Code err))
       (reportedErrors (exampleState
          ((exampleInfo StateError)
             \<lparr>Error := Some (exampleError ''CDC:ErrExpressionColumnNotFound'')\<rparr>)
          [(''capture-1'', \<lparr>PosError = Some (exampleError ''CDC:ErrGCTTLExceeded''),
                           PosWarning = None\<rparr>)]))
       = Some (exampleError ''CDC:ErrGCTTLExceeded'')
   \<and> map_option (\<lambda>info. (State info, Error info))
       (Info (snd (snd (projr (tickAndPersist exampleBackOff exampleClassifier
          \<lparr>timeNow = 100, timeSinceNow = 101\<rparr> examplePD
          (exampleState
             ((exampleInfo StateError)
                \<lparr>Error := Some (exampleError ''CDC:ErrExpressionColumnNotFound'')\<rparr>)
             [(''capture-1'', \<lparr>PosError = Some (exampleError ''CDC:ErrGCTTLExceeded''),
                              PosWarning = None\<rparr>)])
          exampleManager)))))
       = Some (StateFailed, Some (exampleError ''CDC:ErrExpressionColumnNotFound''))
   \<and> Tick exampleBackOff exampleClassifier \<lparr>timeNow = 100, timeSinceNow = 101\<rparr>
       (exampleState (exampleInfo StateError)
          [(''capture-1'', \<lparr>PosError = Some (exampleError ''CDC:ErrGCTTLExceeded''),
                           PosWarning = None\<rparr>)])
       exampleManager
       = Inl NilDereference"
  by (simp add: tickAndPersist_def manager_defs patch_defs example_defs jobHandled_def
      reportedErrors_def)

text \<open>
  C1, amended: let the errors reported by the processors hold an error with a fast-fail
  code, and take the first such error. Whatever the state of the feed, the handler, once
  it is given this batch, sets should-run to false and enqueues the closure that writes
  this error and the closures of \<open>patchState StateFailed\<close>, nothing else; applied to an
  info in any state they give \<open>StateFailed\<close> with this error. A tick that handles no
  admin job returns false with should-run false, and
  \<^item> from \<open>StateNormal\<close>, \<open>StateWarning\<close> and \<open>StateError\<close> with a retryable error
    it hands the batch to the handler: all its closures together give \<open>StateFailed\<close>
    with this error, no other error of the batch is written;
  \<^item> from \<open>StateStopped\<close>, \<open>StateFailed\<close> and \<open>StateFinished\<close> it returns before
    the handler: it enqueues the removal of the task positions only, which leaves the
    info and the status as they are;
  \<^item> from \<open>StateError\<close> with an unretryable error in the info it returns before the
    handler: it enqueues the closures of \<open>patchState StateFailed\<close> and the removal of
    the task positions, which give \<open>StateFailed\<close> and keep the error of the info.
\<close>

theorem fastFail_short_circuit:
  assumes "\<exists>err \<in> set errs. IsChangefeedFastFailErrorCode cf (Code err)"
  shows "\<exists>err. find (\<lambda>err. IsChangefeedFastFailErrorCode cf (Code err)) errs = Some err
    \<and> (\<forall>m s. state m = Some s \<longrightarrow>
          handleError bo cf clock errs m =
            Inr (m\<lparr>state := Some (s\<lparr>pendingPatches := pendingPatches s
                     @ InfoPatch (setError_patch err) # patchesTo StateFailed\<rparr>),
                   shouldBeRunning := False\<rparr>))
    \<and> (\<forall>pdClient r i. Info r = Some i \<longrightarrow>
          (\<exists>flags r1 i1.
             applyPatches pdClient (InfoPatch (setError_patch err) # patchesTo StateFailed) r
               = Inr (flags, r1)
             \<and> Info r1 = Some i1 \<and> State i1 = StateFailed \<and> Error i1 = Some err))
    \<and> (\<forall>m s i. reportedErrors s = errs \<and> Info s = Some i \<and> \<not> jobHandled m s
          \<and> (State i = StateNormal \<or> State i = StateWarning
              \<or> (State i = StateError
                  \<and> (\<exists>e0. Error i = Some e0 \<and> \<not> IsChangefeedUnRetryableError cf e0))) \<longrightarrow>
          (\<exists>m1 new.
             Tick bo cf clock s m = Inr (False, m1)
             \<and> shouldBeRunning m1 = False
             \<and> state m1 = Some (s\<lparr>pendingPatches := pendingPatches s @ new\<rparr>)
             \<and> (\<forall>pdClient r i0. Info r = Some i0 \<longrightarrow>
                   (\<exists>flags r1 i1. applyPatches pdClient new r = Inr (flags, r1)
                      \<and> Info r1 = Some i1 \<and> State i1 = StateFailed
                      \<and> Error i1 = Some err))))
    \<and> (\<forall>m s i. reportedErrors s = errs \<and> Info s = Some i \<and> \<not> jobHandled m s
          \<and> (State i = StateStopped \<or> State i = StateFailed \<or> State i = StateFinished) \<longrightarrow>
          (\<exists>m1.
             Tick bo cf clock s m = Inr (False, m1)
             \<and> shouldBeRunning m1 = False
             \<and> state m1 = Some (s\<lparr>pendingPatches := pendingPatches s
                   @ deferredPatches False (TaskPositions s)\<rparr>)
             \<and> (\<forall>pdClient r. \<exists>flags r1.
                   applyPatches pdClient (deferredPatches False (TaskPositions s)) r
                     = Inr (flags, r1)
                   \<and> Info r1 = Info r \<and> Status r1 = Status r)))
    \<and> (\<forall>m s i e0. reportedErrors s = errs \<and> Info s = Some i \<and> \<not> jobHandled m s
          \<and> State i = StateError \<and> Error i = Some e0 \<and> IsChangefeedUnRetryableError cf e0 \<longrightarrow>
          (\<exists>m1.
             Tick bo cf clock s m = Inr (False, m1)
             \<and> shouldBeRunning m1 = False
             \<and> state m1 = Some (s\<lparr>pendingPatches := pendingPatches s
                   @ patchesTo StateFailed @ deferredPatches False (TaskPositions s)\<rparr>)
             \<and> (\<forall>pdClient r. Info r = Some i \<longrightarrow>
                   (\<exists>flags r1 i1.
                      applyPatches pdClient
                        (patchesTo StateFailed @ deferredPatches False (TaskPositions s)) r
                        = Inr (flags, r1)
                      \<and> Info r1 = Some i1 \<and> State i1 = StateFailed
                      \<and> Error i1 = Some e0))))"
proof -
  from assms obtain err where f: "find (\<lambda>err. IsChangefeedFastFailErrorCode cf (Code err)) errs = Some err"
    by (cases "find (\<lambda>err. IsChangefeedFastFailErrorCode cf (Code err)) errs")
      (auto simp: find_None_iff)
  then have mem: "err \<in> set errs" and ff: "IsChangefeedFastFailErrorCode cf (Code err)"
    by (auto simp: find_Some_iff)
  have h: "\<forall>m s. state m = Some s \<longrightarrow>
      handleError bo cf clock errs m =
        Inr (m\<lparr>state := Some (s\<lparr>pendingPatches := pendingPatches s
                 @ InfoPatch (setError_patch err) # patchesTo StateFailed\<rparr>),
               shouldBeRunning := False\<rparr>)"
    using f by (simp add: handleError_fastFail)
  have k: "keepsStateAndError []" by (simp add: keepsStateAndError_def)
  have a: "\<forall>pdClient r i. Info r = Some i \<longrightarrow>
      (\<exists>flags r1 i1.
         applyPatches pdClient (InfoPatch (setError_patch err) # patchesTo StateFailed) r
           = Inr (flags, r1)
         \<and> Info r1 = Some i1 \<and> State i1 = StateFailed \<and> Error i1 = Some err)"
    using applyPatches_error_then_state [OF k k, of StateFailed _ _ _ err] by simp
  have t: "\<forall>m s i. reportedErrors s = errs \<and> Info s = Some i \<and> \<not> jobHandled m s
          \<and> (State i = StateNormal \<or> State i = StateWarning
              \<or> (State i = StateError
                  \<and> (\<exists>e0. Error i = Some e0 \<and> \<not> IsChangefeedUnRetryableError cf e0))) \<longrightarrow>
          (\<exists>m1 new.
             Tick bo cf clock s m = Inr (False, m1)
             \<and> shouldBeRunning m1 = False
             \<and> state m1 = Some (s\<lparr>pendingPatches := pendingPatches s @ new\<rparr>)
             \<and> (\<forall>pdClient r i0. Info r = Some i0 \<longrightarrow>
                   (\<exists>flags r1 i1. applyPatches pdClient new r = Inr (flags, r1)
                      \<and> Info r1 = Some i1 \<and> State i1 = StateFailed
                      \<and> Error i1 = Some err)))"
    using f Tick_fastFail [of _ _ _ cf err bo clock] by blast
  have stopped: "\<exists>m1.
        Tick bo cf clock s m = Inr (False, m1)
        \<and> shouldBeRunning m1 = False
        \<and> state m1 = Some (s\<lparr>pendingPatches := pendingPatches s
              @ deferredPatches False (TaskPositions s)\<rparr>)
        \<and> (\<forall>pdClient r. \<exists>flags r1.
              applyPatches pdClient (deferredPatches False (TaskPositions s)) r
                = Inr (flags, r1)
              \<and> Info r1 = Info r \<and> Status r1 = Status r)"
    if "Info s = Some i" "\<not> jobHandled m s"
      "State i = StateStopped \<or> State i = StateFailed \<or> State i = StateFinished"
    for m s i
  proof -
    have t1: "Tick bo cf clock s m =
           Inr (False, m\<lparr>shouldBeRunning := False,
                  shouldBeRemoved := (shouldBeRemoved m \<or> State i = StateRemoved),
                  adminJobQueue := tl (adminJobQueue m),
                  state := Some (s\<lparr>pendingPatches := pendingPatches s
                    @ deferredPatches False (TaskPositions s)\<rparr>)\<rparr>)"
      using that by (intro Tick_idle_halted) auto
    have "positionPatches (deferredPatches False (TaskPositions s))"
      by (simp add: deferredPatches_def positionPatches_def list_all_iff)
    then have p: "\<forall>pdClient r. \<exists>flags r1.
        applyPatches pdClient (deferredPatches False (TaskPositions s)) r = Inr (flags, r1)
        \<and> Info r1 = Info r \<and> Status r1 = Status r"
      using applyPatches_position by blast
    show ?thesis using t1 p by simp
  qed
  have unretry: "\<exists>m1.
        Tick bo cf clock s m = Inr (False, m1)
        \<and> shouldBeRunning m1 = False
        \<and> state m1 = Some (s\<lparr>pendingPatches := pendingPatches s
              @ patchesTo StateFailed @ deferredPatches False (TaskPositions s)\<rparr>)
        \<and> (\<forall>pdClient r. Info r = Some i \<longrightarrow>
              (\<exists>flags r1 i1.
                 applyPatches pdClient
                   (patchesTo StateFailed @ deferredPatches False (TaskPositions s)) r
                   = Inr (flags, r1)
                 \<and> Info r1 = Some i1 \<and> State i1 = StateFailed \<and> Error i1 = Some e0))"
    if "Info s = Some i" "\<not> jobHandled m s" "State i = StateError" "Error i = Some e0"
      "IsChangefeedUnRetryableError cf e0"
    for m s i e0
  proof -
    have t1: "Tick bo cf clock s m =
           Inr (False, m\<lparr>shouldBeRunning := False,
                  adminJobQueue := tl (adminJobQueue m),
                  state := Some (s\<lparr>pendingPatches := pendingPatches s
                    @ patchesTo StateFailed @ deferredPatches False (TaskPositions s)\<rparr>)\<rparr>)"
      using that by (rule Tick_idle_unretryable)
    have p: "\<forall>pdClient r. Info r = Some i \<longrightarrow>
        (\<exists>flags r1 i1.
           applyPatches pdClient
             (patchesTo StateFailed @ deferredPatches False (TaskPositions s)) r
             = Inr (flags, r1)
           \<and> Info r1 = Some i1 \<and> State i1 = StateFailed \<and> Error i1 = Some e0)"
      using applyPatches_failed_then_cleanUp that(4) by fastforce
    show ?thesis using t1 p by simp
  qed
  have s3: "\<forall>m s i. reportedErrors s = errs \<and> Info s = Some i \<and> \<not> jobHandled m s
          \<and> (State i = StateStopped \<or> State i = StateFailed \<or> State i = StateFinished) \<longrightarrow>
          (\<exists>m1.
             Tick bo cf clock s m = Inr (False, m1)
             \<and> shouldBeRunning m1 = False
             \<and> state m1 = Some (s\<lparr>pendingPatches := pendingPatches s
                   @ deferredPatches False (TaskPositions s)\<rparr>)
             \<and> (\<forall>pdClient r. \<exists>flags r1.
                   applyPatches pdClient (deferredPatches False (TaskPositions s)) r
                     = Inr (flags, r1)
                   \<and> Info r1 = Info r \<and> Status r1 = Status r))"
    using stopped by blast
  have s4: "\<forall>m s i e0. reportedErrors s = errs \<and> Info s = Some i \<and> \<not> jobHandled m s
          \<and> State i = StateError \<and> Error i = Some e0 \<and> IsChangefeedUnRetryableError cf e0 \<longrightarrow>
          (\<exists>m1.
             Tick bo cf clock s m = Inr (False, m1)
             \<and> shouldBeRunning m1 = False
             \<and> state m1 = Some (s\<lparr>pendingPatches := pendingPatches s
                   @ patchesTo StateFailed @ deferredPatches False (TaskPositions s)\<rparr>)
             \<and> (\<forall>pdClient r. Info r = Some i \<longrightarrow>
                   (\<exists>flags r1 i1.
                      applyPatches pdClient
                        (patchesTo StateFailed @ deferredPatches False (TaskPositions s)) r
                        = Inr (flags, r1)
                      \<and> Info r1 = Some i1 \<and> State i1 = StateFailed
                      \<and> Error i1 = Some e0)))"
    using unretry by blast
  show ?thesis
    by (rule exI [of _ err]) (intro conjI f h a t s3 s4)
qed

theorem fastFail_short_circuit_witness:
  "shouldBeRunning (projr (handleError exampleBackOff exampleClassifier
      \<lparr>timeNow = 100, timeSinceNow = 101\<rparr>
      [exampleError ''E1'', exampleError ''CDC:ErrGCTTLExceeded'']
      (exampleManager\<lparr>state := Some (exampleState (exampleInfo StateStopped) [])\<rparr>))) = False
   \<and> fst (projr (Tick exampleBackOff exampleClassifier \<lparr>timeNow = 100, timeSinceNow = 101\<rparr>
        (exampleState (exampleInfo StateNormal)
           [(''capture-1'', \<lparr>PosError = Some (exampleError ''E1''), PosWarning = None\<rparr>),
            (''capture-2'', \<lparr>PosError = Some (exampleError ''CDC:ErrGCTTLExceeded''),
                            PosWarning = None\<rparr>)])
        exampleManager)) = False
   \<and> shouldBeRunning (snd (projr (Tick exampleBackOff exampleClassifier
        \<lparr>timeNow = 100, timeSinceNow = 101\<rparr>
        (exampleState (exampleInfo StateNormal)
           [(''capture-1'', \<lparr>PosError = Some (exampleError ''E1''), PosWarning = None\<rparr>),
            (''capture-2'', \<lparr>PosError = Some (exampleError ''CDC:ErrGCTTLExceeded''),
                            PosWarning = None\<rparr>)])
        exampleManager))) = False
   \<and> fst (projr (Tick exampleBackOff exampleClassifier \<lparr>timeNow = 100, timeSinceNow = 101\<rparr>
        (exampleState (exampleInfo StateStopped)
           [(''capture-1'', \<lparr>PosError = Some (exampleError ''E1''), PosWarning = None\<rparr>),
            (''capture-2'', \<lparr>PosError = Some (exampleError ''CDC:ErrGCTTLExceeded''),
                            PosWarning = None\<rparr>)])
        exampleManager)) = False
   \<and> fst (projr (Tick exampleBackOff exampleClassifier \<lparr>timeNow = 100, timeSinceNow = 101\<rparr>
        (exampleState ((exampleInfo StateError)
              \<lparr>Error := Some (exampleError ''CDC:ErrExpressionColumnNotFound'')\<rparr>)
           [(''capture-1'', \<lparr>PosError = Some (exampleError ''E1''), PosWarning = None\<rparr>),
            (''capture-2'', \<lparr>PosError = Some (exampleError ''CDC:ErrGCTTLExceeded''),
                            PosWarning = None\<rparr>)])
        exampleManager)) = False"
proof -
  let ?errs = "[exampleError ''E1'', exampleError ''CDC:ErrGCTTLExceeded'']"
  let ?st = "exampleState (exampleInfo StateStopped) []"
  let ?positions = "[(''capture-1'', \<lparr>PosError = Some (exampleError ''E1''), PosWarning = None\<rparr>),
            (''capture-2'', \<lparr>PosError = Some (exampleError ''CDC:ErrGCTTLExceeded''),
                            PosWarning = None\<rparr>)]"
  let ?s = "exampleState (exampleInfo StateNormal) ?positions"
  let ?h = "exampleState (exampleInfo StateStopped) ?positions"
  let ?iu = "(exampleInfo StateError)\<lparr>Error := Some (exampleError ''CDC:ErrExpressionColumnNotFound'')\<rparr>"
  let ?u = "exampleState ?iu ?positions"
  let ?clock = "\<lparr>timeNow = 100, timeSinceNow = 101\<rparr>"
  have 1: "\<exists>err \<in> set ?errs. IsChangefeedFastFailErrorCode exampleClassifier (Code err)"
    by (simp add: exampleClassifier_def exampleError_def)
  have 2: "state (exampleManager\<lparr>state := Some ?st\<rparr>) = Some ?st" by simp
  have 3: "reportedErrors ?s = ?errs \<and> Info ?s = Some (exampleInfo StateNormal)
      \<and> \<not> jobHandled exampleManager ?s
      \<and> (State (exampleInfo StateNormal) = StateNormal \<or> State (exampleInfo StateNormal) = StateWarning
          \<or> (State (exampleInfo StateNormal) = StateError
              \<and> (\<exists>e0. Error (exampleInfo StateNormal) = Some e0
                    \<and> \<not> IsChangefeedUnRetryableError exampleClassifier e0)))"
    by (simp add: reportedErrors_def exampleState_def exampleError_def exampleInfo_def
        jobHandled_def exampleManager_def PatchTaskPosition_def)
  have 4: "reportedErrors ?h = ?errs \<and> Info ?h = Some (exampleInfo StateStopped)
      \<and> \<not> jobHandled exampleManager ?h
      \<and> (State (exampleInfo StateStopped) = StateStopped
          \<or> State (exampleInfo StateStopped) = StateFailed
          \<or> State (exampleInfo StateStopped) = StateFinished)"
    by (simp add: reportedErrors_def exampleState_def exampleError_def exampleInfo_def
        jobHandled_def exampleManager_def PatchTaskPosition_def)
  have 5: "reportedErrors ?u = ?errs \<and> Info ?u = Some ?iu
      \<and> \<not> jobHandled exampleManager ?u
      \<and> State ?iu = StateError
      \<and> Error ?iu = Some (exampleError ''CDC:ErrExpressionColumnNotFound'')
      \<and> IsChangefeedUnRetryableError exampleClassifier
            (exampleError ''CDC:ErrExpressionColumnNotFound'')"
    by (simp add: reportedErrors_def exampleState_def exampleError_def exampleInfo_def
        jobHandled_def exampleManager_def PatchTaskPosition_def exampleClassifier_def)
  from fastFail_short_circuit [OF 1, of exampleBackOff ?clock]
  obtain err where
    h: "\<forall>m s. state m = Some s \<longrightarrow>
          handleError exampleBackOff exampleClassifier ?clock ?errs m =
            Inr (m\<lparr>state := Some (s\<lparr>pendingPatches := pendingPatches s
                     @ InfoPatch (setError_patch err) # patchesTo StateFailed\<rparr>),
                   shouldBeRunning := False\<rparr>)"
    and t: "\<forall>m s i. reportedErrors s = ?errs \<and> Info s = Some i \<and> \<not> jobHandled m s
          \<and> (State i = StateNormal \<or> State i = StateWarning
              \<or> (State i = StateError
                  \<and> (\<exists>e0. Error i = Some e0 \<and> \<not> IsChangefeedUnRetryableError exampleClassifier e0))) \<longrightarrow>
          (\<exists>m1 new.
             Tick exampleBackOff exampleClassifier ?clock s m = Inr (False, m1)
             \<and> shouldBeRunning m1 = False
             \<and> state m1 = Some (s\<lparr>pendingPatches := pendingPatches s @ new\<rparr>)
             \<and> (\<forall>pdClient r i0. Info r = Some i0 \<longrightarrow>
                   (\<exists>flags r1 i1. applyPatches pdClient new r = Inr (flags, r1)
                      \<and> Info r1 = Some i1 \<and> State i1 = StateFailed
                      \<and> Error i1 = Some err)))"
    and s3: "\<forall>m s i. reportedErrors s = ?errs \<and> Info s = Some i \<and> \<not> jobHandled m s
          \<and> (State i = StateStopped \<or> State i = StateFailed \<or> State i = StateFinished) \<longrightarrow>
          (\<exists>m1.
             Tick exampleBackOff exampleClassifier ?clock s m = Inr (False, m1)
             \<and> shouldBeRunning m1 = False
             \<and> state m1 = Some (s\<lparr>pendingPatches := pendingPatches s
                   @ deferredPatches False (TaskPositions s)\<rparr>)
             \<and> (\<forall>pdClient r. \<exists>flags r1.
                   applyPatches pdClient (deferredPatches False (TaskPositions s)) r
                     = Inr (flags, r1)
                   \<and> Info r1 = Info r \<and> Status r1 = Status r))"
    and s4: "\<forall>m s i e0. reportedErrors s = ?errs \<and> Info s = Some i \<and> \<not> jobHandled m s
          \<and> State i = StateError \<and> Error i = Some e0
          \<and> IsChangefeedUnRetryableError exampleClassifier e0 \<longrightarrow>
          (\<exists>m1.
             Tick exampleBackOff exampleClassifier ?clock s m = Inr (False, m1)
             \<and> shouldBeRunning m1 = False
             \<and> state m1 = Some (s\<lparr>pendingPatches := pendingPatches s
                   @ patchesTo StateFailed @ deferredPatches False (TaskPositions s)\<rparr>)
             \<and> (\<forall>pdClient r. Info r = Some i \<longrightarrow>
                   (\<exists>flags r1 i1.
                      applyPatches pdClient
                        (patchesTo StateFailed @ deferredPatches False (TaskPositions s)) r
                        = Inr (flags, r1)
                      \<and> Info r1 = Some i1 \<and> State i1 = StateFailed
                      \<and> Error i1 = Some e0)))"
    by (elim exE conjE)
  from h 2 have a: "shouldBeRunning (projr (handleError exampleBackOff exampleClassifier ?clock ?errs
      (exampleManager\<lparr>state := Some ?st\<rparr>))) = False"
    by simp
  from t [rule_format, of ?s "exampleInfo StateNormal" exampleManager] 3
  obtain m1 where b: "Tick exampleBackOff exampleClassifier ?clock ?s exampleManager = Inr (False, m1)"
    "shouldBeRunning m1 = False"
    by blast
  from s3 [rule_format, of ?h "exampleInfo StateStopped" exampleManager] 4
  obtain m2 where c: "Tick exampleBackOff exampleClassifier ?clock ?h exampleManager = Inr (False, m2)"
    by blast
  from s4 [rule_format, of ?u ?iu exampleManager "exampleError ''CDC:ErrExpressionColumnNotFound''"] 5
  obtain m3 where d: "Tick exampleBackOff exampleClassifier ?clock ?u exampleManager = Inr (False, m3)"
    by blast
  from a b c d show ?thesis by simp
qed

subsection \<open>Resume without a status\<close>

text \<open>
  C3: a Resume job with the checkpoint to overwrite at 42 is handled from
  \<open>StateFailed\<close> while the status of the feed is nil. The status closure of the job
  reads the old checkpoint of the status before it builds the new one, so it panics on
  the nil status, and the persistence of the patches of the tick stops there: the
  status never gets the timestamp. The status closure of \<open>patchState\<close> and the info
  closure of the same job return on nil.
\<close>

theorem resume_nil_status_panics:
  "resume_status_patch \<lparr>CfID = exampleID, Type = AdminResume, OverwriteCheckpointTs = 42\<rparr> None
     = Inl NilDereference
   \<and> tickAndPersist exampleBackOff exampleClassifier \<lparr>timeNow = 100, timeSinceNow = 101\<rparr> examplePD
       ((exampleState (exampleInfo StateFailed) [])\<lparr>Status := None\<rparr>)
       (exampleManager\<lparr>adminJobQueue :=
          [\<lparr>CfID = exampleID, Type = AdminResume, OverwriteCheckpointTs = 42\<rparr>]\<rparr>)
     = Inl (PersistError (ClosurePanic NilDereference))
   \<and> patchState_status AdminNone None = Inr (None, False, None)
   \<and> resume_info_patch \<lparr>CfID = exampleID, Type = AdminResume, OverwriteCheckpointTs = 42\<rparr>
       examplePD None = Inr (None, False, None)"
  by (simp add: tickAndPersist_def manager_defs patch_defs example_defs jobPermitted_def
      resume_status_patch_def resume_info_patch_def)

subsection \<open>The queue of admin jobs after the switch\<close>

lemma onState_queue: "onState f m = Inr m1 \<Longrightarrow> adminJobQueue m1 = adminJobQueue m"
  by (auto simp: onState_def split: option.splits)

lemma patchState_queue: "patchState feedState m = Inr m1 \<Longrightarrow> adminJobQueue m1 = adminJobQueue m"
  by (auto simp: patchState_def andThen_eq_Inr split: option.splits dest!: onState_queue)

lemma cleanUpInfos_queue: "cleanUpInfos m = Inr m1 \<Longrightarrow> adminJobQueue m1 = adminJobQueue m"
  unfolding cleanUpInfos_def by (rule onState_queue)

lemma Tick_deferred_queue: "Tick_deferred m = Inr m1 \<Longrightarrow> adminJobQueue m1 = adminJobQueue m"
  by (auto simp: Tick_deferred_def split: if_splits dest: patchState_queue cleanUpInfos_queue)

lemma errorsReportedByProcessors_queue:
  "errorsReportedByProcessors m = Inr (errs, m1) \<Longrightarrow> adminJobQueue m1 = adminJobQueue m"
  by (auto simp: errorsReportedByProcessors_def split: option.splits prod.splits)

lemma warningsReportedByProcessors_queue:
  "warningsReportedByProcessors m = Inr (errs, m1) \<Longrightarrow> adminJobQueue m1 = adminJobQueue m"
  by (auto simp: warningsReportedByProcessors_def split: option.splits prod.splits)

lemma handleError_window_queue:
  "handleError_window bo clock errs m = Inr m1 \<Longrightarrow> adminJobQueue m1 = adminJobQueue m"
  by (auto simp: handleError_window_def Let_def split: option.splits if_splits)

lemma handleError_gate_queue:
  "handleError_gate bo clock m = Inr m1 \<Longrightarrow> adminJobQueue m1 = adminJobQueue m"
  by (auto simp: handleError_gate_def Let_def split: if_splits prod.splits dest!: patchState_queue)

lemma handleError_queue:
  "handleError bo cf clock errs m = Inr m1 \<Longrightarrow> adminJobQueue m1 = adminJobQueue m"
  by (auto simp: handleError_def andThen_eq_Inr split: option.splits if_splits
      dest!: onState_queue handleError_window_queue handleError_gate_queue patchState_queue)

lemma handleWarning_queue:
  "handleWarning errs m = Inr m1 \<Longrightarrow> adminJobQueue m1 = adminJobQueue m"
  unfolding handleWarning_def by (rule onState_queue)

lemma Tick_reports_queue:
  "Tick_reports bo cf clock m = Inr m1 \<Longrightarrow> adminJobQueue m1 = adminJobQueue m"
  by (auto simp: Tick_reports_def andThen_eq_Inr
      dest!: errorsReportedByProcessors_queue warningsReportedByProcessors_queue
        handleError_queue handleWarning_queue)

lemma Tick_switch_queue:
  "Tick_switch bo cf clock m = Inr m1 \<Longrightarrow> adminJobQueue m1 = adminJobQueue m"
  by (auto simp: Tick_switch_def split: option.splits if_splits
      dest!: patchState_queue Tick_reports_queue)

subsection \<open>The switch returns when the info is there\<close>

lemma handleError_gate_returns:
  assumes "state m = Some s"
  shows "\<exists>m1 s1. handleError_gate bo clock m = Inr m1 \<and> state m1 = Some s1
           \<and> Info s1 = Info s \<and> TaskPositions s1 = TaskPositions s"
  using assms
  by (cases "NextBackOff bo (errBackoff m)")
    (auto simp: handleError_gate_def patchState_patchesTo Let_def)

lemma handleError_returns:
  assumes "state m = Some s" "Info s = Some i"
  shows "\<exists>m1 s1. handleError bo cf clock errs m = Inr m1 \<and> state m1 = Some s1
           \<and> Info s1 = Info s \<and> TaskPositions s1 = TaskPositions s"
proof (cases "find (\<lambda>err. IsChangefeedFastFailErrorCode cf (Code err)) errs")
  case (Some err)
  then show ?thesis
    using assms by (simp add: handleError_def onState_def patchState_patchesTo PatchInfo_def)
next
  case None
  show ?thesis
  proof (cases "State i = StateStopped")
    case True
    with None assms show ?thesis by (simp add: handleError_def isStopped_def)
  next
    case False
    show ?thesis
    proof (cases "find (IsChangefeedUnRetryableError cf) errs")
      case (Some err)
      with None False assms show ?thesis
        by (simp add: handleError_def isStopped_def onState_def patchState_patchesTo PatchInfo_def)
    next
      case un: None
      let ?s1 = "PatchInfo (lastError_patch errs) s"
      obtain mw where w: "handleError_window bo clock errs (m\<lparr>state := Some ?s1\<rparr>) = Inr mw"
        and sw: "state mw = Some ?s1"
        using assms(2)
        by (auto simp: handleError_window_def PatchInfo_def Let_def)
      from handleError_gate_returns [OF sw, of bo clock] obtain m1 s1 where
        "handleError_gate bo clock mw = Inr m1" "state m1 = Some s1"
        "Info s1 = Info ?s1" "TaskPositions s1 = TaskPositions ?s1"
        by blast
      then show ?thesis
        using None False un assms w
        by (simp add: handleError_def isStopped_def onState_def PatchInfo_def)
    qed
  qed
qed

lemma Tick_reports_returns:
  assumes "state m = Some s" "Info s = Some i"
  shows "\<exists>m1 s1. Tick_reports bo cf clock m = Inr m1 \<and> state m1 = Some s1"
proof -
  obtain re sE where ce: "collectErrors (TaskPositions s) [] s = (re, sE)"
    by (cases "collectErrors (TaskPositions s) [] s")
  have iE: "Info sE = Some i"
    using collectErrors_fields(2) [of "TaskPositions s" "[]" s] ce assms(2) by simp
  have e: "errorsReportedByProcessors m = Inr (map snd re, m\<lparr>state := Some sE\<rparr>)"
    using ce assms(1) by (simp add: errorsReportedByProcessors_def)
  have "state (m\<lparr>state := Some sE\<rparr>) = Some sE" by simp
  from handleError_returns [OF this iE, of bo cf clock "map snd re"] obtain m2 s2 where
    h: "handleError bo cf clock (map snd re) (m\<lparr>state := Some sE\<rparr>) = Inr m2"
    and s2: "state m2 = Some s2"
    by blast
  obtain rw sW where cw: "collectWarnings (TaskPositions s2) [] s2 = (rw, sW)"
    by (cases "collectWarnings (TaskPositions s2) [] s2")
  have w: "warningsReportedByProcessors m2 = Inr (map snd rw, m2\<lparr>state := Some sW\<rparr>)"
    using cw s2 by (simp add: warningsReportedByProcessors_def)
  show ?thesis
    by (simp add: Tick_reports_def e h w handleWarning_def onState_def)
qed

lemma Tick_switch_returns:
  assumes "state m = Some s" "Info s = Some i" "State i = StateError \<longrightarrow> Error i \<noteq> None"
  shows "\<exists>m1 s1. Tick_switch bo cf clock m = Inr m1 \<and> state m1 = Some s1"
  using assms Tick_reports_returns [OF assms(1,2), of bo cf clock]
  by (auto simp: Tick_switch_def patchState_patchesTo)

lemma Tick_returns_false:
  assumes "Info s = Some i" "\<not> jobHandled m s" "State i = StateError \<longrightarrow> Error i \<noteq> None"
  shows "\<exists>m1. Tick bo cf clock s m = Inr (False, m1)"
proof -
  let ?m0 = "m\<lparr>state := Some s, shouldBeRunning := True, adminJobQueue := tl (adminJobQueue m)\<rparr>"
  have "state ?m0 = Some s" by simp
  from Tick_switch_returns [OF this assms(1,3), of bo cf clock] obtain m1 s1 where
    a: "Tick_switch bo cf clock ?m0 = Inr m1" and b: "state m1 = Some s1"
    by blast
  show ?thesis
    by (simp add: Tick_not_handled [OF assms(1,2)] a Tick_deferred_Some [OF b])
qed

lemma Tick_rejected_job:
  assumes "Info s = Some i" "\<not> jobHandled m s" "Tick bo cf clock s m = Inr (pending, m1)"
  shows "pending = False \<and> adminJobQueue m1 = tl (adminJobQueue m)"
proof -
  let ?m0 = "m\<lparr>state := Some s, shouldBeRunning := True, adminJobQueue := tl (adminJobQueue m)\<rparr>"
  from assms(3) obtain ma where a: "Tick_switch bo cf clock ?m0 = Inr ma"
    and b: "Tick_deferred ma = Inr m1" and c: "pending = False"
    by (auto simp: Tick_not_handled [OF assms(1,2)] andThen_eq_Inr)
  from Tick_switch_queue [OF a] Tick_deferred_queue [OF b] c show ?thesis by simp
qed

text \<open>
  C4, amended: \<open>Tick\<close> returns true exactly when the job at the head of the queue is
  addressed to this changefeed and permitted in the state of the feed. In such a tick no
  report is handled: the window of states is not shifted, and the outcome is the same for
  every classifier, every clock and whatever the task positions report. Any other job at
  the head of the queue is taken off the queue all the same; the tick then goes on with
  the switch on the state and the handling of the reports, its result is never true, and
  it returns false unless the feed is in \<open>StateError\<close> with no error in the info, which
  the switch dereferences.
\<close>

theorem admin_job_exclusive:
  assumes "Info s = Some i"
  shows "((\<exists>m1. Tick bo cf clock s m = Inr (True, m1)) = jobHandled m s)
    \<and> (jobHandled m s \<longrightarrow>
         (\<exists>m1. Tick bo cf clock s m = Inr (True, m1)
            \<and> stateHistory m1 = stateHistory m
            \<and> (\<forall>cf' clock' positions'.
                  map fst positions' = map fst (TaskPositions s) \<longrightarrow>
                  Tick bo cf' clock' (s\<lparr>TaskPositions := positions'\<rparr>) m =
                    Inr (True, m1\<lparr>state :=
                      map_option (\<lambda>s1. s1\<lparr>TaskPositions := positions'\<rparr>) (state m1)\<rparr>))))
    \<and> (\<not> jobHandled m s \<longrightarrow>
         Tick bo cf clock s m =
           andThen (Tick_switch bo cf clock
                      (m\<lparr>state := Some s, shouldBeRunning := True,
                         adminJobQueue := tl (adminJobQueue m)\<rparr>))
             (\<lambda>m1. andThen (Tick_deferred m1) (\<lambda>m2. Inr (False, m2)))
         \<and> (\<forall>pending m1. Tick bo cf clock s m = Inr (pending, m1) \<longrightarrow>
               pending = False \<and> adminJobQueue m1 = tl (adminJobQueue m))
         \<and> ((State i = StateError \<longrightarrow> Error i \<noteq> None) \<longrightarrow>
              (\<exists>m1. Tick bo cf clock s m = Inr (False, m1))))"
proof -
  have h: "\<exists>m1. Tick bo cf clock s m = Inr (True, m1)
            \<and> stateHistory m1 = stateHistory m
            \<and> (\<forall>cf' clock' positions'.
                  map fst positions' = map fst (TaskPositions s) \<longrightarrow>
                  Tick bo cf' clock' (s\<lparr>TaskPositions := positions'\<rparr>) m =
                    Inr (True, m1\<lparr>state :=
                      map_option (\<lambda>s1. s1\<lparr>TaskPositions := positions'\<rparr>) (state m1)\<rparr>))"
    if jh: "jobHandled m s"
  proof -
    from jh assms obtain job q where q: "adminJobQueue m = job # q"
      and c: "CfID job = StateID s" and p: "jobPermitted (Type job) (State i)"
      by (cases "adminJobQueue m") (auto simp: jobHandled_def)
    let ?e = "jobEffect bo job (m\<lparr>shouldBeRunning := True, adminJobQueue := q\<rparr>)"
    let ?m1 = "?e\<lparr>state := Some (s\<lparr>pendingPatches := pendingPatches s @ jobPatches job
                   @ deferredPatches (Type job = AdminResume) (TaskPositions s)\<rparr>)\<rparr>"
    have t: "Tick bo cf clock s m = Inr (True, ?m1)"
      using q c assms p by (rule Tick_handled)
    have t': "Tick bo cf' clock' (s\<lparr>TaskPositions := positions'\<rparr>) m =
        Inr (True, ?m1\<lparr>state := map_option (\<lambda>s1. s1\<lparr>TaskPositions := positions'\<rparr>) (state ?m1)\<rparr>)"
      if k: "map fst positions' = map fst (TaskPositions s)" for cf' clock' positions'
    proof -
      have "Tick bo cf' clock' (s\<lparr>TaskPositions := positions'\<rparr>) m =
          Inr (True, ?e
               \<lparr>state := Some (s\<lparr>TaskPositions := positions'\<rparr>\<lparr>pendingPatches :=
                   pendingPatches (s\<lparr>TaskPositions := positions'\<rparr>) @ jobPatches job
                   @ deferredPatches (Type job = AdminResume)
                       (TaskPositions (s\<lparr>TaskPositions := positions'\<rparr>))\<rparr>)\<rparr>)"
        using q c assms p by (intro Tick_handled) simp_all
      then show ?thesis
        using k by (simp add: deferredPatches_def)
    qed
    have w: "stateHistory ?m1 = stateHistory m" by simp
    from t w t' show ?thesis by blast
  qed
  have iff: "(\<exists>m1. Tick bo cf clock s m = Inr (True, m1)) = jobHandled m s"
    using h Tick_True_handled [OF assms] by blast
  have n: "Tick bo cf clock s m =
           andThen (Tick_switch bo cf clock
                      (m\<lparr>state := Some s, shouldBeRunning := True,
                         adminJobQueue := tl (adminJobQueue m)\<rparr>))
             (\<lambda>m1. andThen (Tick_deferred m1) (\<lambda>m2. Inr (False, m2)))
         \<and> (\<forall>pending m1. Tick bo cf clock s m = Inr (pending, m1) \<longrightarrow>
               pending = False \<and> adminJobQueue m1 = tl (adminJobQueue m))
         \<and> ((State i = StateError \<longrightarrow> Error i \<noteq> None) \<longrightarrow>
              (\<exists>m1. Tick bo cf clock s m = Inr (False, m1)))"
    if nh: "\<not> jobHandled m s"
    using Tick_not_handled [OF assms nh, of bo cf clock] Tick_rejected_job [OF assms nh, of bo cf clock]
      Tick_returns_false [OF assms nh, of bo cf clock]
    by blast
  from iff h n show ?thesis by blast
qed

theorem admin_job_exclusive_witness:
  "jobHandled
     (exampleManager\<lparr>adminJobQueue :=
        [\<lparr>CfID = exampleID, Type = AdminStop, OverwriteCheckpointTs = 0\<rparr>]\<rparr>)
     (exampleState (exampleInfo StateNormal)
        [(''capture-1'', \<lparr>PosError = Some (exampleError ''E1''), PosWarning = None\<rparr>)])
   \<and> fst (projr (Tick exampleBackOff exampleClassifier \<lparr>timeNow = 100, timeSinceNow = 101\<rparr>
      (exampleState (exampleInfo StateNormal)
         [(''capture-1'', \<lparr>PosError = Some (exampleError ''E1''), PosWarning = None\<rparr>)])
      (exampleManager\<lparr>adminJobQueue :=
         [\<lparr>CfID = exampleID, Type = AdminStop, OverwriteCheckpointTs = 0\<rparr>]\<rparr>))) = True
   \<and> stateHistory (snd (projr (Tick exampleBackOff exampleClassifier
      \<lparr>timeNow = 100, timeSinceNow = 101\<rparr>
      (exampleState (exampleInfo StateNormal)
         [(''capture-1'', \<lparr>PosError = Some (exampleError ''E1''), PosWarning = None\<rparr>)])
      (exampleManager\<lparr>adminJobQueue :=
         [\<lparr>CfID = exampleID, Type = AdminStop, OverwriteCheckpointTs = 0\<rparr>]\<rparr>))))
     = replicate defaultStateWindowSize StateNormal
   \<and> \<not> jobHandled
     (exampleManager\<lparr>adminJobQueue :=
        [\<lparr>CfID = exampleID, Type = AdminResume, OverwriteCheckpointTs = 0\<rparr>,
         \<lparr>CfID = exampleID, Type = AdminStop, OverwriteCheckpointTs = 0\<rparr>]\<rparr>)
     (exampleState (exampleInfo StateNormal)
        [(''capture-1'', \<lparr>PosError = Some (exampleError ''E1''), PosWarning = None\<rparr>)])
   \<and> fst (projr (Tick exampleBackOff exampleClassifier \<lparr>timeNow = 100, timeSinceNow = 101\<rparr>
      (exampleState (exampleInfo StateNormal)
         [(''capture-1'', \<lparr>PosError = Some (exampleError ''E1''), PosWarning = None\<rparr>)])
      (exampleManager\<lparr>adminJobQueue :=
        [\<lparr>CfID = exampleID, Type = AdminResume, OverwriteCheckpointTs = 0\<rparr>,
         \<lparr>CfID = exampleID, Type = AdminStop, OverwriteCheckpointTs = 0\<rparr>]\<rparr>))) = False
   \<and> adminJobQueue (snd (projr (Tick exampleBackOff exampleClassifier
      \<lparr>timeNow = 100, timeSinceNow = 101\<rparr>
      (exampleState (exampleInfo StateNormal)
         [(''capture-1'', \<lparr>PosError = Some (exampleError ''E1''), PosWarning = None\<rparr>)])
      (exampleManager\<lparr>adminJobQueue :=
        [\<lparr>CfID = exampleID, Type = AdminResume, OverwriteCheckpointTs = 0\<rparr>,
         \<lparr>CfID = exampleID, Type = AdminStop, OverwriteCheckpointTs = 0\<rparr>]\<rparr>))))
     = [\<lparr>CfID = exampleID, Type = AdminStop, OverwriteCheckpointTs = 0\<rparr>]"
proof -
  let ?s = "exampleState (exampleInfo StateNormal)
         [(''capture-1'', \<lparr>PosError = Some (exampleError ''E1''), PosWarning = None\<rparr>)]"
  let ?m = "exampleManager\<lparr>adminJobQueue :=
         [\<lparr>CfID = exampleID, Type = AdminStop, OverwriteCheckpointTs = 0\<rparr>]\<rparr>"
  let ?n = "exampleManager\<lparr>adminJobQueue :=
        [\<lparr>CfID = exampleID, Type = AdminResume, OverwriteCheckpointTs = 0\<rparr>,
         \<lparr>CfID = exampleID, Type = AdminStop, OverwriteCheckpointTs = 0\<rparr>]\<rparr>"
  let ?clock = "\<lparr>timeNow = 100, timeSinceNow = 101\<rparr>"
  have 1: "Info ?s = Some (exampleInfo StateNormal)" by (simp add: exampleState_def)
  have 2: "jobHandled ?m ?s"
    by (simp add: jobHandled_def jobPermitted_def exampleState_def exampleInfo_def)
  have 3: "stateHistory ?m = replicate defaultStateWindowSize StateNormal"
    by (simp add: exampleManager_def)
  have 4: "\<not> jobHandled ?n ?s"
    by (simp add: jobHandled_def jobPermitted_def exampleState_def exampleInfo_def)
  have 5: "State (exampleInfo StateNormal) = StateError \<longrightarrow> Error (exampleInfo StateNormal) \<noteq> None"
    by (simp add: exampleInfo_def)
  have 6: "tl (adminJobQueue ?n) = [\<lparr>CfID = exampleID, Type = AdminStop, OverwriteCheckpointTs = 0\<rparr>]"
    by simp
  from admin_job_exclusive [OF 1, of exampleBackOff exampleClassifier ?clock ?m] 2 3
  obtain m1 where a: "Tick exampleBackOff exampleClassifier ?clock ?s ?m = Inr (True, m1)"
    and b: "stateHistory m1 = replicate defaultStateWindowSize StateNormal"
    by auto
  from admin_job_exclusive [OF 1, of exampleBackOff exampleClassifier ?clock ?n] 4 5
  obtain m2 where c: "Tick exampleBackOff exampleClassifier ?clock ?s ?n = Inr (False, m2)"
    and d: "\<forall>pending m1. Tick exampleBackOff exampleClassifier ?clock ?s ?n = Inr (pending, m1) \<longrightarrow>
               pending = False \<and> adminJobQueue m1 = tl (adminJobQueue ?n)"
    by blast
  from c d have e: "adminJobQueue m2 = tl (adminJobQueue ?n)" by blast
  from 2 4 a b c e 6 show ?thesis by simp
qed

end
